theory Spec2Isabelle
  imports Main "HOL-Library.Word" "HOL-Library.Sublist" "HOL-Library.AList"
    "HOL-Library.Char_ord" "HOL-Library.List_Lexorder"
begin

section \<open>kube-router: pkg/controllers/proxy/service_endpoints_sync.go\<close>

text \<open>
  A shallow embedding of the IPVS sync engine. The file drives the kernel only through
  the \<open>nsc.ln\<close> interface and a handful of functions declared elsewhere; these are
  parameters of the model (records of state-passing functions over a host state \<open>'h\<close>),
  so every theorem holds for every behaviour of the host, failing calls included.
  Go maps that the code iterates are association lists: the list order is the iteration
  order, which Go leaves unspecified, and the theorems hold for every order.
\<close>

subsection \<open>Library functions (strconv, strings, fmt, net)\<close>

text \<open>A Go \<open>error\<close> is its message; the nil error is \<open>None\<close>.\<close>

type_synonym error = string

text \<open>A \<open>net.IP\<close> is represented by the text its \<open>String()\<close> prints; the nil IP is \<open>None\<close>.\<close>

type_synonym IP = "string option"

definition IP_String :: "IP \<Rightarrow> string" where
  "IP_String ip = (case ip of None \<Rightarrow> ''<nil>'' | Some s \<Rightarrow> s)"

definition digit_char :: "nat \<Rightarrow> char" where
  "digit_char d = ''0123456789abcdef'' ! d"

fun format_nat :: "nat \<Rightarrow> nat \<Rightarrow> string" where
  "format_nat b n =
     (if b < 2 \<or> n < b then [digit_char n] else format_nat b (n div b) @ [digit_char (n mod b)])"

declare format_nat.simps [simp del]

text \<open>\<open>strconv.Itoa\<close>: decimal, with a sign for negative values.\<close>

definition Itoa :: "int \<Rightarrow> string" where
  "Itoa i = (if i < 0 then CHR ''-'' # format_nat 10 (nat (- i)) else format_nat 10 (nat i))"

text \<open>\<open>fmt.Sprint\<close> of a \<open>uint32\<close>: decimal.\<close>

definition Sprint_uint32 :: "32 word \<Rightarrow> string" where
  "Sprint_uint32 m = format_nat 10 (unat m)"

text \<open>\<open>strconv.FormatInt(int64(m), 16)\<close> of a \<open>uint32\<close>: lower-case hexadecimal, no prefix.\<close>

definition FormatInt16_uint32 :: "32 word \<Rightarrow> string" where
  "FormatInt16_uint32 m = format_nat 16 (unat m)"

text \<open>\<open>strings.Contains\<close>.\<close>

fun strings_Contains :: "string \<Rightarrow> string \<Rightarrow> bool" where
  "strings_Contains [] sub = (sub = [])"
| "strings_Contains (c # cs) sub = (prefix sub (c # cs) \<or> strings_Contains cs sub)"

text \<open>
  \<open>strings.SplitN(s, sep, n)\<close> for a one-character separator and \<open>n > 0\<close>: at most
  \<open>n\<close> fields, the last one holding the unsplit rest. \<open>cur\<close> is the field being read.
\<close>

fun splitN_go :: "char \<Rightarrow> nat \<Rightarrow> string \<Rightarrow> string \<Rightarrow> string list" where
  "splitN_go sep n cur [] = [cur]"
| "splitN_go sep n cur (c # cs) =
     (if c = sep \<and> 1 < n then cur # splitN_go sep (n - 1) [] cs
      else splitN_go sep n (cur @ [c]) cs)"

definition strings_SplitN :: "string \<Rightarrow> char \<Rightarrow> nat \<Rightarrow> string list" where
  "strings_SplitN s sep n = splitN_go sep n [] s"

text \<open>\<open>strings.Split(s, sep)\<close> for a one-character separator: every field.\<close>

fun split_go :: "char \<Rightarrow> string \<Rightarrow> string \<Rightarrow> string list" where
  "split_go sep cur [] = [cur]"
| "split_go sep cur (c # cs) =
     (if c = sep then cur # split_go sep [] cs else split_go sep (cur @ [c]) cs)"

definition strings_Split :: "string \<Rightarrow> char \<Rightarrow> string list" where
  "strings_Split s sep = split_go sep [] s"

subsection \<open>Data model\<close>

record serviceInfo =
  svc_name :: string
  svc_namespace :: string
  svc_protocol :: string
  clusterIP :: IP
  svc_port :: int
  nodePort :: int
  externalIPs :: "string list"
  loadBalancerIPs :: "string list"
  skipLbIps :: bool
  svc_local :: bool
  sessionAffinity :: bool
  sessionAffinityTimeoutSeconds :: int
  scheduler :: string
  svc_flags :: nat
  directServerReturn :: bool
  directServerReturnMethod :: string

record endpointsInfo =
  ep_ip :: string
  ep_port :: int
  isLocal :: bool

text \<open>
  \<open>serviceInfoMap\<close> and \<open>endpointsInfoMap\<close>, keyed by the service reference. The first
  is iterated (\<open>for k, svc := range serviceInfoMap\<close>), the second only indexed; a missing
  key reads as the nil slice.
\<close>

type_synonym serviceInfoMap = "(string \<times> serviceInfo) list"
type_synonym endpointsInfoMap = "(string \<times> endpointsInfo list) list"

definition endpointsOf :: "endpointsInfoMap \<Rightarrow> string \<Rightarrow> endpointsInfo list" where
  "endpointsOf endpointsInfoMap k = (case map_of endpointsInfoMap k of None \<Rightarrow> [] | Some eps \<Rightarrow> eps)"

text \<open>The fields of \<open>ipvs.Service\<close> and \<open>ipvs.Destination\<close> that this file reads or writes.\<close>

record ipvsService =
  Address :: IP
  Protocol :: "16 word"
  Port :: "16 word"
  FWMark :: "32 word"

record ipvsDestination =
  dAddress :: IP
  dAddressFamily :: "16 word"
  dConnectionFlags :: "32 word"
  dPort :: "16 word"
  dWeight :: int

definition AF_INET :: "16 word" where "AF_INET = 2"
definition IPPROTO_TCP :: "16 word" where "IPPROTO_TCP = 6"
definition IPPROTO_UDP :: "16 word" where "IPPROTO_UDP = 17"
definition IPPROTO_NONE :: "16 word" where "IPPROTO_NONE = 59"
definition ConnectionFlagTunnel :: "32 word" where "ConnectionFlagTunnel = 2"

text \<open>\<open>activeServiceEndpointMap\<close>: service key to the endpoint IDs installed for it.\<close>

type_synonym activeMap = "(string \<times> string list) list"

text \<open>\<open>m[k] = append(m[k], v)\<close>: a missing key reads as the nil slice.\<close>

definition active_append :: "activeMap \<Rightarrow> string \<Rightarrow> string \<Rightarrow> activeMap" where
  "active_append m k v =
     AList.update k ((case map_of m k of None \<Rightarrow> [] | Some l \<Rightarrow> l) @ [v]) m"

text \<open>A \<open>netlink.Link\<close> is opaque here.\<close>

type_synonym link = string

subsection \<open>The host: \<open>nsc.ln\<close> and the other functions declared outside this file\<close>

text \<open>
  Each operation takes the host state and returns its Go results with the new host
  state. A Go function returning \<open>(v, err)\<close> whose \<open>v\<close> the caller reads only when
  \<open>err\<close> is nil returns a sum; \<open>ipvsAddService\<close> and \<open>ipvsGetDestinations\<close>, whose
  value the callers use after an error too, return the pair.
\<close>

record 'h LinuxNetworking =
  ipvsGetServices :: "'h \<Rightarrow> (error + ipvsService list) \<times> 'h"
  getKubeDummyInterface :: "'h \<Rightarrow> (error + link) \<times> 'h"
  ipAddrAdd :: "link \<Rightarrow> string \<Rightarrow> bool \<Rightarrow> 'h \<Rightarrow> error option \<times> 'h"
  ipAddrDel :: "link \<Rightarrow> string \<Rightarrow> 'h \<Rightarrow> error option \<times> 'h"
  ipvsAddService :: "ipvsService list \<Rightarrow> IP \<Rightarrow> 16 word \<Rightarrow> 16 word \<Rightarrow> bool \<Rightarrow> int \<Rightarrow> string
     \<Rightarrow> nat \<Rightarrow> 'h \<Rightarrow> (ipvsService option \<times> error option) \<times> 'h"
  ipvsAddFWMarkService :: "ipvsService list \<Rightarrow> 32 word \<Rightarrow> 16 word \<Rightarrow> 16 word \<Rightarrow> bool \<Rightarrow> int
     \<Rightarrow> string \<Rightarrow> nat \<Rightarrow> 'h \<Rightarrow> (ipvsService option \<times> error option) \<times> 'h"
  ipvsAddServer :: "ipvsService option \<Rightarrow> ipvsDestination \<Rightarrow> 'h \<Rightarrow> error option \<times> 'h"
  ipvsDelService :: "ipvsService \<Rightarrow> 'h \<Rightarrow> error option \<times> 'h"
  ipvsGetDestinations :: "ipvsService \<Rightarrow> 'h \<Rightarrow> (ipvsDestination list \<times> error option) \<times> 'h"
  cleanupMangleTableRule :: "string \<Rightarrow> string \<Rightarrow> string \<Rightarrow> string \<Rightarrow> int \<Rightarrow> 'h
     \<Rightarrow> error option \<times> 'h"
  setupPolicyRoutingForDSR :: "'h \<Rightarrow> error option \<times> 'h"
  setupRoutesForExternalIPForDSR :: "serviceInfoMap \<Rightarrow> 'h \<Rightarrow> error option \<times> 'h"

datatype metric =
  ServiceBpsIn | ServiceBpsOut | ServiceBytesIn | ServiceBytesOut | ServiceCPS
| ServicePacketsIn | ServicePacketsOut | ServicePpsIn | ServicePpsOut | ServiceTotalConn

text \<open>
  Functions of the package, of \<open>utils\<close>, \<open>netlink\<close>, \<open>net\<close> and \<open>metrics\<close> that the file
  calls and that are declared elsewhere. \<open>getAllLocalIPs\<close> and \<open>AddrList\<close> return the
  \<open>IP\<close> field of each address, the only field read. \<open>SaveInto\<close> returns the text
  written into the buffer.
\<close>

record 'h externals =
  getAllLocalIPs :: "'h \<Rightarrow> (error + IP list) \<times> 'h"
  AddrList :: "link \<Rightarrow> 'h \<Rightarrow> (error + IP list) \<times> 'h"
  setupMangleTableRule :: "string \<Rightarrow> string \<Rightarrow> string \<Rightarrow> string \<Rightarrow> int \<Rightarrow> 'h
     \<Rightarrow> error option \<times> 'h"
  routeVIPTrafficToDirector :: "string \<Rightarrow> 'h \<Rightarrow> error option \<times> 'h"
  SaveInto :: "string \<Rightarrow> 'h \<Rightarrow> (error + string) \<times> 'h"
  addDSRIPInsidePodNetNamespace :: "string \<Rightarrow> string \<Rightarrow> 'h \<Rightarrow> error option \<times> 'h"
  ipvsDeleteDestination :: "ipvsService \<Rightarrow> ipvsDestination \<Rightarrow> 'h \<Rightarrow> error option \<times> 'h"
  syncIpvsFirewall :: "'h \<Rightarrow> error option \<times> 'h"
  DeleteLabelValues :: "metric \<Rightarrow> string list \<Rightarrow> 'h \<Rightarrow> 'h"
  ControllerIpvsServicesDec :: "'h \<Rightarrow> 'h"
  ControllerIpvsServicesSyncTimeObserve :: "'h \<Rightarrow> 'h"
  ParseIP :: "string \<Rightarrow> IP"

text \<open>
  The firewall-mark registry \<open>nsc.fwMarkMap\<close>, keyed by the mark, and \<open>nsc.metricsMap\<close>.
\<close>

type_synonym fwMarkMap = "(32 word \<times> string \<times> string \<times> int) list"

text \<open>
  The controller fields the file reads. An \<open>excludedCidrs\<close> entry is represented by its
  \<open>Contains\<close> method. \<open>generateUniqueFWMark\<close> is a method declared elsewhere that reads and
  writes the registry. \<open>IfaceHasAddr\<close>, \<open>IfaceHasNoAddr\<close>, \<open>tunnelInterfaceType\<close> and
  \<open>KubeDummyIf\<close> are package constants declared elsewhere, carried here as parameters.
\<close>

record 'h NetworkServicesController =
  ln :: "'h LinuxNetworking"
  ext :: "'h externals"
  nodeportBindOnAllIP :: bool
  nodeIP :: IP
  excludedCidrs :: "(IP \<Rightarrow> bool) list"
  dsrTCPMSS :: int
  MetricsEnabled :: bool
  generateUniqueFWMark :: "string \<Rightarrow> string \<Rightarrow> string \<Rightarrow> fwMarkMap \<Rightarrow> (error + 32 word) \<times> fwMarkMap"
  IfaceHasAddr :: string
  IfaceHasNoAddr :: string
  tunnelInterfaceType :: string
  KubeDummyIf :: string

text \<open>What a pass mutates: the host, and the two long-lived maps of the controller.\<close>

record 'h state =
  host :: 'h
  fwMarkMap :: fwMarkMap
  metricsMap :: "(string \<times> string list) list"

definition hcall :: "('h \<Rightarrow> 'r \<times> 'h) \<Rightarrow> 'h state \<Rightarrow> 'r \<times> 'h state" where
  "hcall op s = (case op (host s) of (r, h') \<Rightarrow> (r, s\<lparr>host := h'\<rparr>))"

definition hdo :: "('h \<Rightarrow> 'h) \<Rightarrow> 'h state \<Rightarrow> 'h state" where
  "hdo op s = s\<lparr>host := op (host s)\<rparr>"

subsection \<open>Identity and mark registry helpers\<close>

text \<open>
  Modelled from the spec: \<open>generateIPPortID\<close>, declared outside this file; the spec's
  \<open>serviceKey(ip, proto, port)\<close> is \<open>"<ip>-<proto>-<port>"\<close>.
\<close>

definition generateIPPortID :: "string \<Rightarrow> string \<Rightarrow> string \<Rightarrow> string" where
  "generateIPPortID ip protocol port = ip @ ''-'' @ protocol @ ''-'' @ port"

text \<open>
  Modelled from the spec: \<open>generateEndpointID\<close>, declared outside this file; the spec's
  \<open>endpointID(ip, port)\<close> is \<open>"<ip>:<port>"\<close>.
\<close>

definition generateEndpointID :: "string \<Rightarrow> string \<Rightarrow> string" where
  "generateEndpointID ip port = ip @ '':'' @ port"

text \<open>
  Modelled from the spec: \<open>hasActiveEndpoints\<close>, declared outside this file; the spec's
  "any backend on this node exists".
\<close>

definition hasActiveEndpoints :: "endpointsInfo list \<Rightarrow> bool" where
  "hasActiveEndpoints endpoints = list_ex isLocal endpoints"

text \<open>
  Modelled from the spec: the protocol conversions, declared outside this file. The
  service protocol is \<open>tcp\<close> or \<open>udp\<close>; a kernel protocol number that is neither has no
  textual form, which is \<open>noneProtocol\<close>.
\<close>

definition noneProtocol :: string where "noneProtocol = ''none''"

definition convertSvcProtoToSysCallProto :: "string \<Rightarrow> 16 word" where
  "convertSvcProtoToSysCallProto p =
     (if p = ''tcp'' then IPPROTO_TCP else if p = ''udp'' then IPPROTO_UDP else IPPROTO_NONE)"

definition convertSysCallProtoToSvcProto :: "16 word \<Rightarrow> string" where
  "convertSysCallProtoToSvcProto p =
     (if p = IPPROTO_TCP then ''tcp'' else if p = IPPROTO_UDP then ''udp'' else noneProtocol)"

text \<open>
  Modelled from the spec: \<open>lookupServiceByFWMark\<close>, declared outside this file; the spec's
  \<open>lookupTuple(mark) \<rightarrow> (ip, proto, port) | err\<close>.
\<close>

definition lookupServiceByFWMark :: "fwMarkMap \<Rightarrow> 32 word \<Rightarrow> error + (string \<times> string \<times> int)" where
  "lookupServiceByFWMark m fwMark =
     (case map_of m fwMark of
        None \<Rightarrow> Inl ''could not find service matching the given FW mark''
      | Some t \<Rightarrow> Inr t)"

text \<open>
  Modelled from the spec: \<open>lookupFWMarkByService\<close>, declared outside this file; the spec's
  \<open>lookupMark(ip, proto, port) \<rightarrow> mark | 0\<close>, 0 when absent.
\<close>

fun lookupFWMarkByService :: "fwMarkMap \<Rightarrow> string \<Rightarrow> string \<Rightarrow> string \<Rightarrow> 32 word" where
  "lookupFWMarkByService [] ip protocol port = 0"
| "lookupFWMarkByService ((fwMark, (i, p, n)) # m) ip protocol port =
     (if i = ip \<and> p = protocol \<and> Itoa n = port then fwMark
      else lookupFWMarkByService m ip protocol port)"

subsection \<open>\<open>cleanupDSRService\<close>\<close>

text \<open>
  The scan of the saved mangle table (\<open>for _, mangleTableRule := range mangleTableRules\<close>):
  a failed cleanup goes on to the next line (\<open>continue\<close>), a successful one leaves the
  loop (\<open>break\<close>). \<open>int(fwMark)\<close> is the mark's value (a 64-bit \<open>int\<close>).
\<close>

fun cleanupDSRService_rules ::
  "'h NetworkServicesController \<Rightarrow> string \<Rightarrow> string \<Rightarrow> int \<Rightarrow> 32 word \<Rightarrow> string \<Rightarrow> string list
     \<Rightarrow> 'h state \<Rightarrow> 'h state" where
  "cleanupDSRService_rules nsc ipAddress proto port fwMark fwMarkStr [] s = s"
| "cleanupDSRService_rules nsc ipAddress proto port fwMark fwMarkStr (mangleTableRule # rest) s =
     (if strings_Contains mangleTableRule ipAddress \<and> strings_Contains mangleTableRule fwMarkStr then
        (case hcall (cleanupMangleTableRule (ln nsc) ipAddress proto (Itoa port)
                       (Itoa (uint fwMark)) (dsrTCPMSS nsc)) s of
           (Some err, s1) \<Rightarrow> cleanupDSRService_rules nsc ipAddress proto port fwMark fwMarkStr rest s1
         | (None, s1) \<Rightarrow> s1)
      else cleanupDSRService_rules nsc ipAddress proto port fwMark fwMarkStr rest s)"

definition cleanupDSRService ::
  "'h NetworkServicesController \<Rightarrow> 32 word \<Rightarrow> 'h state \<Rightarrow> error option \<times> 'h state" where
  "cleanupDSRService nsc fwMark s =
     (case lookupServiceByFWMark (fwMarkMap s) fwMark of
        Inl err \<Rightarrow>
          (Some (''no service was found for FW mark: '' @ Sprint_uint32 fwMark
                 @ '', service may not be all the way cleaned up: '' @ err), s)
      | Inr (ipAddress, proto, port) \<Rightarrow>
          (case hcall (SaveInto (ext nsc) ''mangle'') s of
             (saved, s1) \<Rightarrow>
               (let mangleTableRules =
                      (case saved of Inl err \<Rightarrow> [] | Inr dump \<Rightarrow> strings_Split dump (CHR 0x0A));
                    fwMarkStr = FormatInt16_uint32 fwMark;
                    s2 = cleanupDSRService_rules nsc ipAddress proto port fwMark fwMarkStr
                           mangleTableRules s1
                in (None, s2\<lparr>fwMarkMap := AList.delete fwMark (fwMarkMap s2)\<rparr>))))"

subsection \<open>\<open>cleanupStaleVIPs\<close>\<close>

text \<open>
  \<open>addrActive\<close>: the first dash-separated field of every key that contains a dash.
  \<open>strings.SplitN\<close> never returns an empty slice, so \<open>parts[0]\<close> exists.
\<close>

fun addrActive_of :: "string list \<Rightarrow> string list" where
  "addrActive_of [] = []"
| "addrActive_of (k # ks) =
     (if strings_Contains k ''-'' then hd (strings_SplitN k (CHR ''-'') 3) # addrActive_of ks
      else addrActive_of ks)"

fun cleanupStaleVIPs_addrs ::
  "'h NetworkServicesController \<Rightarrow> string list \<Rightarrow> link \<Rightarrow> IP list \<Rightarrow> 'h state \<Rightarrow> 'h state" where
  "cleanupStaleVIPs_addrs nsc addrActive dummyVipInterface [] s = s"
| "cleanupStaleVIPs_addrs nsc addrActive dummyVipInterface (addr # addrs) s =
     (if IP_String addr \<in> set addrActive then
        cleanupStaleVIPs_addrs nsc addrActive dummyVipInterface addrs s
      else
        (case hcall (ipAddrDel (ln nsc) dummyVipInterface (IP_String addr)) s of
           (err, s1) \<Rightarrow> cleanupStaleVIPs_addrs nsc addrActive dummyVipInterface addrs s1))"

definition cleanupStaleVIPs ::
  "'h NetworkServicesController \<Rightarrow> activeMap \<Rightarrow> 'h state \<Rightarrow> error option \<times> 'h state" where
  "cleanupStaleVIPs nsc activeServiceEndpointMap s =
     (let addrActive = addrActive_of (map fst activeServiceEndpointMap) in
      case hcall (getKubeDummyInterface (ln nsc)) s of
        (Inl err, s1) \<Rightarrow> (Some (''Failed creating dummy interface: '' @ err), s1)
      | (Inr dummyVipInterface, s1) \<Rightarrow>
          (case hcall (AddrList (ext nsc) dummyVipInterface) s1 of
             (Inl err, s2) \<Rightarrow> (Some (''Failed to list dummy interface IPs: '' @ err), s2)
           | (Inr addrs, s2) \<Rightarrow>
               (None, cleanupStaleVIPs_addrs nsc addrActive dummyVipInterface addrs s2)))"

subsection \<open>\<open>cleanupStaleIPVSConfig\<close>\<close>

text \<open>
  The key of an installed entry (the protocol guard and the \<open>switch\<close>); \<open>None\<close> where the
  loop body ends with \<open>continue\<close> before a key is used.
\<close>

definition ipvsSvcKey :: "ipvsService \<Rightarrow> string option" where
  "ipvsSvcKey ipvsSvc =
     (let protocol = convertSysCallProtoToSvcProto (Protocol ipvsSvc) in
      if protocol = noneProtocol \<and> FWMark ipvsSvc = 0 then None
      else
        (case Address ipvsSvc of
           Some a \<Rightarrow>
             Some (generateIPPortID (IP_String (Address ipvsSvc)) protocol
                     (Itoa (uint (Port ipvsSvc))))
         | None \<Rightarrow>
             if FWMark ipvsSvc \<noteq> 0 then Some (Sprint_uint32 (FWMark ipvsSvc)) else None))"

definition dstEndpointID :: "ipvsDestination \<Rightarrow> string" where
  "dstEndpointID dst = generateEndpointID (IP_String (dAddress dst)) (Itoa (uint (dPort dst)))"

fun cleanupStaleIPVSConfig_dsts ::
  "'h NetworkServicesController \<Rightarrow> ipvsService \<Rightarrow> string list \<Rightarrow> ipvsDestination list
     \<Rightarrow> 'h state \<Rightarrow> 'h state" where
  "cleanupStaleIPVSConfig_dsts nsc ipvsSvc endpointIDs [] s = s"
| "cleanupStaleIPVSConfig_dsts nsc ipvsSvc endpointIDs (dst # dsts) s =
     (if dstEndpointID dst \<in> set endpointIDs then
        cleanupStaleIPVSConfig_dsts nsc ipvsSvc endpointIDs dsts s
      else
        (case hcall (ipvsDeleteDestination (ext nsc) ipvsSvc dst) s of
           (err, s1) \<Rightarrow> cleanupStaleIPVSConfig_dsts nsc ipvsSvc endpointIDs dsts s1))"

text \<open>One iteration of \<open>for _, ipvsSvc := range ipvsSvcs\<close>.\<close>

definition cleanupStaleIPVSConfig_svc ::
  "'h NetworkServicesController \<Rightarrow> activeMap \<Rightarrow> ipvsService \<Rightarrow> 'h state \<Rightarrow> 'h state" where
  "cleanupStaleIPVSConfig_svc nsc activeServiceEndpointMap ipvsSvc s =
     (case ipvsSvcKey ipvsSvc of
        None \<Rightarrow> s
      | Some key \<Rightarrow>
          (case map_of activeServiceEndpointMap key of
             None \<Rightarrow>
               if list_ex (\<lambda>excludedCidr. excludedCidr (Address ipvsSvc)) (excludedCidrs nsc)
               then s
               else
                 (let s1 =
                        (if FWMark ipvsSvc \<noteq> 0 then
                           (case lookupServiceByFWMark (fwMarkMap s) (FWMark ipvsSvc) of
                              Inl err \<Rightarrow> s
                            | Inr t \<Rightarrow> snd (cleanupDSRService nsc (FWMark ipvsSvc) s))
                         else s)
                  in snd (hcall (ipvsDelService (ln nsc) ipvsSvc) s1))
           | Some endpointIDs \<Rightarrow>
               (case hcall (ipvsGetDestinations (ln nsc) ipvsSvc) s of
                  ((dsts, err), s1) \<Rightarrow>
                    cleanupStaleIPVSConfig_dsts nsc ipvsSvc endpointIDs dsts s1)))"

definition cleanupStaleIPVSConfig ::
  "'h NetworkServicesController \<Rightarrow> activeMap \<Rightarrow> 'h state \<Rightarrow> error option \<times> 'h state" where
  "cleanupStaleIPVSConfig nsc activeServiceEndpointMap s =
     (case hcall (ipvsGetServices (ln nsc)) s of
        (Inl err, s1) \<Rightarrow> (Some (''failed get list of IPVS services due to: '' @ err), s1)
      | (Inr ipvsSvcs, s1) \<Rightarrow>
          (None, fold (cleanupStaleIPVSConfig_svc nsc activeServiceEndpointMap) ipvsSvcs s1))"

subsection \<open>\<open>cleanupStaleMetrics\<close> and \<open>setupForDSR\<close>\<close>

definition cleanupStaleMetrics_entry ::
  "'h NetworkServicesController \<Rightarrow> activeMap \<Rightarrow> string \<times> string list \<Rightarrow> 'h state \<Rightarrow> 'h state" where
  "cleanupStaleMetrics_entry nsc activeServiceEndpointMap kv s =
     (case kv of (k, v) \<Rightarrow>
        (case map_of activeServiceEndpointMap k of
           Some ids \<Rightarrow> s
         | None \<Rightarrow>
             (let s1 = fold (\<lambda>m. hdo (DeleteLabelValues (ext nsc) m v))
                         [ServiceBpsIn, ServiceBpsOut, ServiceBytesIn, ServiceBytesOut,
                          ServiceCPS, ServicePacketsIn, ServicePacketsOut, ServicePpsIn,
                          ServicePpsOut, ServiceTotalConn] s;
                  s2 = hdo (ControllerIpvsServicesDec (ext nsc)) s1
              in s2\<lparr>metricsMap := AList.delete k (metricsMap s2)\<rparr>)))"

definition cleanupStaleMetrics ::
  "'h NetworkServicesController \<Rightarrow> activeMap \<Rightarrow> 'h state \<Rightarrow> 'h state" where
  "cleanupStaleMetrics nsc activeServiceEndpointMap s =
     fold (cleanupStaleMetrics_entry nsc activeServiceEndpointMap) (metricsMap s) s"

definition setupForDSR ::
  "'h NetworkServicesController \<Rightarrow> serviceInfoMap \<Rightarrow> 'h state \<Rightarrow> error option \<times> 'h state" where
  "setupForDSR nsc serviceInfoMap s =
     (case hcall (setupPolicyRoutingForDSR (ln nsc)) s of
        (Some err, s1) \<Rightarrow> (Some (''Failed setup PBR for DSR due to: '' @ err), s1)
      | (None, s1) \<Rightarrow>
          (case hcall (setupRoutesForExternalIPForDSR (ln nsc) serviceInfoMap) s1 of
             (Some err, s2) \<Rightarrow>
               (Some (''failed setup custom routing table required to add routes for external IP's due to: ''
                      @ err), s2)
           | (None, s2) \<Rightarrow> (None, s2)))"

subsection \<open>\<open>setupClusterIPServices\<close>\<close>

definition mkDestination :: "'h NetworkServicesController \<Rightarrow> endpointsInfo \<Rightarrow> ipvsDestination" where
  "mkDestination nsc endpoint =
     \<lparr>dAddress = ParseIP (ext nsc) (ep_ip endpoint), dAddressFamily = AF_INET,
      dConnectionFlags = 0, dPort = word_of_int (ep_port endpoint), dWeight = 1\<rparr>"

definition endpointID :: "endpointsInfo \<Rightarrow> string" where
  "endpointID endpoint = generateEndpointID (ep_ip endpoint) (Itoa (ep_port endpoint))"

text \<open>
  The inner loop \<open>for _, endpoint := range endpoints\<close>; \<open>endpoints\<close> is the whole slice
  (read by \<open>hasActiveEndpoints\<close>), the list argument what is left to visit.
\<close>

fun setupClusterIPServices_endpoints ::
  "'h NetworkServicesController \<Rightarrow> serviceInfo \<Rightarrow> endpointsInfo list \<Rightarrow> ipvsService option \<Rightarrow> string
     \<Rightarrow> endpointsInfo list \<Rightarrow> activeMap \<times> 'h state \<Rightarrow> activeMap \<times> 'h state" where
  "setupClusterIPServices_endpoints nsc svc endpoints ipvsClusterVipSvc clusterServiceID [] (a, s) = (a, s)"
| "setupClusterIPServices_endpoints nsc svc endpoints ipvsClusterVipSvc clusterServiceID (endpoint # rest) (a, s) =
     (if svc_local svc \<and> hasActiveEndpoints endpoints \<and> \<not> isLocal endpoint then
        setupClusterIPServices_endpoints nsc svc endpoints ipvsClusterVipSvc clusterServiceID rest (a, s)
      else
        (case hcall (ipvsAddServer (ln nsc) ipvsClusterVipSvc (mkDestination nsc endpoint)) s of
           (Some err, s1) \<Rightarrow>
             setupClusterIPServices_endpoints nsc svc endpoints ipvsClusterVipSvc clusterServiceID rest (a, s1)
         | (None, s1) \<Rightarrow>
             setupClusterIPServices_endpoints nsc svc endpoints ipvsClusterVipSvc clusterServiceID rest
               (active_append a clusterServiceID (endpointID endpoint), s1)))"

text \<open>The outer loop \<open>for k, svc := range serviceInfoMap\<close>.\<close>

fun setupClusterIPServices_loop ::
  "'h NetworkServicesController \<Rightarrow> endpointsInfoMap \<Rightarrow> ipvsService list \<Rightarrow> serviceInfoMap
     \<Rightarrow> activeMap \<times> 'h state \<Rightarrow> error option \<times> activeMap \<times> 'h state" where
  "setupClusterIPServices_loop nsc endpointsInfoMap ipvsSvcs [] (a, s) = (None, a, s)"
| "setupClusterIPServices_loop nsc endpointsInfoMap ipvsSvcs ((k, svc) # rest) (a, s) =
     (let protocol = convertSvcProtoToSysCallProto (svc_protocol svc);
          endpoints = endpointsOf endpointsInfoMap k
      in case hcall (getKubeDummyInterface (ln nsc)) s of
        (Inl err, s1) \<Rightarrow> (Some (''Failed creating dummy interface: '' @ err), a, s1)
      | (Inr dummyVipInterface, s1) \<Rightarrow>
          (case hcall (ipAddrAdd (ln nsc) dummyVipInterface (IP_String (clusterIP svc)) True) s1 of
             (Some err, s2) \<Rightarrow> setupClusterIPServices_loop nsc endpointsInfoMap ipvsSvcs rest (a, s2)
           | (None, s2) \<Rightarrow>
               (case hcall (ipvsAddService (ln nsc) ipvsSvcs (clusterIP svc) protocol
                              (word_of_int (svc_port svc)) (sessionAffinity svc)
                              (sessionAffinityTimeoutSeconds svc) (scheduler svc) (svc_flags svc)) s2 of
                  ((ipvsClusterVipSvc, Some err), s3) \<Rightarrow>
                    setupClusterIPServices_loop nsc endpointsInfoMap ipvsSvcs rest (a, s3)
                | ((ipvsClusterVipSvc, None), s3) \<Rightarrow>
                    (let clusterServiceID =
                           generateIPPortID (IP_String (clusterIP svc)) (svc_protocol svc)
                             (Itoa (svc_port svc))
                     in setupClusterIPServices_loop nsc endpointsInfoMap ipvsSvcs rest
                          (setupClusterIPServices_endpoints nsc svc endpoints ipvsClusterVipSvc
                             clusterServiceID endpoints
                             (AList.update clusterServiceID [] a, s3))))))"

definition setupClusterIPServices ::
  "'h NetworkServicesController \<Rightarrow> serviceInfoMap \<Rightarrow> endpointsInfoMap \<Rightarrow> activeMap \<Rightarrow> 'h state
     \<Rightarrow> error option \<times> activeMap \<times> 'h state" where
  "setupClusterIPServices nsc serviceInfoMap endpointsInfoMap activeServiceEndpointMap s =
     (case hcall (ipvsGetServices (ln nsc)) s of
        (Inl err, s1) \<Rightarrow>
          (Some (''Failed get list of IPVS services due to: '' @ err), activeServiceEndpointMap, s1)
      | (Inr ipvsSvcs, s1) \<Rightarrow>
          setupClusterIPServices_loop nsc endpointsInfoMap ipvsSvcs serviceInfoMap
            (activeServiceEndpointMap, s1))"

subsection \<open>\<open>setupNodePortServices\<close>\<close>

text \<open>
  The two parallel slices \<open>ipvsNodeportSvcs\<close> and \<open>nodeServiceIds\<close> are one list of
  (handle, id) slots. With \<open>nodeportBindOnAllIP\<close>, slot \<open>i\<close> takes whatever handle
  \<open>ipvsAddService\<close> returned for address \<open>i\<close>; on an error the loop goes on (\<open>continue\<close>)
  and the slot's id stays the empty string \<open>make\<close> put there.
\<close>

fun setupNodePortServices_addrs ::
  "'h NetworkServicesController \<Rightarrow> serviceInfo \<Rightarrow> ipvsService list \<Rightarrow> 16 word \<Rightarrow> IP list
     \<Rightarrow> activeMap \<times> 'h state \<Rightarrow> (ipvsService option \<times> string) list \<times> activeMap \<times> 'h state" where
  "setupNodePortServices_addrs nsc svc ipvsSvcs protocol [] (a, s) = ([], a, s)"
| "setupNodePortServices_addrs nsc svc ipvsSvcs protocol (addr # addrs) (a, s) =
     (case hcall (ipvsAddService (ln nsc) ipvsSvcs addr protocol (word_of_int (nodePort svc))
                    (sessionAffinity svc) (sessionAffinityTimeoutSeconds svc) (scheduler svc)
                    (svc_flags svc)) s of
        ((h, Some err), s1) \<Rightarrow>
          (case setupNodePortServices_addrs nsc svc ipvsSvcs protocol addrs (a, s1) of
             (slots, a', s') \<Rightarrow> ((h, []) # slots, a', s'))
      | ((h, None), s1) \<Rightarrow>
          (let nodeServiceId =
                 generateIPPortID (IP_String addr) (svc_protocol svc) (Itoa (nodePort svc))
           in case setupNodePortServices_addrs nsc svc ipvsSvcs protocol addrs
                     (AList.update nodeServiceId [] a, s1) of
                (slots, a', s') \<Rightarrow> ((h, nodeServiceId) # slots, a', s')))"

text \<open>\<open>for i := 0; i < len(ipvsNodeportSvcs); i++\<close>, for one endpoint.\<close>

fun setupNodePortServices_slots ::
  "'h NetworkServicesController \<Rightarrow> serviceInfo \<Rightarrow> endpointsInfo \<Rightarrow> (ipvsService option \<times> string) list
     \<Rightarrow> activeMap \<times> 'h state \<Rightarrow> activeMap \<times> 'h state" where
  "setupNodePortServices_slots nsc svc endpoint [] (a, s) = (a, s)"
| "setupNodePortServices_slots nsc svc endpoint ((h, nodeServiceId) # slots) (a, s) =
     (if \<not> svc_local svc \<or> (svc_local svc \<and> isLocal endpoint) then
        (case hcall (ipvsAddServer (ln nsc) h (mkDestination nsc endpoint)) s of
           (Some err, s1) \<Rightarrow> setupNodePortServices_slots nsc svc endpoint slots (a, s1)
         | (None, s1) \<Rightarrow>
             setupNodePortServices_slots nsc svc endpoint slots
               (active_append a nodeServiceId (endpointID endpoint), s1))
      else setupNodePortServices_slots nsc svc endpoint slots (a, s))"

fun setupNodePortServices_endpoints ::
  "'h NetworkServicesController \<Rightarrow> serviceInfo \<Rightarrow> (ipvsService option \<times> string) list
     \<Rightarrow> endpointsInfo list \<Rightarrow> activeMap \<times> 'h state \<Rightarrow> activeMap \<times> 'h state" where
  "setupNodePortServices_endpoints nsc svc slots [] (a, s) = (a, s)"
| "setupNodePortServices_endpoints nsc svc slots (endpoint # rest) (a, s) =
     setupNodePortServices_endpoints nsc svc slots rest
       (setupNodePortServices_slots nsc svc endpoint slots (a, s))"

fun setupNodePortServices_loop ::
  "'h NetworkServicesController \<Rightarrow> endpointsInfoMap \<Rightarrow> ipvsService list \<Rightarrow> serviceInfoMap
     \<Rightarrow> activeMap \<times> 'h state \<Rightarrow> activeMap \<times> 'h state" where
  "setupNodePortServices_loop nsc endpointsInfoMap ipvsSvcs [] (a, s) = (a, s)"
| "setupNodePortServices_loop nsc endpointsInfoMap ipvsSvcs ((k, svc) # rest) (a, s) =
     (let protocol = convertSvcProtoToSysCallProto (svc_protocol svc) in
      if nodePort svc = 0 then setupNodePortServices_loop nsc endpointsInfoMap ipvsSvcs rest (a, s)
      else
        (let endpoints = endpointsOf endpointsInfoMap k in
         if svc_local svc \<and> \<not> hasActiveEndpoints endpoints then
           setupNodePortServices_loop nsc endpointsInfoMap ipvsSvcs rest (a, s)
         else if nodeportBindOnAllIP nsc then
           (case hcall (getAllLocalIPs (ext nsc)) s of
              (Inl err, s1) \<Rightarrow> setupNodePortServices_loop nsc endpointsInfoMap ipvsSvcs rest (a, s1)
            | (Inr addrs, s1) \<Rightarrow>
                if length addrs = 0 then
                  setupNodePortServices_loop nsc endpointsInfoMap ipvsSvcs rest (a, s1)
                else
                  (case setupNodePortServices_addrs nsc svc ipvsSvcs protocol addrs (a, s1) of
                     (slots, a2, s2) \<Rightarrow>
                       setupNodePortServices_loop nsc endpointsInfoMap ipvsSvcs rest
                         (setupNodePortServices_endpoints nsc svc slots endpoints (a2, s2))))
         else
           (case hcall (ipvsAddService (ln nsc) ipvsSvcs (nodeIP nsc) protocol
                          (word_of_int (nodePort svc)) (sessionAffinity svc)
                          (sessionAffinityTimeoutSeconds svc) (scheduler svc) (svc_flags svc)) s of
              ((h, Some err), s1) \<Rightarrow>
                setupNodePortServices_loop nsc endpointsInfoMap ipvsSvcs rest (a, s1)
            | ((h, None), s1) \<Rightarrow>
                (let nodeServiceId =
                       generateIPPortID (IP_String (nodeIP nsc)) (svc_protocol svc)
                         (Itoa (nodePort svc))
                 in setupNodePortServices_loop nsc endpointsInfoMap ipvsSvcs rest
                      (setupNodePortServices_endpoints nsc svc [(h, nodeServiceId)] endpoints
                         (AList.update nodeServiceId [] a, s1))))))"

definition setupNodePortServices ::
  "'h NetworkServicesController \<Rightarrow> serviceInfoMap \<Rightarrow> endpointsInfoMap \<Rightarrow> activeMap \<Rightarrow> 'h state
     \<Rightarrow> error option \<times> activeMap \<times> 'h state" where
  "setupNodePortServices nsc serviceInfoMap endpointsInfoMap activeServiceEndpointMap s =
     (case hcall (ipvsGetServices (ln nsc)) s of
        (Inl err, s1) \<Rightarrow>
          (Some (''Failed get list of IPVS services due to: '' @ err), activeServiceEndpointMap, s1)
      | (Inr ipvsSvcs, s1) \<Rightarrow>
          (case setupNodePortServices_loop nsc endpointsInfoMap ipvsSvcs serviceInfoMap
                  (activeServiceEndpointMap, s1) of
             (a, s2) \<Rightarrow> (None, a, s2)))"

subsection \<open>\<open>setupExternalIPForService\<close>\<close>

text \<open>\<open>err != nil && err.Error() != c\<close>: the error, unless it is nil or reads \<open>c\<close>.\<close>

definition errorOtherThan :: "error option \<Rightarrow> string \<Rightarrow> error option" where
  "errorOtherThan err c = (case err of None \<Rightarrow> None | Some e \<Rightarrow> if e = c then None else Some e)"

fun setupExternalIPForService_endpoints ::
  "'h NetworkServicesController \<Rightarrow> serviceInfo \<Rightarrow> string \<Rightarrow> ipvsService option
     \<Rightarrow> endpointsInfo list \<Rightarrow> 'h state \<Rightarrow> error option \<times> 'h state" where
  "setupExternalIPForService_endpoints nsc svc externalIP ipvsExternalIPSvc [] s = (None, s)"
| "setupExternalIPForService_endpoints nsc svc externalIP ipvsExternalIPSvc (endpoint # rest) s =
     (if svc_local svc \<and> \<not> isLocal endpoint then
        setupExternalIPForService_endpoints nsc svc externalIP ipvsExternalIPSvc rest s
      else
        (case hcall (ipvsAddServer (ln nsc) ipvsExternalIPSvc (mkDestination nsc endpoint)) s of
           (Some err, s1) \<Rightarrow>
             (Some (''unable to add destination '' @ ep_ip endpoint @ '' to externalIP service ''
                    @ externalIP @ '': '' @ err), s1)
         | (None, s1) \<Rightarrow>
             setupExternalIPForService_endpoints nsc svc externalIP ipvsExternalIPSvc rest s1))"

definition setupExternalIPForService ::
  "'h NetworkServicesController \<Rightarrow> serviceInfo \<Rightarrow> string \<Rightarrow> endpointsInfo list \<Rightarrow> 'h state
     \<Rightarrow> error option \<times> 'h state" where
  "setupExternalIPForService nsc svc externalIP endpoints s =
     (let protocol = convertSvcProtoToSysCallProto (svc_protocol svc) in
      case hcall (getKubeDummyInterface (ln nsc)) s of
        (Inl err, s1) \<Rightarrow> (Some (''failed creating dummy interface: '' @ err), s1)
      | (Inr dummyVipInterface, s1) \<Rightarrow>
      (case hcall (ipvsGetServices (ln nsc)) s1 of
        (Inl err, s2) \<Rightarrow> (Some (''failed get list of IPVS services due to: '' @ err), s2)
      | (Inr ipvsSvcs, s2) \<Rightarrow>
      (case hcall (ipAddrAdd (ln nsc) dummyVipInterface externalIP True) s2 of
        (added, s3) \<Rightarrow>
      (case errorOtherThan added (IfaceHasAddr nsc) of
        Some err \<Rightarrow>
          (Some (''failed to assign external ip '' @ externalIP @ '' to dummy interface ''
                 @ KubeDummyIf nsc @ '' due to '' @ err), s3)
      | None \<Rightarrow>
      (case hcall (ipvsAddService (ln nsc) ipvsSvcs (ParseIP (ext nsc) externalIP) protocol
                     (word_of_int (svc_port svc)) (sessionAffinity svc)
                     (sessionAffinityTimeoutSeconds svc) (scheduler svc) (svc_flags svc)) s3 of
        ((ipvsExternalIPSvc, Some err), s4) \<Rightarrow>
          (Some (''failed to create ipvs service for external ip: '' @ externalIP @ '' due to ''
                 @ err), s4)
      | ((ipvsExternalIPSvc, None), s4) \<Rightarrow>
      (let fwMark = lookupFWMarkByService (fwMarkMap s4) externalIP (svc_protocol svc)
                      (Itoa (svc_port svc))
       in case (if fwMark = 0 then (None, s4) else cleanupDSRService nsc fwMark s4) of
        (Some err, s5) \<Rightarrow> (Some (''failed to cleanup DSR service: '' @ err), s5)
      | (None, s5) \<Rightarrow>
          setupExternalIPForService_endpoints nsc svc externalIP ipvsExternalIPSvc endpoints s5))))))"

subsection \<open>\<open>setupExternalIPForDSRService\<close>\<close>

fun setupExternalIPForDSRService_endpoints ::
  "'h NetworkServicesController \<Rightarrow> serviceInfo \<Rightarrow> string \<Rightarrow> ipvsService option
     \<Rightarrow> endpointsInfo list \<Rightarrow> 'h state \<Rightarrow> error option \<times> 'h state" where
  "setupExternalIPForDSRService_endpoints nsc svc externalIP ipvsExternalIPSvc [] s = (None, s)"
| "setupExternalIPForDSRService_endpoints nsc svc externalIP ipvsExternalIPSvc (endpoint # rest) s =
     (if svc_local svc \<and> \<not> isLocal endpoint then
        setupExternalIPForDSRService_endpoints nsc svc externalIP ipvsExternalIPSvc rest s
      else
        (case hcall (ipvsAddServer (ln nsc) ipvsExternalIPSvc
                       ((mkDestination nsc endpoint)\<lparr>dConnectionFlags := ConnectionFlagTunnel\<rparr>)) s of
           (Some err, s1) \<Rightarrow>
             (Some (''unable to add destination '' @ ep_ip endpoint @ '' to externalIP service ''
                    @ externalIP @ '': '' @ err), s1)
         | (None, s1) \<Rightarrow>
             (case hcall (addDSRIPInsidePodNetNamespace (ext nsc) externalIP (ep_ip endpoint)) s1 of
                (Some err, s2) \<Rightarrow> (Some (''unable to setup DSR receiver inside pod: '' @ err), s2)
              | (None, s2) \<Rightarrow>
                  setupExternalIPForDSRService_endpoints nsc svc externalIP ipvsExternalIPSvc rest s2)))"

definition setupExternalIPForDSRService ::
  "'h NetworkServicesController \<Rightarrow> serviceInfo \<Rightarrow> string \<Rightarrow> endpointsInfo list \<Rightarrow> 'h state
     \<Rightarrow> error option \<times> 'h state" where
  "setupExternalIPForDSRService nsc svc externalIP endpoints s =
     (let protocol = convertSvcProtoToSysCallProto (svc_protocol svc) in
      case hcall (getKubeDummyInterface (ln nsc)) s of
        (Inl err, s1) \<Rightarrow> (Some (''Failed creating dummy interface: '' @ err), s1)
      | (Inr dummyVipInterface, s1) \<Rightarrow>
      (case hcall (ipvsGetServices (ln nsc)) s1 of
        (Inl err, s2) \<Rightarrow> (Some (''Failed get list of IPVS services due to: '' @ err), s2)
      | (Inr ipvsSvcs, s2) \<Rightarrow>
      (case generateUniqueFWMark nsc externalIP (svc_protocol svc) (Itoa (svc_port svc))
              (fwMarkMap s2) of
        (Inl err, m) \<Rightarrow> (Some ''failed to generate FW mark'', s2\<lparr>fwMarkMap := m\<rparr>)
      | (Inr fwMark, m) \<Rightarrow>
      (case hcall (ipvsAddFWMarkService (ln nsc) ipvsSvcs fwMark protocol
                     (word_of_int (svc_port svc)) (sessionAffinity svc)
                     (sessionAffinityTimeoutSeconds svc) (scheduler svc) (svc_flags svc))
              (s2\<lparr>fwMarkMap := m\<rparr>) of
        ((ipvsExternalIPSvc, Some err), s3) \<Rightarrow>
          (Some (''failed to create IPVS service for External IP: '' @ externalIP
                 @ '' due to: '' @ err), s3)
      | ((ipvsExternalIPSvc, None), s3) \<Rightarrow>
      (let externalIPServiceID = Sprint_uint32 fwMark in
       case hcall (setupMangleTableRule (ext nsc) externalIP (svc_protocol svc)
                     (Itoa (svc_port svc)) externalIPServiceID (dsrTCPMSS nsc)) s3 of
        (Some err, s4) \<Rightarrow>
          (Some ''failed to setup mangle table rule to forward the traffic to external IP'', s4)
      | (None, s4) \<Rightarrow>
      (case hcall (ipAddrDel (ln nsc) dummyVipInterface externalIP) s4 of
        (deleted, s5) \<Rightarrow>
      (case errorOtherThan deleted (IfaceHasNoAddr nsc) of
        Some err \<Rightarrow>
          (Some (''failed to delete external ip address from dummyVipInterface due to '' @ err), s5)
      | None \<Rightarrow>
      (case hcall (routeVIPTrafficToDirector (ext nsc) (''0x'' @ FormatInt16_uint32 fwMark)) s5 of
        (Some err, s6) \<Rightarrow>
          (Some (''failed to setup ip rule to lookup traffic to external IP: '' @ externalIP
                 @ '' through custom route table due to '' @ err), s6)
      | (None, s6) \<Rightarrow>
          setupExternalIPForDSRService_endpoints nsc svc externalIP ipvsExternalIPSvc endpoints
            s6))))))))"

subsection \<open>\<open>setupExternalIPServices\<close>\<close>

text \<open>The endpoint IDs recorded for an external IP once its setup returned nil.\<close>

fun setupExternalIPServices_record ::
  "serviceInfo \<Rightarrow> string \<Rightarrow> endpointsInfo list \<Rightarrow> activeMap \<Rightarrow> activeMap" where
  "setupExternalIPServices_record svc externalIPServiceID [] a = a"
| "setupExternalIPServices_record svc externalIPServiceID (endpoint # rest) a =
     (if \<not> svc_local svc \<or> (svc_local svc \<and> isLocal endpoint) then
        setupExternalIPServices_record svc externalIPServiceID rest
          (active_append a externalIPServiceID (endpointID endpoint))
      else setupExternalIPServices_record svc externalIPServiceID rest a)"

text \<open>
  \<open>for _, externalIP := range extIPSet.List()\<close>. A setup error returns from
  \<open>setupExternalIPServices\<close> itself, so the result carries the error out of both loops.
\<close>

fun setupExternalIPServices_ips ::
  "'h NetworkServicesController \<Rightarrow> serviceInfo \<Rightarrow> endpointsInfo list \<Rightarrow> string list
     \<Rightarrow> activeMap \<times> 'h state \<Rightarrow> error option \<times> activeMap \<times> 'h state" where
  "setupExternalIPServices_ips nsc svc endpoints [] (a, s) = (None, a, s)"
| "setupExternalIPServices_ips nsc svc endpoints (externalIP # rest) (a, s) =
     (if directServerReturn svc \<and> directServerReturnMethod svc = tunnelInterfaceType nsc then
        (case setupExternalIPForDSRService nsc svc externalIP endpoints s of
           (Some err, s1) \<Rightarrow>
             (Some (''failed to setup DSR endpoint '' @ externalIP @ '': '' @ err), a, s1)
         | (None, s1) \<Rightarrow>
             (let fwMark = lookupFWMarkByService (fwMarkMap s1) externalIP (svc_protocol svc)
                             (Itoa (svc_port svc));
                  externalIPServiceID = Sprint_uint32 fwMark
              in setupExternalIPServices_ips nsc svc endpoints rest
                   (setupExternalIPServices_record svc externalIPServiceID endpoints
                      (AList.update externalIPServiceID [] a), s1)))
      else
        (case setupExternalIPForService nsc svc externalIP endpoints s of
           (Some err, s1) \<Rightarrow>
             (Some (''failed to setup service endpoint '' @ externalIP @ '': '' @ err), a, s1)
         | (None, s1) \<Rightarrow>
             (let externalIPServiceID =
                    generateIPPortID externalIP (svc_protocol svc) (Itoa (svc_port svc))
              in setupExternalIPServices_ips nsc svc endpoints rest
                   (setupExternalIPServices_record svc externalIPServiceID endpoints
                      (AList.update externalIPServiceID [] a), s1))))"

text \<open>
  \<open>extIPSet.List()\<close>: the members of the string set, sorted. The set is \<open>externalIPs\<close>,
  with \<open>loadBalancerIPs\<close> unless \<open>skipLbIps\<close>.
\<close>

definition extIPSet_List :: "serviceInfo \<Rightarrow> string list" where
  "extIPSet_List svc =
     sort (remdups (externalIPs svc @ (if skipLbIps svc then [] else loadBalancerIPs svc)))"

fun setupExternalIPServices_loop ::
  "'h NetworkServicesController \<Rightarrow> endpointsInfoMap \<Rightarrow> serviceInfoMap
     \<Rightarrow> activeMap \<times> 'h state \<Rightarrow> error option \<times> activeMap \<times> 'h state" where
  "setupExternalIPServices_loop nsc endpointsInfoMap [] (a, s) = (None, a, s)"
| "setupExternalIPServices_loop nsc endpointsInfoMap ((k, svc) # rest) (a, s) =
     (let endpoints = endpointsOf endpointsInfoMap k in
      if length (extIPSet_List svc) = 0 then
        setupExternalIPServices_loop nsc endpointsInfoMap rest (a, s)
      else if svc_local svc \<and> \<not> hasActiveEndpoints endpoints then
        setupExternalIPServices_loop nsc endpointsInfoMap rest (a, s)
      else
        (case setupExternalIPServices_ips nsc svc endpoints (extIPSet_List svc) (a, s) of
           (Some err, a1, s1) \<Rightarrow> (Some err, a1, s1)
         | (None, a1, s1) \<Rightarrow> setupExternalIPServices_loop nsc endpointsInfoMap rest (a1, s1)))"

definition setupExternalIPServices ::
  "'h NetworkServicesController \<Rightarrow> serviceInfoMap \<Rightarrow> endpointsInfoMap \<Rightarrow> activeMap \<Rightarrow> 'h state
     \<Rightarrow> error option \<times> activeMap \<times> 'h state" where
  "setupExternalIPServices nsc serviceInfoMap endpointsInfoMap activeServiceEndpointMap s =
     setupExternalIPServices_loop nsc endpointsInfoMap serviceInfoMap (activeServiceEndpointMap, s)"

subsection \<open>\<open>syncIpvsServices\<close>\<close>

text \<open>
  The eight steps, with the \<open>syncErrors\<close> flag the summary log line reads. The flag is
  not part of what the function returns.
\<close>

definition isError :: "error option \<Rightarrow> bool" where
  "isError err = (case err of None \<Rightarrow> False | Some e \<Rightarrow> True)"

definition syncIpvsServices_steps ::
  "'h NetworkServicesController \<Rightarrow> serviceInfoMap \<Rightarrow> endpointsInfoMap \<Rightarrow> 'h state
     \<Rightarrow> bool \<times> 'h state" where
  "syncIpvsServices_steps nsc serviceInfoMap endpointsInfoMap s =
     (case setupClusterIPServices nsc serviceInfoMap endpointsInfoMap [] s of
        (err1, a1, s1) \<Rightarrow>
      (case setupNodePortServices nsc serviceInfoMap endpointsInfoMap a1 s1 of
        (err2, a2, s2) \<Rightarrow>
      (case setupExternalIPServices nsc serviceInfoMap endpointsInfoMap a2 s2 of
        (err3, a3, s3) \<Rightarrow>
      (case cleanupStaleVIPs nsc a3 s3 of
        (err4, s4) \<Rightarrow>
      (case cleanupStaleIPVSConfig nsc a3 s4 of
        (err5, s5) \<Rightarrow>
      (let s6 = cleanupStaleMetrics nsc a3 s5 in
       case hcall (syncIpvsFirewall (ext nsc)) s6 of
        (err7, s7) \<Rightarrow>
      (case setupForDSR nsc serviceInfoMap s7 of
        (err8, s8) \<Rightarrow>
          (isError err1 \<or> isError err2 \<or> isError err3 \<or> isError err4 \<or> isError err5
             \<or> isError err7 \<or> isError err8, s8))))))))"

text \<open>The deferred function observes the duration when metrics are enabled.\<close>

definition syncIpvsServices ::
  "'h NetworkServicesController \<Rightarrow> serviceInfoMap \<Rightarrow> endpointsInfoMap \<Rightarrow> 'h state
     \<Rightarrow> error option \<times> 'h state" where
  "syncIpvsServices nsc serviceInfoMap endpointsInfoMap s =
     (case syncIpvsServices_steps nsc serviceInfoMap endpointsInfoMap s of
        (syncErrors, s8) \<Rightarrow>
          (None, if MetricsEnabled nsc
                 then hdo (ControllerIpvsServicesSyncTimeObserve (ext nsc)) s8 else s8))"

subsection \<open>Observing the calls made on the host\<close>

text \<open>
  To state which host operations a function invokes, any host is wrapped into one that
  also records each call: its state is the wrapped host's state with the calls made so
  far, the latest first. The wrapper answers every call as the wrapped host does.
\<close>

datatype call =
  IpvsGetServices
| GetKubeDummyInterface
| IpAddrAdd link string bool
| IpAddrDel link string
| IpvsAddService IP "16 word" "16 word"
| IpvsAddFWMarkService "32 word" "16 word" "16 word"
| IpvsAddServer "ipvsService option" ipvsDestination
| IpvsDelService ipvsService
| IpvsGetDestinations ipvsService
| CleanupMangleTableRule string string string string int
| SetupPolicyRoutingForDSR
| SetupRoutesForExternalIPForDSR
| GetAllLocalIPs
| NetlinkAddrList link
| SetupMangleTableRule string string string string int
| RouteVIPTrafficToDirector string
| SaveIntoTable string
| AddDSRIPInsidePodNetNamespace string string
| IpvsDeleteDestination ipvsService ipvsDestination
| SyncIpvsFirewall
| MetricDeleteLabelValues metric "string list"
| MetricControllerIpvsServicesDec
| MetricSyncTimeObserve

definition lg :: "call \<Rightarrow> ('h \<Rightarrow> 'r \<times> 'h) \<Rightarrow> 'h \<times> call list \<Rightarrow> 'r \<times> 'h \<times> call list" where
  "lg c op hl = (case op (fst hl) of (r, h') \<Rightarrow> (r, (h', c # snd hl)))"

definition lg0 :: "call \<Rightarrow> ('h \<Rightarrow> 'h) \<Rightarrow> 'h \<times> call list \<Rightarrow> 'h \<times> call list" where
  "lg0 c op hl = (op (fst hl), c # snd hl)"

definition logged_ln :: "'h LinuxNetworking \<Rightarrow> ('h \<times> call list) LinuxNetworking" where
  "logged_ln l =
     \<lparr>ipvsGetServices = lg IpvsGetServices (ipvsGetServices l),
      getKubeDummyInterface = lg GetKubeDummyInterface (getKubeDummyInterface l),
      ipAddrAdd = (\<lambda>i a r. lg (IpAddrAdd i a r) (ipAddrAdd l i a r)),
      ipAddrDel = (\<lambda>i a. lg (IpAddrDel i a) (ipAddrDel l i a)),
      ipvsAddService = (\<lambda>svcs a p n af t sc fl.
         lg (IpvsAddService a p n) (ipvsAddService l svcs a p n af t sc fl)),
      ipvsAddFWMarkService = (\<lambda>svcs m p n af t sc fl.
         lg (IpvsAddFWMarkService m p n) (ipvsAddFWMarkService l svcs m p n af t sc fl)),
      ipvsAddServer = (\<lambda>v d. lg (IpvsAddServer v d) (ipvsAddServer l v d)),
      ipvsDelService = (\<lambda>v. lg (IpvsDelService v) (ipvsDelService l v)),
      ipvsGetDestinations = (\<lambda>v. lg (IpvsGetDestinations v) (ipvsGetDestinations l v)),
      cleanupMangleTableRule = (\<lambda>i p n m t.
         lg (CleanupMangleTableRule i p n m t) (cleanupMangleTableRule l i p n m t)),
      setupPolicyRoutingForDSR = lg SetupPolicyRoutingForDSR (setupPolicyRoutingForDSR l),
      setupRoutesForExternalIPForDSR = (\<lambda>m.
         lg SetupRoutesForExternalIPForDSR (setupRoutesForExternalIPForDSR l m))\<rparr>"

definition logged_ext :: "'h externals \<Rightarrow> ('h \<times> call list) externals" where
  "logged_ext e =
     \<lparr>getAllLocalIPs = lg GetAllLocalIPs (getAllLocalIPs e),
      AddrList = (\<lambda>i. lg (NetlinkAddrList i) (AddrList e i)),
      setupMangleTableRule = (\<lambda>i p n m t.
         lg (SetupMangleTableRule i p n m t) (setupMangleTableRule e i p n m t)),
      routeVIPTrafficToDirector = (\<lambda>m.
         lg (RouteVIPTrafficToDirector m) (routeVIPTrafficToDirector e m)),
      SaveInto = (\<lambda>t. lg (SaveIntoTable t) (SaveInto e t)),
      addDSRIPInsidePodNetNamespace = (\<lambda>x p.
         lg (AddDSRIPInsidePodNetNamespace x p) (addDSRIPInsidePodNetNamespace e x p)),
      ipvsDeleteDestination = (\<lambda>v d.
         lg (IpvsDeleteDestination v d) (ipvsDeleteDestination e v d)),
      syncIpvsFirewall = lg SyncIpvsFirewall (syncIpvsFirewall e),
      DeleteLabelValues = (\<lambda>m v. lg0 (MetricDeleteLabelValues m v) (DeleteLabelValues e m v)),
      ControllerIpvsServicesDec = lg0 MetricControllerIpvsServicesDec (ControllerIpvsServicesDec e),
      ControllerIpvsServicesSyncTimeObserve =
        lg0 MetricSyncTimeObserve (ControllerIpvsServicesSyncTimeObserve e),
      ParseIP = ParseIP e\<rparr>"

definition logged :: "'h NetworkServicesController \<Rightarrow> ('h \<times> call list) NetworkServicesController" where
  "logged nsc =
     \<lparr>ln = logged_ln (ln nsc), ext = logged_ext (ext nsc),
      nodeportBindOnAllIP = nodeportBindOnAllIP nsc, nodeIP = nodeIP nsc,
      excludedCidrs = excludedCidrs nsc, dsrTCPMSS = dsrTCPMSS nsc,
      MetricsEnabled = MetricsEnabled nsc, generateUniqueFWMark = generateUniqueFWMark nsc,
      IfaceHasAddr = IfaceHasAddr nsc, IfaceHasNoAddr = IfaceHasNoAddr nsc,
      tunnelInterfaceType = tunnelInterfaceType nsc, KubeDummyIf = KubeDummyIf nsc\<rparr>"

text \<open>The calls recorded in a state, the latest first; and a state that has recorded none.\<close>

definition calls :: "('h \<times> call list) state \<Rightarrow> call list" where
  "calls s = snd (host s)"

definition start :: "'h \<Rightarrow> fwMarkMap \<Rightarrow> (string \<times> string list) list \<Rightarrow> ('h \<times> call list) state" where
  "start h m mm = \<lparr>host = (h, []), fwMarkMap = m, metricsMap = mm\<rparr>"

subsection \<open>The properties' own vocabulary\<close>

text \<open>
  The local-policy predicate, in the words of the specification:
  \<open>!svc.local || endpoint.isLocal || (svc.local && no local endpoint exists for svc)\<close>.
\<close>

definition localPolicy :: "serviceInfo \<Rightarrow> endpointsInfo list \<Rightarrow> endpointsInfo \<Rightarrow> bool" where
  "localPolicy svc eps e =
     (\<not> svc_local svc \<or> isLocal e \<or> (svc_local svc \<and> \<not> hasActiveEndpoints eps))"

text \<open>A saved mangle line that mentions both the external IP and the mark in hexadecimal.\<close>

definition mangleRuleMatches :: "string \<Rightarrow> 32 word \<Rightarrow> string \<Rightarrow> bool" where
  "mangleRuleMatches ipAddress fwMark rule =
     (strings_Contains rule ipAddress \<and> strings_Contains rule (FormatInt16_uint32 fwMark))"

text \<open>A dummy-interface address that no dash-separated key of the active set starts with.\<close>

definition staleVIP :: "activeMap \<Rightarrow> IP \<Rightarrow> bool" where
  "staleVIP activeServiceEndpointMap addr =
     (IP_String addr \<notin> set (addrActive_of (map fst activeServiceEndpointMap)))"

text \<open>
  An installed entry the stale-IPVS sweep has to retire: it has a key, the key is not in
  the active set, and no excluded CIDR contains its address.
\<close>

definition staleIPVS :: "'h NetworkServicesController \<Rightarrow> activeMap \<Rightarrow> ipvsService \<Rightarrow> bool" where
  "staleIPVS nsc activeServiceEndpointMap ipvsSvc =
     (case ipvsSvcKey ipvsSvc of
        None \<Rightarrow> False
      | Some key \<Rightarrow>
          map_of activeServiceEndpointMap key = None
          \<and> \<not> list_ex (\<lambda>excludedCidr. excludedCidr (Address ipvsSvc)) (excludedCidrs nsc))"

text \<open>
  The real server a pass builds for an endpoint, as the specification has it: the
  endpoint's address and port, \<open>AF_INET\<close>, weight 1; for DSR, in tunnel mode.
\<close>

abbreviation realServer :: "'h NetworkServicesController \<Rightarrow> endpointsInfo \<Rightarrow> ipvsDestination" where
  "realServer nsc e \<equiv>
     \<lparr>dAddress = ParseIP (ext nsc) (ep_ip e), dAddressFamily = AF_INET, dConnectionFlags = 0,
      dPort = word_of_int (ep_port e), dWeight = 1\<rparr>"

abbreviation tunnelServer :: "'h NetworkServicesController \<Rightarrow> endpointsInfo \<Rightarrow> ipvsDestination" where
  "tunnelServer nsc e \<equiv>
     \<lparr>dAddress = ParseIP (ext nsc) (ep_ip e), dAddressFamily = AF_INET,
      dConnectionFlags = ConnectionFlagTunnel, dPort = word_of_int (ep_port e), dWeight = 1\<rparr>"

text \<open>The calls that add a real server, and the calls the DSR teardown makes.\<close>

definition add_server_call :: "call \<Rightarrow> bool" where
  "add_server_call c = (case c of IpvsAddServer v d \<Rightarrow> True | _ \<Rightarrow> False)"

definition teardown_call :: "call \<Rightarrow> bool" where
  "teardown_call c =
     (case c of SaveIntoTable t \<Rightarrow> True | CleanupMangleTableRule i p n m t \<Rightarrow> True | _ \<Rightarrow> False)"

text \<open>
  Modelled from the spec: the body of \<open>nsc.ln.ipAddrAdd\<close>, which is not in this file. The
  specification has \<open>addAddress\<close> idempotent and the already-exists outcome "treated as
  success at the adapter layer": the adapter adds the address through netlink, returns
  nil when netlink answers that the interface already has the address (\<open>IfaceHasAddr\<close>),
  and hands any other netlink error back. \<open>netlinkAddrAdd\<close> is netlink's own add.
\<close>

definition ipAddrAdd_adapter ::
  "string \<Rightarrow> (link \<Rightarrow> string \<Rightarrow> 'h \<Rightarrow> error option \<times> 'h) \<Rightarrow> link \<Rightarrow> string \<Rightarrow> bool \<Rightarrow> 'h
     \<Rightarrow> error option \<times> 'h" where
  "ipAddrAdd_adapter ifaceHasAddr netlinkAddrAdd iface ip addRoute h =
     (case netlinkAddrAdd iface ip h of (err, h') \<Rightarrow> (errorOtherThan err ifaceHasAddr, h'))"

subsection \<open>A node in memory, for concrete runs\<close>

text \<open>
  A small host that keeps the IPVS table, the real servers, the addresses of the dummy
  interface and the saved mangle rules in memory. Every operation succeeds; an operation
  that touches none of the four does nothing. Concrete runs below change single
  operations of it to make them fail.
\<close>

record node =
  node_ipvs :: "ipvsService list"
  node_dsts :: "(ipvsService \<times> ipvsDestination) list"
  node_addrs :: "string list"
  node_mangle :: "string list"

definition node_ln :: "node LinuxNetworking" where
  "node_ln =
     \<lparr>ipvsGetServices = (\<lambda>h. (Inr (node_ipvs h), h)),
      getKubeDummyInterface = (\<lambda>h. (Inr ''kube-dummy-if'', h)),
      ipAddrAdd = (\<lambda>i a r h.
         (None, if a \<in> set (node_addrs h) then h else h\<lparr>node_addrs := node_addrs h @ [a]\<rparr>)),
      ipAddrDel = (\<lambda>i a h. (None, h\<lparr>node_addrs := removeAll a (node_addrs h)\<rparr>)),
      ipvsAddService = (\<lambda>svcs a p n af t sc fl h.
         ((Some \<lparr>Address = a, Protocol = p, Port = n, FWMark = 0\<rparr>, None),
          if \<lparr>Address = a, Protocol = p, Port = n, FWMark = 0\<rparr> \<in> set (node_ipvs h) then h
          else h\<lparr>node_ipvs := node_ipvs h @ [\<lparr>Address = a, Protocol = p, Port = n, FWMark = 0\<rparr>]\<rparr>)),
      ipvsAddFWMarkService = (\<lambda>svcs m p n af t sc fl h.
         ((Some \<lparr>Address = None, Protocol = p, Port = n, FWMark = m\<rparr>, None),
          if \<lparr>Address = None, Protocol = p, Port = n, FWMark = m\<rparr> \<in> set (node_ipvs h) then h
          else h\<lparr>node_ipvs := node_ipvs h @ [\<lparr>Address = None, Protocol = p, Port = n, FWMark = m\<rparr>]\<rparr>)),
      ipvsAddServer = (\<lambda>v d h.
         case v of
           None \<Rightarrow> (Some ''no such service'', h)
         | Some u \<Rightarrow>
             (None, if (u, d) \<in> set (node_dsts h) then h
                    else h\<lparr>node_dsts := node_dsts h @ [(u, d)]\<rparr>)),
      ipvsDelService = (\<lambda>v h.
         (None, h\<lparr>node_ipvs := removeAll v (node_ipvs h),
                   node_dsts := filter (\<lambda>p. fst p \<noteq> v) (node_dsts h)\<rparr>)),
      ipvsGetDestinations = (\<lambda>v h.
         ((map snd (filter (\<lambda>p. fst p = v) (node_dsts h)), None), h)),
      cleanupMangleTableRule = (\<lambda>i p n m t h.
         (None, h\<lparr>node_mangle := filter (\<lambda>l. \<not> strings_Contains l i) (node_mangle h)\<rparr>)),
      setupPolicyRoutingForDSR = (\<lambda>h. (None, h)),
      setupRoutesForExternalIPForDSR = (\<lambda>m h. (None, h))\<rparr>"

definition node_ext :: "node externals" where
  "node_ext =
     \<lparr>getAllLocalIPs = (\<lambda>h. (Inr [Some ''192.168.1.10''], h)),
      AddrList = (\<lambda>i h. (Inr (map Some (node_addrs h)), h)),
      setupMangleTableRule = (\<lambda>i p n m t h. (None, h)),
      routeVIPTrafficToDirector = (\<lambda>m h. (None, h)),
      SaveInto = (\<lambda>t h. (Inr (concat (map (\<lambda>l. l @ [CHR 0x0A]) (node_mangle h))), h)),
      addDSRIPInsidePodNetNamespace = (\<lambda>x p h. (None, h)),
      ipvsDeleteDestination = (\<lambda>v d h. (None, h\<lparr>node_dsts := removeAll (v, d) (node_dsts h)\<rparr>)),
      syncIpvsFirewall = (\<lambda>h. (None, h)),
      DeleteLabelValues = (\<lambda>m v h. h),
      ControllerIpvsServicesDec = (\<lambda>h. h),
      ControllerIpvsServicesSyncTimeObserve = (\<lambda>h. h),
      ParseIP = (\<lambda>s. if s = [] then None else Some s)\<rparr>"

definition node_nsc :: "node NetworkServicesController" where
  "node_nsc =
     \<lparr>ln = node_ln, ext = node_ext, nodeportBindOnAllIP = False,
      nodeIP = Some ''192.168.1.10'', excludedCidrs = [], dsrTCPMSS = 1440,
      MetricsEnabled = False,
      generateUniqueFWMark = (\<lambda>ip p n m. (Inr 4660, AList.update 4660 (ip, p, 0) m)),
      IfaceHasAddr = ''file exists'', IfaceHasNoAddr = ''cannot assign requested address'',
      tunnelInterfaceType = ''tunnel'', KubeDummyIf = ''kube-dummy-if''\<rparr>"

definition empty_node :: node where
  "empty_node = \<lparr>node_ipvs = [], node_dsts = [], node_addrs = [], node_mangle = []\<rparr>"

text \<open>The service and the endpoints of the specification's scenario S1.\<close>

definition web :: serviceInfo where
  "web =
     \<lparr>svc_name = ''web'', svc_namespace = ''default'', svc_protocol = ''tcp'',
      clusterIP = Some ''10.0.0.1'', svc_port = 80, nodePort = 0, externalIPs = [],
      loadBalancerIPs = [], skipLbIps = False, svc_local = False, sessionAffinity = False,
      sessionAffinityTimeoutSeconds = 0, scheduler = ''rr'', svc_flags = 0,
      directServerReturn = False, directServerReturnMethod = []\<rparr>"

definition pod_local :: endpointsInfo where
  "pod_local = \<lparr>ep_ip = ''10.1.0.2'', ep_port = 8080, isLocal = True\<rparr>"

definition pod_remote :: endpointsInfo where
  "pod_remote = \<lparr>ep_ip = ''10.1.0.3'', ep_port = 8080, isLocal = False\<rparr>"

text \<open>
  Saved mangle rules of a DSR service at 203.0.113.9, tcp/443, marked 0x1234 (4660), one
  rule of another service, the registry that binds the mark, and a node whose rule
  cleanup always fails.
\<close>

definition dsr_rule_prerouting :: string where
  "dsr_rule_prerouting =
     ''-A PREROUTING -d 203.0.113.9/32 -p tcp --dport 443 -j MARK --set-xmark 0x1234/0xffffffff''"

definition dsr_rule_output :: string where
  "dsr_rule_output =
     ''-A OUTPUT -d 203.0.113.9/32 -p tcp --dport 443 -j MARK --set-xmark 0x1234/0xffffffff''"

definition other_rule :: string where
  "other_rule = ''-A PREROUTING -d 198.51.100.7/32 -p tcp --dport 80 -j MARK --set-xmark 0x77/0xffffffff''"

definition dsr_registry :: fwMarkMap where
  "dsr_registry = [(4660, ''203.0.113.9'', ''tcp'', 443)]"

definition busy_nsc :: "node NetworkServicesController" where
  "busy_nsc = node_nsc\<lparr>ln := node_ln\<lparr>cleanupMangleTableRule :=
     (\<lambda>i p n m t h. (Some ''iptables: resource temporarily unavailable'', h))\<rparr>\<rparr>"

text \<open>
  The node of the specification's scenario S6: the virtual services of 10.0.0.1 (desired)
  and 10.0.0.99 (no longer desired), both addresses on the dummy interface, and a real
  server that is no longer an endpoint; an SCTP entry; and the marked entry of a DSR
  service that is no longer desired.
\<close>

definition web_vs :: ipvsService where
  "web_vs = \<lparr>Address = Some ''10.0.0.1'', Protocol = 6, Port = 80, FWMark = 0\<rparr>"

definition old_vs :: ipvsService where
  "old_vs = \<lparr>Address = Some ''10.0.0.99'', Protocol = 6, Port = 80, FWMark = 0\<rparr>"

definition sctp_vs :: ipvsService where
  "sctp_vs = \<lparr>Address = Some ''10.0.0.99'', Protocol = 132, Port = 80, FWMark = 0\<rparr>"

definition gone_dst :: ipvsDestination where
  "gone_dst = \<lparr>dAddress = Some ''10.1.0.9'', dAddressFamily = 2, dConnectionFlags = 0,
                dPort = 8080, dWeight = 1\<rparr>"

definition s6_node :: node where
  "s6_node = \<lparr>node_ipvs = [web_vs, old_vs],
              node_dsts = [(web_vs, mkDestination node_nsc pod_local), (web_vs, gone_dst)],
              node_addrs = [''10.0.0.1'', ''10.0.0.99''], node_mangle = []\<rparr>"

definition s6_active :: activeMap where
  "s6_active = [(''10.0.0.1-tcp-80'', [''10.1.0.2:8080''])]"

definition marked_vs :: ipvsService where
  "marked_vs = \<lparr>Address = None, Protocol = 0, Port = 0, FWMark = 4660\<rparr>"

text \<open>
  Further nodes and services for concrete runs: an entry with both an address and a mark;
  a node on which every fallible call fails; a service with an external IP, with a node
  port; a node that binds node ports on two local addresses
  and cannot create the virtual service on the second; a node that cannot create the
  virtual services of one service.
\<close>

definition both_vs :: ipvsService where
  "both_vs = \<lparr>Address = Some ''203.0.113.9'', Protocol = 6, Port = 443, FWMark = 4660\<rparr>"

definition down_ln :: "node LinuxNetworking" where
  "down_ln =
     \<lparr>ipvsGetServices = (\<lambda>h. (Inl ''ipvs: protocol not available'', h)),
      getKubeDummyInterface = (\<lambda>h. (Inl ''netlink: operation not permitted'', h)),
      ipAddrAdd = (\<lambda>i a r h. (Some ''netlink: operation not permitted'', h)),
      ipAddrDel = (\<lambda>i a h. (Some ''netlink: operation not permitted'', h)),
      ipvsAddService = (\<lambda>svcs a p n af t sc fl h. ((None, Some ''ipvs: protocol not available''), h)),
      ipvsAddFWMarkService = (\<lambda>svcs m p n af t sc fl h.
         ((None, Some ''ipvs: protocol not available''), h)),
      ipvsAddServer = (\<lambda>v d h. (Some ''ipvs: protocol not available'', h)),
      ipvsDelService = (\<lambda>v h. (Some ''ipvs: protocol not available'', h)),
      ipvsGetDestinations = (\<lambda>v h. (([], Some ''ipvs: protocol not available''), h)),
      cleanupMangleTableRule = (\<lambda>i p n m t h. (Some ''iptables: not found'', h)),
      setupPolicyRoutingForDSR = (\<lambda>h. (Some ''ip: not found'', h)),
      setupRoutesForExternalIPForDSR = (\<lambda>m h. (Some ''ip: not found'', h))\<rparr>"

definition down_nsc :: "node NetworkServicesController" where
  "down_nsc = node_nsc\<lparr>ln := down_ln,
     ext := node_ext\<lparr>syncIpvsFirewall := (\<lambda>h. (Some ''iptables: not found'', h))\<rparr>\<rparr>"

definition web_external :: serviceInfo where
  "web_external = web\<lparr>externalIPs := [''203.0.113.9'']\<rparr>"

definition bindall_nsc :: "node NetworkServicesController" where
  "bindall_nsc = node_nsc
     \<lparr>nodeportBindOnAllIP := True,
      ext := node_ext\<lparr>getAllLocalIPs := (\<lambda>h. (Inr [Some ''192.168.1.10'', Some ''10.0.0.5''], h))\<rparr>,
      ln := node_ln
        \<lparr>ipvsAddService := (\<lambda>svcs a p n af t sc fl h.
           if a = Some ''10.0.0.5'' then ((None, Some ''cannot assign requested address''), h)
           else ipvsAddService node_ln svcs a p n af t sc fl h),
         ipvsAddServer := (\<lambda>v d h. (None, h))\<rparr>\<rparr>"

definition web_nodeport :: serviceInfo where
  "web_nodeport = web\<lparr>nodePort := 30080\<rparr>"

definition flaky_nsc :: "node NetworkServicesController" where
  "flaky_nsc = node_nsc
     \<lparr>ln := node_ln
        \<lparr>ipvsAddService := (\<lambda>svcs a p n af t sc fl h.
           if a = Some ''10.0.0.1'' \<or> a = Some ''198.51.100.1''
           then ((None, Some ''no buffer space available''), h)
           else ipvsAddService node_ln svcs a p n af t sc fl h)\<rparr>\<rparr>"

definition svc_a :: serviceInfo where
  "svc_a = web\<lparr>svc_name := ''a'', clusterIP := Some ''10.0.0.1'', externalIPs := [''198.51.100.1'']\<rparr>"

definition svc_b :: serviceInfo where
  "svc_b = web\<lparr>svc_name := ''b'', clusterIP := Some ''10.0.0.2'', externalIPs := [''198.51.100.2'']\<rparr>"

text \<open>
  For the runs of the sweeps: the node with the stale marked entry and the saved rules; a
  node that holds the marked entry and its rule; a node that refuses to delete a virtual
  service.
\<close>

definition dsr_node :: node where
  "dsr_node = empty_node\<lparr>node_ipvs := [marked_vs], node_mangle := [other_rule, dsr_rule_prerouting]\<rparr>"

definition orphan_node :: node where
  "orphan_node = empty_node\<lparr>node_ipvs := [marked_vs], node_mangle := [dsr_rule_prerouting]\<rparr>"

definition stuck_nsc :: "node NetworkServicesController" where
  "stuck_nsc = node_nsc\<lparr>ln := node_ln\<lparr>ipvsDelService :=
     (\<lambda>v h. (Some ''ipvs: device or resource busy'', h))\<rparr>\<rparr>"

text \<open>
  For the runs of the passes: a third endpoint; a node that cannot add the endpoint
  10.1.0.3 as a real server; local variants of the services above; the virtual service
  of the external IP 203.0.113.9; and the node as the cluster-IP pass leaves it once
  service \<open>a\<close> is set up.
\<close>

definition pod_third :: endpointsInfo where
  "pod_third = \<lparr>ep_ip = ''10.1.0.4'', ep_port = 8080, isLocal = False\<rparr>"

definition halting_nsc :: "node NetworkServicesController" where
  "halting_nsc = node_nsc
     \<lparr>ln := node_ln
        \<lparr>ipvsAddServer := (\<lambda>v d h.
           if dAddress d = Some ''10.1.0.3'' then (Some ''no route to host'', h)
           else ipvsAddServer node_ln v d h)\<rparr>\<rparr>"

definition local_b :: serviceInfo where
  "local_b = svc_b\<lparr>svc_local := True\<rparr>"

definition local_nodeport :: serviceInfo where
  "local_nodeport = web_nodeport\<lparr>svc_local := True\<rparr>"

definition local_external :: serviceInfo where
  "local_external = web_external\<lparr>svc_local := True\<rparr>"

definition ext_vs :: ipvsService where
  "ext_vs = \<lparr>Address = Some ''203.0.113.9'', Protocol = 6, Port = 80, FWMark = 0\<rparr>"

definition after_a_node :: node where
  "after_a_node =
     \<lparr>node_ipvs = [\<lparr>Address = Some ''10.0.0.1'', Protocol = 6, Port = 80, FWMark = 0\<rparr>],
      node_dsts = [(\<lparr>Address = Some ''10.0.0.1'', Protocol = 6, Port = 80, FWMark = 0\<rparr>,
                    \<lparr>dAddress = Some ''10.1.0.2'', dAddressFamily = 2, dConnectionFlags = 0, dPort = 8080, dWeight = 1\<rparr>)],
      node_addrs = [''10.0.0.1''], node_mangle = []\<rparr>"

text \<open>
  A node whose dummy interface already carries 10.0.0.1; netlink's own add on the
  in-memory node, which answers "file exists" for an address that is already there, and
  the node whose \<open>ipAddrAdd\<close> is the adapter over it; a netlink that refuses 10.0.0.1
  with another error, and its node.
\<close>

definition present_node :: node where
  "present_node = empty_node\<lparr>node_addrs := [''10.0.0.1'']\<rparr>"

definition node_netlinkAddrAdd :: "link \<Rightarrow> string \<Rightarrow> node \<Rightarrow> error option \<times> node" where
  "node_netlinkAddrAdd iface ip h =
     (if ip \<in> set (node_addrs h) then (Some ''file exists'', h)
      else (None, h\<lparr>node_addrs := node_addrs h @ [ip]\<rparr>))"

definition netlink_nsc :: "node NetworkServicesController" where
  "netlink_nsc = node_nsc\<lparr>ln := node_ln\<lparr>ipAddrAdd :=
     ipAddrAdd_adapter ''file exists'' node_netlinkAddrAdd\<rparr>\<rparr>"

definition denied_netlinkAddrAdd :: "link \<Rightarrow> string \<Rightarrow> node \<Rightarrow> error option \<times> node" where
  "denied_netlinkAddrAdd iface ip h =
     (if ip = ''10.0.0.1'' then (Some ''operation not permitted'', h)
      else node_netlinkAddrAdd iface ip h)"

definition denied_nsc :: "node NetworkServicesController" where
  "denied_nsc = node_nsc\<lparr>ln := node_ln\<lparr>ipAddrAdd :=
     ipAddrAdd_adapter ''file exists'' denied_netlinkAddrAdd\<rparr>\<rparr>"

section \<open>Properties\<close>

subsection \<open>State passing and the recorded calls\<close>

lemma hcall_eqD:
  "hcall op s = (r, s') \<Longrightarrow> fwMarkMap s' = fwMarkMap s \<and> metricsMap s' = metricsMap s"
  by (auto simp: hcall_def split: prod.splits)

lemma hcall_fwMarkMap [simp]: "fwMarkMap (snd (hcall op s)) = fwMarkMap s"
  by (simp add: hcall_def split: prod.splits)

lemma logged_fields [simp]:
  "ln (logged nsc) = logged_ln (ln nsc)"
  "ext (logged nsc) = logged_ext (ext nsc)"
  "nodeportBindOnAllIP (logged nsc) = nodeportBindOnAllIP nsc"
  "nodeIP (logged nsc) = nodeIP nsc"
  "excludedCidrs (logged nsc) = excludedCidrs nsc"
  "dsrTCPMSS (logged nsc) = dsrTCPMSS nsc"
  "MetricsEnabled (logged nsc) = MetricsEnabled nsc"
  "generateUniqueFWMark (logged nsc) = generateUniqueFWMark nsc"
  "IfaceHasAddr (logged nsc) = IfaceHasAddr nsc"
  "IfaceHasNoAddr (logged nsc) = IfaceHasNoAddr nsc"
  "tunnelInterfaceType (logged nsc) = tunnelInterfaceType nsc"
  "KubeDummyIf (logged nsc) = KubeDummyIf nsc"
  by (simp_all add: logged_def)

lemma logged_ln_fields [simp]:
  "ipvsGetServices (logged_ln l) = lg IpvsGetServices (ipvsGetServices l)"
  "getKubeDummyInterface (logged_ln l) = lg GetKubeDummyInterface (getKubeDummyInterface l)"
  "ipAddrAdd (logged_ln l) i a r = lg (IpAddrAdd i a r) (ipAddrAdd l i a r)"
  "ipAddrDel (logged_ln l) i a = lg (IpAddrDel i a) (ipAddrDel l i a)"
  "ipvsAddService (logged_ln l) svcs ip p n af t sc fl =
     lg (IpvsAddService ip p n) (ipvsAddService l svcs ip p n af t sc fl)"
  "ipvsAddFWMarkService (logged_ln l) svcs m p n af t sc fl =
     lg (IpvsAddFWMarkService m p n) (ipvsAddFWMarkService l svcs m p n af t sc fl)"
  "ipvsAddServer (logged_ln l) v d = lg (IpvsAddServer v d) (ipvsAddServer l v d)"
  "ipvsDelService (logged_ln l) u = lg (IpvsDelService u) (ipvsDelService l u)"
  "ipvsGetDestinations (logged_ln l) u = lg (IpvsGetDestinations u) (ipvsGetDestinations l u)"
  "cleanupMangleTableRule (logged_ln l) x1 x2 x3 x4 x5 =
     lg (CleanupMangleTableRule x1 x2 x3 x4 x5) (cleanupMangleTableRule l x1 x2 x3 x4 x5)"
  "setupPolicyRoutingForDSR (logged_ln l) = lg SetupPolicyRoutingForDSR (setupPolicyRoutingForDSR l)"
  "setupRoutesForExternalIPForDSR (logged_ln l) sm =
     lg SetupRoutesForExternalIPForDSR (setupRoutesForExternalIPForDSR l sm)"
  by (simp_all add: logged_ln_def)

lemma logged_ext_fields [simp]:
  "getAllLocalIPs (logged_ext e) = lg GetAllLocalIPs (getAllLocalIPs e)"
  "AddrList (logged_ext e) i = lg (NetlinkAddrList i) (AddrList e i)"
  "setupMangleTableRule (logged_ext e) x1 x2 x3 x4 x5 =
     lg (SetupMangleTableRule x1 x2 x3 x4 x5) (setupMangleTableRule e x1 x2 x3 x4 x5)"
  "routeVIPTrafficToDirector (logged_ext e) x1 =
     lg (RouteVIPTrafficToDirector x1) (routeVIPTrafficToDirector e x1)"
  "SaveInto (logged_ext e) x1 = lg (SaveIntoTable x1) (SaveInto e x1)"
  "addDSRIPInsidePodNetNamespace (logged_ext e) x1 x2 =
     lg (AddDSRIPInsidePodNetNamespace x1 x2) (addDSRIPInsidePodNetNamespace e x1 x2)"
  "ipvsDeleteDestination (logged_ext e) u d =
     lg (IpvsDeleteDestination u d) (ipvsDeleteDestination e u d)"
  "syncIpvsFirewall (logged_ext e) = lg SyncIpvsFirewall (syncIpvsFirewall e)"
  "DeleteLabelValues (logged_ext e) mt lv = lg0 (MetricDeleteLabelValues mt lv) (DeleteLabelValues e mt lv)"
  "ControllerIpvsServicesDec (logged_ext e) =
     lg0 MetricControllerIpvsServicesDec (ControllerIpvsServicesDec e)"
  "ControllerIpvsServicesSyncTimeObserve (logged_ext e) =
     lg0 MetricSyncTimeObserve (ControllerIpvsServicesSyncTimeObserve e)"
  "ParseIP (logged_ext e) = ParseIP e"
  by (simp_all add: logged_ext_def)

lemma mkDestination_logged [simp]: "mkDestination (logged nsc) e = mkDestination nsc e"
  by (simp add: mkDestination_def)

text \<open>A recorded call: the answer is the wrapped host's, and the call heads the record.\<close>

lemma hcall_lg:
  "hcall (lg c op) s = (r, s') \<Longrightarrow>
     calls s' = c # calls s \<and> r = fst (op (fst (host s)))
     \<and> fwMarkMap s' = fwMarkMap s \<and> metricsMap s' = metricsMap s"
  by (auto simp: hcall_def lg_def calls_def split: prod.splits)

lemma calls_hcall_lg [simp]: "calls (snd (hcall (lg c op) s)) = c # calls s"
  by (simp add: hcall_def lg_def calls_def split: prod.splits)

lemma fst_hcall_lg [simp]: "fst (hcall (lg c op) s) = fst (op (fst (host s)))"
  by (simp add: hcall_def lg_def split: prod.splits)

lemma calls_fwMarkMap_update [simp]: "calls (s\<lparr>fwMarkMap := m\<rparr>) = calls s"
  by (simp add: calls_def)

lemma calls_metricsMap_update [simp]: "calls (s\<lparr>metricsMap := m\<rparr>) = calls s"
  by (simp add: calls_def)

subsection \<open>cleanupDSRService\<close>

lemma cleanupDSRService_rules_fwMarkMap [simp]:
  "fwMarkMap (cleanupDSRService_rules nsc ip proto port m ms rules s) = fwMarkMap s"
proof (induction rules arbitrary: s)
  case Nil
  then show ?case by simp
next
  case (Cons r rules)
  then show ?case
    by (auto split: prod.splits option.splits dest: hcall_eqD)
qed

text \<open>
  C10: whenever \<open>cleanupDSRService\<close> finds a tuple registered for the mark, it returns nil
  and the registry it leaves is the one it found with the mark's binding deleted, so that
  the mark no longer resolves. Nothing is assumed of the host: the dump of the mangle
  table may fail, no saved line may match, the rule cleanup may fail.
\<close>

theorem cleanupDSRService_releases_binding:
  assumes "lookupServiceByFWMark (fwMarkMap s) fwMark = Inr t"
  shows "fst (cleanupDSRService nsc fwMark s) = None \<and>
         fwMarkMap (snd (cleanupDSRService nsc fwMark s)) = AList.delete fwMark (fwMarkMap s) \<and>
         lookupServiceByFWMark (fwMarkMap (snd (cleanupDSRService nsc fwMark s))) fwMark
           = Inl ''could not find service matching the given FW mark''"
  using assms
  by (auto simp: cleanupDSRService_def lookupServiceByFWMark_def Let_def delete_conv
      split: prod.splits sum.splits option.splits dest: hcall_eqD)

lemmas node_eval =
  logged_def logged_ln_def logged_ext_def lg_def lg0_def hcall_def hdo_def calls_def start_def
  node_nsc_def node_ln_def node_ext_def empty_node_def endpointsOf_def hasActiveEndpoints_def
  convertSvcProtoToSysCallProto_def convertSysCallProtoToSvcProto_def noneProtocol_def
  IPPROTO_TCP_def IPPROTO_UDP_def IPPROTO_NONE_def AF_INET_def ConnectionFlagTunnel_def
  generateIPPortID_def generateEndpointID_def endpointID_def dstEndpointID_def mkDestination_def
  IP_String_def Itoa_def Sprint_uint32_def FormatInt16_uint32_def format_nat.simps digit_char_def
  active_append_def errorOtherThan_def lookupServiceByFWMark_def strings_Split_def
  strings_SplitN_def Let_def

text \<open>A run in which \<open>iptables-save\<close> fails: the binding of mark 7 is released all the same.\<close>

theorem cleanupDSRService_releases_binding_witness:
  "lookupServiceByFWMark [(7, ''203.0.113.9'', ''tcp'', 443)] 7 = Inr (''203.0.113.9'', ''tcp'', 443)
   \<and> fst (cleanupDSRService (node_nsc\<lparr>ext := node_ext\<lparr>SaveInto := (\<lambda>t h. (Inl ''iptables-save failed'', h))\<rparr>\<rparr>) 7
        \<lparr>host = empty_node, fwMarkMap = [(7, ''203.0.113.9'', ''tcp'', 443)], metricsMap = []\<rparr>) = None
   \<and> fwMarkMap (snd (cleanupDSRService (node_nsc\<lparr>ext := node_ext\<lparr>SaveInto := (\<lambda>t h. (Inl ''iptables-save failed'', h))\<rparr>\<rparr>) 7
        \<lparr>host = empty_node, fwMarkMap = [(7, ''203.0.113.9'', ''tcp'', 443)], metricsMap = []\<rparr>)) = []"
  using cleanupDSRService_releases_binding [of "\<lparr>host = empty_node, fwMarkMap = [(7, ''203.0.113.9'', ''tcp'', 443)], metricsMap = []\<rparr>" 7
      "(''203.0.113.9'', ''tcp'', 443)" "node_nsc\<lparr>ext := node_ext\<lparr>SaveInto := (\<lambda>t h. (Inl ''iptables-save failed'', h))\<rparr>\<rparr>"]
  by (simp add: lookupServiceByFWMark_def)

subsection \<open>\<open>cleanupDSRService\<close>: the scan of the mangle table\<close>

lemma cleanupDSRService_rules_no_match:
  "\<forall>r \<in> set rules. \<not> mangleRuleMatches ip m r \<Longrightarrow>
     cleanupDSRService_rules nsc ip proto port m (FormatInt16_uint32 m) rules s = s"
  by (induction rules) (auto simp: mangleRuleMatches_def)

lemma cleanupDSRService_rules_first_match:
  "\<forall>r \<in> set pre. \<not> mangleRuleMatches ip m r \<Longrightarrow> mangleRuleMatches ip m r \<Longrightarrow>
     cleanupDSRService_rules nsc ip proto port m (FormatInt16_uint32 m) (pre @ r # post) s =
       (case hcall (cleanupMangleTableRule (ln nsc) ip proto (Itoa port) (Itoa (uint m)) (dsrTCPMSS nsc)) s of
          (None, s1) \<Rightarrow> s1
        | (Some err, s1) \<Rightarrow>
            cleanupDSRService_rules nsc ip proto port m (FormatInt16_uint32 m) post s1)"
  by (induction pre) (auto simp: mangleRuleMatches_def split: prod.splits option.splits)

text \<open>
  C7, as amended: with no tuple registered for the mark, \<open>cleanupDSRService\<close> returns an
  error and leaves the whole state as it was (no host call, no registry change). With a
  tuple registered, it scans the lines of the saved mangle table (none when the dump
  fails) and then releases the mark. The scan does nothing while no line mentions both
  the external IP and the mark in hexadecimal; at the first line that does, it invokes
  the rule cleanup, and stops there if the cleanup succeeds; if the cleanup fails, it
  goes on scanning the lines that follow in the same way.
\<close>

theorem cleanupDSRService_scan:
  "(lookupServiceByFWMark (fwMarkMap s) fwMark = Inl e \<longrightarrow>
      cleanupDSRService nsc fwMark s =
        (Some (''no service was found for FW mark: '' @ Sprint_uint32 fwMark
               @ '', service may not be all the way cleaned up: '' @ e), s))
   \<and> (lookupServiceByFWMark (fwMarkMap s) fwMark = Inr (ipAddress, proto, port) \<longrightarrow>
      snd (cleanupDSRService nsc fwMark s) =
        (cleanupDSRService_rules nsc ipAddress proto port fwMark (FormatInt16_uint32 fwMark)
           (case fst (hcall (SaveInto (ext nsc) ''mangle'') s) of
              Inl err \<Rightarrow> [] | Inr dump \<Rightarrow> strings_Split dump (CHR 0x0A))
           (snd (hcall (SaveInto (ext nsc) ''mangle'') s)))
        \<lparr>fwMarkMap := AList.delete fwMark (fwMarkMap s)\<rparr>)
   \<and> ((\<forall>r \<in> set rules. \<not> mangleRuleMatches ipAddress fwMark r) \<longrightarrow>
      cleanupDSRService_rules nsc ipAddress proto port fwMark (FormatInt16_uint32 fwMark) rules s1 = s1)
   \<and> ((\<forall>r \<in> set pre. \<not> mangleRuleMatches ipAddress fwMark r) \<and> mangleRuleMatches ipAddress fwMark rule \<longrightarrow>
      cleanupDSRService_rules nsc ipAddress proto port fwMark (FormatInt16_uint32 fwMark)
        (pre @ rule # post) s1 =
        (case hcall (cleanupMangleTableRule (ln nsc) ipAddress proto (Itoa port)
                       (Itoa (uint fwMark)) (dsrTCPMSS nsc)) s1 of
           (None, s2) \<Rightarrow> s2
         | (Some err, s2) \<Rightarrow>
             cleanupDSRService_rules nsc ipAddress proto port fwMark (FormatInt16_uint32 fwMark)
               post s2))"
proof (intro conjI impI)
  assume "lookupServiceByFWMark (fwMarkMap s) fwMark = Inl e"
  then show "cleanupDSRService nsc fwMark s =
        (Some (''no service was found for FW mark: '' @ Sprint_uint32 fwMark
               @ '', service may not be all the way cleaned up: '' @ e), s)"
    by (simp add: cleanupDSRService_def)
next
  assume "lookupServiceByFWMark (fwMarkMap s) fwMark = Inr (ipAddress, proto, port)"
  then show "snd (cleanupDSRService nsc fwMark s) =
        (cleanupDSRService_rules nsc ipAddress proto port fwMark (FormatInt16_uint32 fwMark)
           (case fst (hcall (SaveInto (ext nsc) ''mangle'') s) of
              Inl err \<Rightarrow> [] | Inr dump \<Rightarrow> strings_Split dump (CHR 0x0A))
           (snd (hcall (SaveInto (ext nsc) ''mangle'') s)))
        \<lparr>fwMarkMap := AList.delete fwMark (fwMarkMap s)\<rparr>"
    by (auto simp: cleanupDSRService_def Let_def split: prod.splits dest: hcall_eqD)
next
  assume "\<forall>r \<in> set rules. \<not> mangleRuleMatches ipAddress fwMark r"
  then show "cleanupDSRService_rules nsc ipAddress proto port fwMark (FormatInt16_uint32 fwMark) rules s1 = s1"
    by (rule cleanupDSRService_rules_no_match)
next
  assume "(\<forall>r \<in> set pre. \<not> mangleRuleMatches ipAddress fwMark r) \<and> mangleRuleMatches ipAddress fwMark rule"
  then show "cleanupDSRService_rules nsc ipAddress proto port fwMark (FormatInt16_uint32 fwMark)
        (pre @ rule # post) s1 =
        (case hcall (cleanupMangleTableRule (ln nsc) ipAddress proto (Itoa port)
                       (Itoa (uint fwMark)) (dsrTCPMSS nsc)) s1 of
           (None, s2) \<Rightarrow> s2
         | (Some err, s2) \<Rightarrow>
             cleanupDSRService_rules nsc ipAddress proto port fwMark (FormatInt16_uint32 fwMark)
               post s2)"
    by (simp add: cleanupDSRService_rules_first_match)
qed

text \<open>
  A run on the in-memory node: an unregistered mark is refused with the state untouched;
  for the registered mark the first matching line triggers the one cleanup call.
\<close>

theorem cleanupDSRService_scan_witness:
  "lookupServiceByFWMark [] 4660 = Inl ''could not find service matching the given FW mark''
   \<and> cleanupDSRService (logged node_nsc) 4660 (start empty_node [] []) =
       (Some (''no service was found for FW mark: 4660, service may not be all the way cleaned up: ''
              @ ''could not find service matching the given FW mark''), start empty_node [] [])
   \<and> lookupServiceByFWMark dsr_registry 4660 = Inr (''203.0.113.9'', ''tcp'', 443)
   \<and> \<not> mangleRuleMatches ''203.0.113.9'' 4660 other_rule
   \<and> mangleRuleMatches ''203.0.113.9'' 4660 dsr_rule_prerouting
   \<and> mangleRuleMatches ''203.0.113.9'' 4660 dsr_rule_output
   \<and> rev (calls (snd (cleanupDSRService (logged node_nsc) 4660
        (start (empty_node\<lparr>node_mangle := [other_rule, dsr_rule_prerouting, dsr_rule_output]\<rparr>)
           dsr_registry [])))) =
       [SaveIntoTable ''mangle'',
        CleanupMangleTableRule ''203.0.113.9'' ''tcp'' ''443'' ''4660'' 1440]"
  using cleanupDSRService_scan [where s = "start empty_node [] []" and fwMark = 4660
      and e = "''could not find service matching the given FW mark''" and nsc = "logged node_nsc"
      and rules = "[]" and pre = "[other_rule]" and rule = dsr_rule_prerouting
      and post = "[dsr_rule_output]" and ipAddress = "''203.0.113.9''" and proto = "''tcp''"
      and port = 443
      and ?s1.0 = "start (empty_node\<lparr>node_mangle := [other_rule, dsr_rule_prerouting, dsr_rule_output]\<rparr>) dsr_registry []"]
  by (simp add: cleanupDSRService_def mangleRuleMatches_def dsr_registry_def other_rule_def
      dsr_rule_prerouting_def dsr_rule_output_def node_eval)

text \<open>
  C7 as stated fails where the rule cleanup fails: the scan does not stop at the first
  matching line but invokes the cleanup again at the second.
\<close>

theorem cleanupDSRService_rescans_counterexample:
  "rev (calls (snd (cleanupDSRService (logged busy_nsc) 4660
      \<lparr>host = (empty_node\<lparr>node_mangle := [other_rule, dsr_rule_prerouting, dsr_rule_output]\<rparr>, []),
       fwMarkMap = dsr_registry, metricsMap = []\<rparr>))) =
   [SaveIntoTable ''mangle'',
    CleanupMangleTableRule ''203.0.113.9'' ''tcp'' ''443'' ''4660'' 1440,
    CleanupMangleTableRule ''203.0.113.9'' ''tcp'' ''443'' ''4660'' 1440]"
  by (simp add: cleanupDSRService_def busy_nsc_def dsr_registry_def other_rule_def
      dsr_rule_prerouting_def dsr_rule_output_def node_eval)

lemmas fixture_defs = web_vs_def old_vs_def gone_dst_def s6_node_def s6_active_def
  web_def pod_local_def pod_remote_def

lemmas sweep_defs = cleanupStaleVIPs_def cleanupStaleIPVSConfig_def cleanupStaleIPVSConfig_svc_def
  cleanupDSRService_def ipvsSvcKey_def staleIPVS_def staleVIP_def

subsection \<open>The key of an installed entry\<close>

text \<open>
  C2, as amended: the key of an installed entry is \<open>"<ip>-<proto>-<port>"\<close> whenever the
  entry has a non-nil address and is not skipped by the protocol guard, whether or not
  it carries a mark; it is the decimal firewall mark only when the address is nil and the
  mark is not zero; an entry with no mark that has no address, or whose protocol is
  neither TCP nor UDP, has no key.
\<close>

theorem ipvsSvcKey_address_first:
  "(Address v \<noteq> None
      \<and> \<not> (convertSysCallProtoToSvcProto (Protocol v) = noneProtocol \<and> FWMark v = 0)
      \<longrightarrow> ipvsSvcKey v =
            Some (generateIPPortID (IP_String (Address v))
                    (convertSysCallProtoToSvcProto (Protocol v)) (Itoa (uint (Port v)))))
   \<and> (Address v = None \<and> FWMark v \<noteq> 0 \<longrightarrow> ipvsSvcKey v = Some (Sprint_uint32 (FWMark v)))
   \<and> (FWMark v = 0
       \<and> (Address v = None \<or> convertSysCallProtoToSvcProto (Protocol v) = noneProtocol)
      \<longrightarrow> ipvsSvcKey v = None)"
  by (auto simp: ipvsSvcKey_def Let_def split: option.splits)

text \<open>The two keys on concrete entries.\<close>

lemma both_vs_key: "ipvsSvcKey both_vs = Some ''203.0.113.9-tcp-443''"
  by (simp add: ipvsSvcKey_def both_vs_def node_eval)

lemma marked_vs_key: "ipvsSvcKey marked_vs = Some ''4660''"
  by (simp add: ipvsSvcKey_def marked_vs_def node_eval)

theorem ipvsSvcKey_address_first_witness:
  "Address both_vs \<noteq> None \<and> FWMark both_vs \<noteq> 0
   \<and> ipvsSvcKey both_vs =
       Some (generateIPPortID (IP_String (Address both_vs))
               (convertSysCallProtoToSvcProto (Protocol both_vs)) (Itoa (uint (Port both_vs))))
   \<and> ipvsSvcKey both_vs = Some ''203.0.113.9-tcp-443''
   \<and> Address marked_vs = None \<and> FWMark marked_vs \<noteq> 0
   \<and> ipvsSvcKey marked_vs = Some (Sprint_uint32 (FWMark marked_vs))
   \<and> ipvsSvcKey marked_vs = Some ''4660''"
proof -
  have b: "Address both_vs \<noteq> None \<and> FWMark both_vs \<noteq> 0" by (simp add: both_vs_def)
  have m: "Address marked_vs = None \<and> FWMark marked_vs \<noteq> 0" by (simp add: marked_vs_def)
  from ipvsSvcKey_address_first [of both_vs] b
  have kb: "ipvsSvcKey both_vs =
       Some (generateIPPortID (IP_String (Address both_vs))
               (convertSysCallProtoToSvcProto (Protocol both_vs)) (Itoa (uint (Port both_vs))))"
    by blast
  from ipvsSvcKey_address_first [of marked_vs] m
  have km: "ipvsSvcKey marked_vs = Some (Sprint_uint32 (FWMark marked_vs))" by blast
  from b m kb km both_vs_key marked_vs_key show ?thesis by blast
qed

text \<open>
  C2 as stated fails for an entry with both an address and a mark: its key is built from
  the address, not the mark, so with only the decimal mark in the active set the sweep
  deletes the entry.
\<close>

theorem ipvsSvcKey_mark_with_address_counterexample:
  "Address both_vs = Some ''203.0.113.9'' \<and> FWMark both_vs = 4660
   \<and> Sprint_uint32 (FWMark both_vs) = ''4660''
   \<and> ipvsSvcKey both_vs = Some ''203.0.113.9-tcp-443''
   \<and> rev (calls (snd (cleanupStaleIPVSConfig (logged node_nsc) [(''4660'', [])]
        (start (empty_node\<lparr>node_ipvs := [both_vs]\<rparr>) [] [])))) =
       [IpvsGetServices, IpvsDelService both_vs]"
  by (simp add: cleanupStaleIPVSConfig_def cleanupStaleIPVSConfig_svc_def ipvsSvcKey_def
      cleanupDSRService_def both_vs_def node_eval)

subsection \<open>The orchestrator\<close>

text \<open>
  C8: \<open>syncIpvsServices\<close> returns nil for every input, and the state it leaves is that of
  the eight steps run in their fixed order, each on the state (and the active set) the
  step before it left, whatever error that step returned; the errors only feed the
  \<open>syncErrors\<close> flag, which is the disjunction of the seven fallible steps' failures.
\<close>

theorem syncIpvsServices_returns_nil_after_all_steps:
  "fst (syncIpvsServices nsc serviceInfoMap endpointsInfoMap s) = None
   \<and> snd (syncIpvsServices nsc serviceInfoMap endpointsInfoMap s) =
       (let r1 = setupClusterIPServices nsc serviceInfoMap endpointsInfoMap [] s;
            r2 = setupNodePortServices nsc serviceInfoMap endpointsInfoMap (fst (snd r1)) (snd (snd r1));
            r3 = setupExternalIPServices nsc serviceInfoMap endpointsInfoMap (fst (snd r2)) (snd (snd r2));
            activeServiceEndpointMap = fst (snd r3);
            s4 = snd (cleanupStaleVIPs nsc activeServiceEndpointMap (snd (snd r3)));
            s5 = snd (cleanupStaleIPVSConfig nsc activeServiceEndpointMap s4);
            s6 = cleanupStaleMetrics nsc activeServiceEndpointMap s5;
            s7 = snd (hcall (syncIpvsFirewall (ext nsc)) s6);
            s8 = snd (setupForDSR nsc serviceInfoMap s7)
        in if MetricsEnabled nsc
           then hdo (ControllerIpvsServicesSyncTimeObserve (ext nsc)) s8 else s8)
   \<and> fst (syncIpvsServices_steps nsc serviceInfoMap endpointsInfoMap s) =
       (let r1 = setupClusterIPServices nsc serviceInfoMap endpointsInfoMap [] s;
            r2 = setupNodePortServices nsc serviceInfoMap endpointsInfoMap (fst (snd r1)) (snd (snd r1));
            r3 = setupExternalIPServices nsc serviceInfoMap endpointsInfoMap (fst (snd r2)) (snd (snd r2));
            activeServiceEndpointMap = fst (snd r3);
            r4 = cleanupStaleVIPs nsc activeServiceEndpointMap (snd (snd r3));
            r5 = cleanupStaleIPVSConfig nsc activeServiceEndpointMap (snd r4);
            s6 = cleanupStaleMetrics nsc activeServiceEndpointMap (snd r5);
            r7 = hcall (syncIpvsFirewall (ext nsc)) s6;
            r8 = setupForDSR nsc serviceInfoMap (snd r7)
        in isError (fst r1) \<or> isError (fst r2) \<or> isError (fst r3) \<or> isError (fst r4)
           \<or> isError (fst r5) \<or> isError (fst r7) \<or> isError (fst r8))"
  by (simp add: syncIpvsServices_def syncIpvsServices_steps_def Let_def case_prod_beta)

text \<open>
  A pass on a node where every fallible call fails: each of the eight steps is still
  entered, in order (the calls recorded are the first call of each), the flag is set, and
  the result is nil.
\<close>

lemmas pass_defs = setupClusterIPServices_def setupNodePortServices_def setupExternalIPServices_def
  setupExternalIPForService_def extIPSet_List_def cleanupStaleVIPs_def cleanupStaleIPVSConfig_def
  cleanupStaleMetrics_def cleanupStaleMetrics_entry_def setupForDSR_def isError_def

lemma down_steps:
  "syncIpvsServices_steps (logged down_nsc) [(''default/web'', web_external)]
      [(''default/web'', [pod_local])] (start empty_node [] [(''10.0.0.99-tcp-80'', [''default'', ''old''])])
   = (True,
      \<lparr>host = (empty_node, rev
        [IpvsGetServices, IpvsGetServices, GetKubeDummyInterface, GetKubeDummyInterface,
         IpvsGetServices,
         MetricDeleteLabelValues ServiceBpsIn [''default'', ''old''],
         MetricDeleteLabelValues ServiceBpsOut [''default'', ''old''],
         MetricDeleteLabelValues ServiceBytesIn [''default'', ''old''],
         MetricDeleteLabelValues ServiceBytesOut [''default'', ''old''],
         MetricDeleteLabelValues ServiceCPS [''default'', ''old''],
         MetricDeleteLabelValues ServicePacketsIn [''default'', ''old''],
         MetricDeleteLabelValues ServicePacketsOut [''default'', ''old''],
         MetricDeleteLabelValues ServicePpsIn [''default'', ''old''],
         MetricDeleteLabelValues ServicePpsOut [''default'', ''old''],
         MetricDeleteLabelValues ServiceTotalConn [''default'', ''old''],
         MetricControllerIpvsServicesDec, SyncIpvsFirewall, SetupPolicyRoutingForDSR]),
       fwMarkMap = [], metricsMap = []\<rparr>)"
  by (simp add: syncIpvsServices_steps_def pass_defs down_nsc_def down_ln_def web_external_def
      web_def pod_local_def node_eval)

subsection \<open>Concrete passes: a nil slot, an aborted pass\<close>

text \<open>
  C9: a node-port pass with \<open>nodeportBindOnAllIP\<close> over the local addresses 192.168.1.10
  and 10.0.0.5, where creating the virtual service fails for the second. The endpoint loop
  still visits the second slot: \<open>ipvsAddServer\<close> is invoked with the nil handle, and as
  the call succeeds on this host the endpoint ID is recorded under the empty key, which
  holds no dash and so contributes no address to the stale-VIP sweep's \<open>addrActive\<close>.
\<close>

theorem setupNodePortServices_nil_slot:
  "(case setupNodePortServices (logged bindall_nsc) [(''default/web'', web_nodeport)]
           [(''default/web'', [pod_local])] [] (start empty_node [] []) of
      (err, activeServiceEndpointMap, s) \<Rightarrow>
        err = None
        \<and> rev (calls s) =
            [IpvsGetServices, GetAllLocalIPs,
             IpvsAddService (Some ''192.168.1.10'') 6 30080,
             IpvsAddService (Some ''10.0.0.5'') 6 30080,
             IpvsAddServer
               (Some \<lparr>Address = Some ''192.168.1.10'', Protocol = 6, Port = 30080, FWMark = 0\<rparr>)
               (mkDestination bindall_nsc pod_local),
             IpvsAddServer None (mkDestination bindall_nsc pod_local)]
        \<and> activeServiceEndpointMap =
            [(''192.168.1.10-tcp-30080'', [''10.1.0.2:8080'']), ('''', [''10.1.0.2:8080''])]
        \<and> \<not> strings_Contains '''' ''-''
        \<and> addrActive_of (map fst activeServiceEndpointMap) = [''192.168.1.10''])"
  by (simp add: setupNodePortServices_def bindall_nsc_def web_nodeport_def web_def pod_local_def
      node_eval)

text \<open>
  C1 at a failing input: two services with one external IP each, on a node where creating
  the virtual service fails for the first service's addresses. The external-IP pass
  returns the error at once: nothing is attempted for the second service, and its key
  never enters the active set. On the same node the cluster-IP pass skips the first
  service and sets up the second.
\<close>

theorem setupExternalIPServices_aborts_at_first_failure:
  "(case setupExternalIPServices (logged flaky_nsc) [(''default/a'', svc_a), (''default/b'', svc_b)]
           [(''default/a'', [pod_local]), (''default/b'', [pod_remote])] [] (start empty_node [] []) of
      (err, activeServiceEndpointMap, s) \<Rightarrow>
        err = Some (''failed to setup service endpoint 198.51.100.1: ''
                    @ ''failed to create ipvs service for external ip: 198.51.100.1 due to ''
                    @ ''no buffer space available'')
        \<and> rev (calls s) =
            [GetKubeDummyInterface, IpvsGetServices, IpAddrAdd ''kube-dummy-if'' ''198.51.100.1'' True,
             IpvsAddService (Some ''198.51.100.1'') 6 80]
        \<and> activeServiceEndpointMap = [])
   \<and> (case setupClusterIPServices (logged flaky_nsc) [(''default/a'', svc_a), (''default/b'', svc_b)]
           [(''default/a'', [pod_local]), (''default/b'', [pod_remote])] [] (start empty_node [] []) of
      (err, activeServiceEndpointMap, s) \<Rightarrow>
        err = None
        \<and> rev (calls s) =
            [IpvsGetServices,
             GetKubeDummyInterface, IpAddrAdd ''kube-dummy-if'' ''10.0.0.1'' True,
             IpvsAddService (Some ''10.0.0.1'') 6 80,
             GetKubeDummyInterface, IpAddrAdd ''kube-dummy-if'' ''10.0.0.2'' True,
             IpvsAddService (Some ''10.0.0.2'') 6 80,
             IpvsAddServer (Some \<lparr>Address = Some ''10.0.0.2'', Protocol = 6, Port = 80, FWMark = 0\<rparr>)
               (mkDestination flaky_nsc pod_remote)]
        \<and> activeServiceEndpointMap = [(''10.0.0.2-tcp-80'', [''10.1.0.3:8080''])])"
  by (simp add: pass_defs flaky_nsc_def svc_a_def svc_b_def web_def pod_local_def pod_remote_def
      node_eval)

theorem syncIpvsServices_returns_nil_after_all_steps_witness:
  "fst (syncIpvsServices (logged down_nsc) [(''default/web'', web_external)]
          [(''default/web'', [pod_local])]
          (start empty_node [] [(''10.0.0.99-tcp-80'', [''default'', ''old''])])) = None
   \<and> fst (syncIpvsServices_steps (logged down_nsc) [(''default/web'', web_external)]
          [(''default/web'', [pod_local])]
          (start empty_node [] [(''10.0.0.99-tcp-80'', [''default'', ''old''])])) = True
   \<and> rev (calls (snd (syncIpvsServices (logged down_nsc) [(''default/web'', web_external)]
          [(''default/web'', [pod_local])]
          (start empty_node [] [(''10.0.0.99-tcp-80'', [''default'', ''old''])])))) =
        [IpvsGetServices, IpvsGetServices, GetKubeDummyInterface, GetKubeDummyInterface,
         IpvsGetServices,
         MetricDeleteLabelValues ServiceBpsIn [''default'', ''old''],
         MetricDeleteLabelValues ServiceBpsOut [''default'', ''old''],
         MetricDeleteLabelValues ServiceBytesIn [''default'', ''old''],
         MetricDeleteLabelValues ServiceBytesOut [''default'', ''old''],
         MetricDeleteLabelValues ServiceCPS [''default'', ''old''],
         MetricDeleteLabelValues ServicePacketsIn [''default'', ''old''],
         MetricDeleteLabelValues ServicePacketsOut [''default'', ''old''],
         MetricDeleteLabelValues ServicePpsIn [''default'', ''old''],
         MetricDeleteLabelValues ServicePpsOut [''default'', ''old''],
         MetricDeleteLabelValues ServiceTotalConn [''default'', ''old''],
         MetricControllerIpvsServicesDec, SyncIpvsFirewall, SetupPolicyRoutingForDSR]"
proof -
  from syncIpvsServices_returns_nil_after_all_steps
    [of "logged down_nsc" "[(''default/web'', web_external)]" "[(''default/web'', [pod_local])]"
        "start empty_node [] [(''10.0.0.99-tcp-80'', [''default'', ''old''])]"]
  have nil: "fst (syncIpvsServices (logged down_nsc) [(''default/web'', web_external)]
          [(''default/web'', [pod_local])]
          (start empty_node [] [(''10.0.0.99-tcp-80'', [''default'', ''old''])])) = None"
    by (rule conjunct1)
  have off: "MetricsEnabled down_nsc = False"
    by (simp add: down_nsc_def node_nsc_def)
  have run: "rev (calls (snd (syncIpvsServices (logged down_nsc) [(''default/web'', web_external)]
          [(''default/web'', [pod_local])]
          (start empty_node [] [(''10.0.0.99-tcp-80'', [''default'', ''old''])])))) =
        [IpvsGetServices, IpvsGetServices, GetKubeDummyInterface, GetKubeDummyInterface,
         IpvsGetServices,
         MetricDeleteLabelValues ServiceBpsIn [''default'', ''old''],
         MetricDeleteLabelValues ServiceBpsOut [''default'', ''old''],
         MetricDeleteLabelValues ServiceBytesIn [''default'', ''old''],
         MetricDeleteLabelValues ServiceBytesOut [''default'', ''old''],
         MetricDeleteLabelValues ServiceCPS [''default'', ''old''],
         MetricDeleteLabelValues ServicePacketsIn [''default'', ''old''],
         MetricDeleteLabelValues ServicePacketsOut [''default'', ''old''],
         MetricDeleteLabelValues ServicePpsIn [''default'', ''old''],
         MetricDeleteLabelValues ServicePpsOut [''default'', ''old''],
         MetricDeleteLabelValues ServiceTotalConn [''default'', ''old''],
         MetricControllerIpvsServicesDec, SyncIpvsFirewall, SetupPolicyRoutingForDSR]"
    by (simp add: syncIpvsServices_def down_steps calls_def off)
  have flag: "fst (syncIpvsServices_steps (logged down_nsc) [(''default/web'', web_external)]
          [(''default/web'', [pod_local])]
          (start empty_node [] [(''10.0.0.99-tcp-80'', [''default'', ''old''])])) = True"
    by (simp add: down_steps)
  from nil flag run show ?thesis by blast
qed

subsection \<open>The stale-IPVS sweep\<close>

lemma staleIPVS_logged [simp]: "staleIPVS (logged nsc) a v = staleIPVS nsc a v"
  by (simp add: staleIPVS_def split: option.splits)

lemma teardown_call_simps [simp]:
  "teardown_call (SaveIntoTable t)"
  "teardown_call (CleanupMangleTableRule x1 x2 x3 x4 x5)"
  "\<not> teardown_call (IpvsDelService u)"
  "\<not> teardown_call (IpvsGetDestinations u)"
  "\<not> teardown_call (IpvsDeleteDestination u d)"
  "\<not> teardown_call (IpvsAddServer v d)"
  by (simp_all add: teardown_call_def)

lemma cleanupStaleIPVSConfig_dsts_calls:
  "calls (cleanupStaleIPVSConfig_dsts (logged nsc) v eps dsts s) =
     rev (map (IpvsDeleteDestination v) (filter (\<lambda>d. dstEndpointID d \<notin> set eps) dsts)) @ calls s"
  by (induction dsts arbitrary: s) (simp_all add: case_prod_beta)

text \<open>The DSR teardown records nothing but the dump and the rule cleanups.\<close>

lemma cleanupDSRService_rules_calls:
  "\<exists>new. calls (cleanupDSRService_rules (logged nsc) ip proto port m ms rules s) = new @ calls s
         \<and> (\<forall>c \<in> set new. teardown_call c)"
proof (induction rules arbitrary: s)
  case Nil
  then show ?case by simp
next
  case (Cons r rules)
  show ?case
  proof (cases "strings_Contains r ip \<and> strings_Contains r ms")
    case False
    then show ?thesis using Cons.IH [of s] by auto
  next
    case True
    let ?c = "CleanupMangleTableRule ip proto (Itoa port) (Itoa (uint m)) (dsrTCPMSS nsc)"
    let ?op = "cleanupMangleTableRule (ln nsc) ip proto (Itoa port) (Itoa (uint m)) (dsrTCPMSS nsc)"
    obtain r1 s1 where h: "hcall (lg ?c ?op) s = (r1, s1)" by (cases "hcall (lg ?c ?op) s")
    then have c1: "calls s1 = ?c # calls s" by (simp add: hcall_lg)
    show ?thesis
    proof (cases r1)
      case None
      with True h c1 show ?thesis by (intro exI [of _ "[?c]"]) simp
    next
      case (Some e)
      from Cons.IH [of s1] obtain new where
        n: "calls (cleanupDSRService_rules (logged nsc) ip proto port m ms rules s1) = new @ calls s1"
           "\<forall>c \<in> set new. teardown_call c" by blast
      with True h c1 Some show ?thesis by (intro exI [of _ "new @ [?c]"]) simp
    qed
  qed
qed

lemma cleanupDSRService_calls:
  "\<exists>new. calls (snd (cleanupDSRService (logged nsc) m s)) = new @ calls s
         \<and> (\<forall>c \<in> set new. teardown_call c)"
proof (cases "lookupServiceByFWMark (fwMarkMap s) m")
  case (Inl e)
  then show ?thesis by (simp add: cleanupDSRService_def)
next
  case (Inr t)
  obtain ip proto port where t: "t = (ip, proto, port)" by (cases t)
  let ?s1 = "snd (hcall (lg (SaveIntoTable ''mangle'') (SaveInto (ext nsc) ''mangle'')) s)"
  let ?rules = "case fst (hcall (lg (SaveIntoTable ''mangle'') (SaveInto (ext nsc) ''mangle'')) s) of
                  Inl err \<Rightarrow> [] | Inr dump \<Rightarrow> strings_Split dump (CHR 0x0A)"
  from cleanupDSRService_rules_calls [of nsc ip proto port m "FormatInt16_uint32 m" ?rules ?s1]
  obtain new where
    n: "calls (cleanupDSRService_rules (logged nsc) ip proto port m (FormatInt16_uint32 m) ?rules ?s1)
          = new @ calls ?s1" "\<forall>c \<in> set new. teardown_call c" by blast
  have "calls (snd (cleanupDSRService (logged nsc) m s)) = (new @ [SaveIntoTable ''mangle'']) @ calls s"
    using Inr t n(1) by (simp add: cleanupDSRService_def Let_def case_prod_beta)
  with n(2) show ?thesis by (intro exI [of _ "new @ [SaveIntoTable ''mangle'']"]) simp
qed

text \<open>
  What one iteration of the sweep records, by the kind of the entry: nothing for an entry
  without a key or in an excluded CIDR; the listing and the deletion of the stale real
  servers for an entry whose key is active; the teardown calls and then the deletion of
  the virtual service for a stale entry.
\<close>

lemma cleanupStaleIPVSConfig_svc_calls:
  "\<exists>new. calls (cleanupStaleIPVSConfig_svc (logged nsc) a u s) = new @ calls s
     \<and> (case ipvsSvcKey u of
           None \<Rightarrow> new = []
         | Some key \<Rightarrow>
             (case map_of a key of
                Some eps \<Rightarrow>
                  new = rev (IpvsGetDestinations u
                             # map (IpvsDeleteDestination u)
                                 (filter (\<lambda>d. dstEndpointID d \<notin> set eps)
                                    (fst (fst (ipvsGetDestinations (ln nsc) u (fst (host s)))))))
              | None \<Rightarrow>
                  if staleIPVS nsc a u
                  then \<exists>td. new = IpvsDelService u # td \<and> (\<forall>c \<in> set td. teardown_call c)
                  else new = []))"
proof (cases "ipvsSvcKey u")
  case None
  then show ?thesis by (simp add: cleanupStaleIPVSConfig_svc_def)
next
  case (Some key)
  show ?thesis
  proof (cases "map_of a key")
    case (Some eps)
    with \<open>ipvsSvcKey u = Some key\<close> show ?thesis
      by (simp add: cleanupStaleIPVSConfig_svc_def case_prod_beta
          cleanupStaleIPVSConfig_dsts_calls)
  next
    case None
    note absent = this
    show ?thesis
    proof (cases "list_ex (\<lambda>c. c (Address u)) (excludedCidrs nsc)")
      case True
      with absent \<open>ipvsSvcKey u = Some key\<close> show ?thesis
        by (simp add: cleanupStaleIPVSConfig_svc_def staleIPVS_def)
    next
      case False
      define s1 where "s1 =
        (if FWMark u \<noteq> 0 then
           (case lookupServiceByFWMark (fwMarkMap s) (FWMark u) of
              Inl err \<Rightarrow> s
            | Inr t \<Rightarrow> snd (cleanupDSRService (logged nsc) (FWMark u) s))
         else s)"
      have "\<exists>td. calls s1 = td @ calls s \<and> (\<forall>c \<in> set td. teardown_call c)"
        using cleanupDSRService_calls [of nsc "FWMark u" s]
        by (auto simp: s1_def split: sum.splits)
      then obtain td where n: "calls s1 = td @ calls s" "\<forall>c \<in> set td. teardown_call c" by blast
      have "calls (cleanupStaleIPVSConfig_svc (logged nsc) a u s) = (IpvsDelService u # td) @ calls s"
        using absent False \<open>ipvsSvcKey u = Some key\<close> n(1)
        by (simp add: cleanupStaleIPVSConfig_svc_def s1_def [symmetric] Let_def)
      moreover have "staleIPVS nsc a u"
        using absent False \<open>ipvsSvcKey u = Some key\<close> by (simp add: staleIPVS_def)
      ultimately show ?thesis using n(2) absent \<open>ipvsSvcKey u = Some key\<close>
        by (intro exI [of _ "IpvsDelService u # td"]) auto
    qed
  qed
qed

text \<open>The three kinds of call an iteration can add, read off the cases above.\<close>

lemma cleanupStaleIPVSConfig_svc_members:
  "\<exists>new. calls (cleanupStaleIPVSConfig_svc (logged nsc) a u s) = new @ calls s
     \<and> (IpvsDelService v \<in> set new \<longleftrightarrow> u = v \<and> staleIPVS nsc a u)
     \<and> (IpvsGetDestinations v \<in> set new \<longleftrightarrow>
          u = v \<and> (\<exists>key eps. ipvsSvcKey u = Some key \<and> map_of a key = Some eps))
     \<and> (IpvsDeleteDestination v d \<in> set new \<longrightarrow>
          u = v \<and> (\<exists>key eps. ipvsSvcKey u = Some key \<and> map_of a key = Some eps
                              \<and> dstEndpointID d \<notin> set eps))"
proof -
  from cleanupStaleIPVSConfig_svc_calls [of nsc a u s] obtain new where
    n: "calls (cleanupStaleIPVSConfig_svc (logged nsc) a u s) = new @ calls s"
    and k: "(case ipvsSvcKey u of
           None \<Rightarrow> new = []
         | Some key \<Rightarrow>
             (case map_of a key of
                Some eps \<Rightarrow>
                  new = rev (IpvsGetDestinations u
                             # map (IpvsDeleteDestination u)
                                 (filter (\<lambda>d. dstEndpointID d \<notin> set eps)
                                    (fst (fst (ipvsGetDestinations (ln nsc) u (fst (host s)))))))
              | None \<Rightarrow>
                  if staleIPVS nsc a u
                  then \<exists>td. new = IpvsDelService u # td \<and> (\<forall>c \<in> set td. teardown_call c)
                  else new = []))" by blast
  have "(IpvsDelService v \<in> set new \<longleftrightarrow> u = v \<and> staleIPVS nsc a u)
     \<and> (IpvsGetDestinations v \<in> set new \<longleftrightarrow>
          u = v \<and> (\<exists>key eps. ipvsSvcKey u = Some key \<and> map_of a key = Some eps))
     \<and> (IpvsDeleteDestination v d \<in> set new \<longrightarrow>
          u = v \<and> (\<exists>key eps. ipvsSvcKey u = Some key \<and> map_of a key = Some eps
                              \<and> dstEndpointID d \<notin> set eps))"
  proof (cases "ipvsSvcKey u")
    case None
    with k show ?thesis by (simp add: staleIPVS_def)
  next
    case (Some key)
    show ?thesis
    proof (cases "map_of a key")
      case (Some eps)
      with k \<open>ipvsSvcKey u = Some key\<close> show ?thesis by (auto simp: staleIPVS_def)
    next
      case None
      with k \<open>ipvsSvcKey u = Some key\<close> show ?thesis
        by (cases "staleIPVS nsc a u") (auto dest: bspec)
    qed
  qed
  with n show ?thesis by blast
qed

lemma cleanupStaleIPVSConfig_fold_members:
  "\<exists>new. calls (fold (cleanupStaleIPVSConfig_svc (logged nsc) a) svcs s) = new @ calls s
     \<and> (IpvsDelService v \<in> set new \<longleftrightarrow> v \<in> set svcs \<and> staleIPVS nsc a v)
     \<and> (IpvsGetDestinations v \<in> set new \<longleftrightarrow>
          v \<in> set svcs \<and> (\<exists>key eps. ipvsSvcKey v = Some key \<and> map_of a key = Some eps))
     \<and> (IpvsDeleteDestination v d \<in> set new \<longrightarrow>
          v \<in> set svcs \<and> (\<exists>key eps. ipvsSvcKey v = Some key \<and> map_of a key = Some eps
                                     \<and> dstEndpointID d \<notin> set eps))"
proof (induction svcs arbitrary: s)
  case Nil
  then show ?case by simp
next
  case (Cons u svcs)
  let ?s1 = "cleanupStaleIPVSConfig_svc (logged nsc) a u s"
  from cleanupStaleIPVSConfig_svc_members [of nsc a u s v d] obtain n1 where
    n1: "calls ?s1 = n1 @ calls s"
        "IpvsDelService v \<in> set n1 \<longleftrightarrow> u = v \<and> staleIPVS nsc a u"
        "IpvsGetDestinations v \<in> set n1 \<longleftrightarrow>
          u = v \<and> (\<exists>key eps. ipvsSvcKey u = Some key \<and> map_of a key = Some eps)"
        "IpvsDeleteDestination v d \<in> set n1 \<longrightarrow>
          u = v \<and> (\<exists>key eps. ipvsSvcKey u = Some key \<and> map_of a key = Some eps
                              \<and> dstEndpointID d \<notin> set eps)" by blast
  from Cons.IH [of ?s1] obtain n2 where
    n2: "calls (fold (cleanupStaleIPVSConfig_svc (logged nsc) a) svcs ?s1) = n2 @ calls ?s1"
        "IpvsDelService v \<in> set n2 \<longleftrightarrow> v \<in> set svcs \<and> staleIPVS nsc a v"
        "IpvsGetDestinations v \<in> set n2 \<longleftrightarrow>
          v \<in> set svcs \<and> (\<exists>key eps. ipvsSvcKey v = Some key \<and> map_of a key = Some eps)"
        "IpvsDeleteDestination v d \<in> set n2 \<longrightarrow>
          v \<in> set svcs \<and> (\<exists>key eps. ipvsSvcKey v = Some key \<and> map_of a key = Some eps
                                     \<and> dstEndpointID d \<notin> set eps)" by blast
  show ?case
    apply (intro exI [of _ "n2 @ n1"])
    using n1 n2 by auto
qed

text \<open>The whole sweep, when the host lists \<open>svcs\<close>.\<close>

lemma cleanupStaleIPVSConfig_fold:
  assumes "fst (ipvsGetServices (ln nsc) (fst (host s))) = Inr svcs"
  shows "snd (cleanupStaleIPVSConfig (logged nsc) a s) =
           fold (cleanupStaleIPVSConfig_svc (logged nsc) a) svcs
             (snd (hcall (ipvsGetServices (ln (logged nsc))) s))"
  using assms by (simp add: cleanupStaleIPVSConfig_def case_prod_beta)

lemma cleanupStaleIPVSConfig_members:
  assumes "fst (ipvsGetServices (ln nsc) (fst (host s))) = Inr svcs"
  shows "\<exists>new. calls (snd (cleanupStaleIPVSConfig (logged nsc) a s)) = new @ calls s
     \<and> (IpvsDelService v \<in> set new \<longleftrightarrow> v \<in> set svcs \<and> staleIPVS nsc a v)
     \<and> (IpvsGetDestinations v \<in> set new \<longleftrightarrow>
          v \<in> set svcs \<and> (\<exists>key eps. ipvsSvcKey v = Some key \<and> map_of a key = Some eps))
     \<and> (IpvsDeleteDestination v d \<in> set new \<longrightarrow>
          v \<in> set svcs \<and> (\<exists>key eps. ipvsSvcKey v = Some key \<and> map_of a key = Some eps
                                     \<and> dstEndpointID d \<notin> set eps))"
proof -
  let ?s1 = "snd (hcall (lg IpvsGetServices (ipvsGetServices (ln nsc))) s)"
  from cleanupStaleIPVSConfig_fold_members [of nsc a svcs ?s1 v d] obtain new where
    n: "calls (fold (cleanupStaleIPVSConfig_svc (logged nsc) a) svcs ?s1) = new @ calls ?s1"
       "IpvsDelService v \<in> set new \<longleftrightarrow> v \<in> set svcs \<and> staleIPVS nsc a v"
       "IpvsGetDestinations v \<in> set new \<longleftrightarrow>
          v \<in> set svcs \<and> (\<exists>key eps. ipvsSvcKey v = Some key \<and> map_of a key = Some eps)"
       "IpvsDeleteDestination v d \<in> set new \<longrightarrow>
          v \<in> set svcs \<and> (\<exists>key eps. ipvsSvcKey v = Some key \<and> map_of a key = Some eps
                                     \<and> dstEndpointID d \<notin> set eps)" by blast
  have "calls (snd (cleanupStaleIPVSConfig (logged nsc) a s)) = (new @ [IpvsGetServices]) @ calls s"
    using assms n(1) by (simp add: cleanupStaleIPVSConfig_def case_prod_beta)
  with n(2-4) show ?thesis by (intro exI [of _ "new @ [IpvsGetServices]"]) simp
qed

text \<open>
  C5: the stale-IPVS sweep and an installed entry \<open>v\<close> whose key is in the active set,
  with whatever endpoint list, the empty one included. When the host lists the entries
  \<open>svcs\<close>, the sweep is the iteration over each of them in turn. It never invokes
  \<open>ipvsDelService\<close> on \<open>v\<close>; if \<open>v\<close> is listed it lists \<open>v\<close>'s real servers; it invokes
  \<open>ipvsDeleteDestination\<close> on \<open>v\<close> only for a real server whose \<open>ip:port\<close> is not in the
  key's list. The iteration for \<open>v\<close> records the listing of its real servers and then the
  deletion of exactly the listed real servers whose \<open>ip:port\<close> is not in the key's list,
  in the order listed; and wherever \<open>v\<close> stands in the listing, this is what the sweep
  records once it is done with the entries before \<open>v\<close>. "Deletes" is the invocation of the
  deletion; a deletion that fails is logged by the code.
\<close>

theorem cleanupStaleIPVSConfig_keeps_active_services:
  "fst (ipvsGetServices (ln nsc) (fst (host s))) = Inr svcs
   \<and> ipvsSvcKey v = Some key \<and> map_of a key = Some eps \<longrightarrow>
     snd (cleanupStaleIPVSConfig (logged nsc) a s) =
       fold (cleanupStaleIPVSConfig_svc (logged nsc) a) svcs
         (snd (hcall (ipvsGetServices (ln (logged nsc))) s))
     \<and> (IpvsDelService v \<in> set (calls (snd (cleanupStaleIPVSConfig (logged nsc) a s)))
          \<longrightarrow> IpvsDelService v \<in> set (calls s))
     \<and> (v \<in> set svcs
          \<longrightarrow> IpvsGetDestinations v \<in> set (calls (snd (cleanupStaleIPVSConfig (logged nsc) a s))))
     \<and> (IpvsDeleteDestination v d \<in> set (calls (snd (cleanupStaleIPVSConfig (logged nsc) a s)))
          \<longrightarrow> IpvsDeleteDestination v d \<in> set (calls s)
              \<or> (v \<in> set svcs \<and> dstEndpointID d \<notin> set eps))
     \<and> rev (calls (cleanupStaleIPVSConfig_svc (logged nsc) a v s')) =
         rev (calls s') @ IpvsGetDestinations v
           # map (IpvsDeleteDestination v)
               (filter (\<lambda>d. dstEndpointID d \<notin> set eps)
                  (fst (fst (ipvsGetDestinations (ln nsc) v (fst (host s'))))))
     \<and> (svcs = pre @ v # post \<longrightarrow>
          (\<exists>after.
             rev (calls (snd (cleanupStaleIPVSConfig (logged nsc) a s))) =
               rev (calls (fold (cleanupStaleIPVSConfig_svc (logged nsc) a) pre
                             (snd (hcall (ipvsGetServices (ln (logged nsc))) s))))
               @ IpvsGetDestinations v
               # map (IpvsDeleteDestination v)
                   (filter (\<lambda>d. dstEndpointID d \<notin> set eps)
                      (fst (fst (ipvsGetDestinations (ln nsc) v
                         (fst (host (fold (cleanupStaleIPVSConfig_svc (logged nsc) a) pre
                                       (snd (hcall (ipvsGetServices (ln (logged nsc))) s)))))))))
               @ after))"
proof (intro impI)
  assume h: "fst (ipvsGetServices (ln nsc) (fst (host s))) = Inr svcs
   \<and> ipvsSvcKey v = Some key \<and> map_of a key = Some eps"
  then have l: "fst (ipvsGetServices (ln nsc) (fst (host s))) = Inr svcs"
    and k: "ipvsSvcKey v = Some key" "map_of a key = Some eps" by simp_all
  from k have ns: "\<not> staleIPVS nsc a v" by (simp add: staleIPVS_def)
  from cleanupStaleIPVSConfig_members [OF l, of a v d] obtain new where
    n: "calls (snd (cleanupStaleIPVSConfig (logged nsc) a s)) = new @ calls s"
       "IpvsDelService v \<in> set new \<longleftrightarrow> v \<in> set svcs \<and> staleIPVS nsc a v"
       "IpvsGetDestinations v \<in> set new \<longleftrightarrow>
          v \<in> set svcs \<and> (\<exists>key eps. ipvsSvcKey v = Some key \<and> map_of a key = Some eps)"
       "IpvsDeleteDestination v d \<in> set new \<longrightarrow>
          v \<in> set svcs \<and> (\<exists>key eps. ipvsSvcKey v = Some key \<and> map_of a key = Some eps
                                     \<and> dstEndpointID d \<notin> set eps)" by blast
  have 1: "snd (cleanupStaleIPVSConfig (logged nsc) a s) =
       fold (cleanupStaleIPVSConfig_svc (logged nsc) a) svcs
         (snd (hcall (ipvsGetServices (ln (logged nsc))) s))"
    by (rule cleanupStaleIPVSConfig_fold [OF l])
  have 2: "IpvsDelService v \<in> set (calls (snd (cleanupStaleIPVSConfig (logged nsc) a s)))
          \<longrightarrow> IpvsDelService v \<in> set (calls s)"
    using n(1,2) ns by auto
  have 3: "v \<in> set svcs
          \<longrightarrow> IpvsGetDestinations v \<in> set (calls (snd (cleanupStaleIPVSConfig (logged nsc) a s)))"
    using n(1,3) k by auto
  have 4: "IpvsDeleteDestination v d \<in> set (calls (snd (cleanupStaleIPVSConfig (logged nsc) a s)))
          \<longrightarrow> IpvsDeleteDestination v d \<in> set (calls s)
              \<or> (v \<in> set svcs \<and> dstEndpointID d \<notin> set eps)"
    using n(1,4) k by auto
  have 5: "rev (calls (cleanupStaleIPVSConfig_svc (logged nsc) a v s')) =
         rev (calls s') @ IpvsGetDestinations v
           # map (IpvsDeleteDestination v)
               (filter (\<lambda>d. dstEndpointID d \<notin> set eps)
                  (fst (fst (ipvsGetDestinations (ln nsc) v (fst (host s'))))))" for s'
    using k by (simp add: cleanupStaleIPVSConfig_svc_def case_prod_beta
        cleanupStaleIPVSConfig_dsts_calls rev_map)
  have 6: "\<exists>after.
             rev (calls (snd (cleanupStaleIPVSConfig (logged nsc) a s))) =
               rev (calls (fold (cleanupStaleIPVSConfig_svc (logged nsc) a) pre
                             (snd (hcall (ipvsGetServices (ln (logged nsc))) s))))
               @ IpvsGetDestinations v
               # map (IpvsDeleteDestination v)
                   (filter (\<lambda>d. dstEndpointID d \<notin> set eps)
                      (fst (fst (ipvsGetDestinations (ln nsc) v
                         (fst (host (fold (cleanupStaleIPVSConfig_svc (logged nsc) a) pre
                                       (snd (hcall (ipvsGetServices (ln (logged nsc))) s)))))))))
               @ after"
    if sv: "svcs = pre @ v # post"
  proof -
    let ?s0 = "snd (hcall (ipvsGetServices (ln (logged nsc))) s)"
    let ?sp = "fold (cleanupStaleIPVSConfig_svc (logged nsc) a) pre ?s0"
    let ?sv = "cleanupStaleIPVSConfig_svc (logged nsc) a v ?sp"
    from 1 sv have f: "snd (cleanupStaleIPVSConfig (logged nsc) a s) =
                       fold (cleanupStaleIPVSConfig_svc (logged nsc) a) post ?sv"
      by simp
    from cleanupStaleIPVSConfig_fold_members [of nsc a post ?sv v d] obtain new where
      "calls (fold (cleanupStaleIPVSConfig_svc (logged nsc) a) post ?sv) = new @ calls ?sv"
      by blast
    with f 5 [of ?sp] show ?thesis
      by (intro exI [of _ "rev new"]) simp
  qed
  from 1 2 3 4 5 [of s'] 6 show "snd (cleanupStaleIPVSConfig (logged nsc) a s) =
       fold (cleanupStaleIPVSConfig_svc (logged nsc) a) svcs
         (snd (hcall (ipvsGetServices (ln (logged nsc))) s))
     \<and> (IpvsDelService v \<in> set (calls (snd (cleanupStaleIPVSConfig (logged nsc) a s)))
          \<longrightarrow> IpvsDelService v \<in> set (calls s))
     \<and> (v \<in> set svcs
          \<longrightarrow> IpvsGetDestinations v \<in> set (calls (snd (cleanupStaleIPVSConfig (logged nsc) a s))))
     \<and> (IpvsDeleteDestination v d \<in> set (calls (snd (cleanupStaleIPVSConfig (logged nsc) a s)))
          \<longrightarrow> IpvsDeleteDestination v d \<in> set (calls s)
              \<or> (v \<in> set svcs \<and> dstEndpointID d \<notin> set eps))
     \<and> rev (calls (cleanupStaleIPVSConfig_svc (logged nsc) a v s')) =
         rev (calls s') @ IpvsGetDestinations v
           # map (IpvsDeleteDestination v)
               (filter (\<lambda>d. dstEndpointID d \<notin> set eps)
                  (fst (fst (ipvsGetDestinations (ln nsc) v (fst (host s'))))))
     \<and> (svcs = pre @ v # post \<longrightarrow>
          (\<exists>after.
             rev (calls (snd (cleanupStaleIPVSConfig (logged nsc) a s))) =
               rev (calls (fold (cleanupStaleIPVSConfig_svc (logged nsc) a) pre
                             (snd (hcall (ipvsGetServices (ln (logged nsc))) s))))
               @ IpvsGetDestinations v
               # map (IpvsDeleteDestination v)
                   (filter (\<lambda>d. dstEndpointID d \<notin> set eps)
                      (fst (fst (ipvsGetDestinations (ln nsc) v
                         (fst (host (fold (cleanupStaleIPVSConfig_svc (logged nsc) a) pre
                                       (snd (hcall (ipvsGetServices (ln (logged nsc))) s)))))))))
               @ after))"
    by blast
qed

text \<open>
  On the S6 node: the sweep lists the real servers of the desired virtual service, deletes
  the one that is no longer an endpoint, keeps the virtual service, and deletes the
  virtual service that is no longer desired; with an empty endpoint list for the key, both
  real servers go and the virtual service stays.
\<close>

lemma s6_listing:
  "fst (ipvsGetServices (ln node_nsc) (fst (host (start s6_node [] [])))) = Inr [web_vs, old_vs]
   \<and> ipvsSvcKey web_vs = Some ''10.0.0.1-tcp-80''
   \<and> map_of s6_active ''10.0.0.1-tcp-80'' = Some [''10.1.0.2:8080'']"
  by (simp add: sweep_defs fixture_defs node_eval)

lemma s6_sweep_run:
  "rev (calls (snd (cleanupStaleIPVSConfig (logged node_nsc) s6_active (start s6_node [] [])))) =
     [IpvsGetServices, IpvsGetDestinations web_vs, IpvsDeleteDestination web_vs gone_dst,
      IpvsDelService old_vs]"
  by (simp add: sweep_defs fixture_defs node_eval)

lemma s6_empty_list_run:
  "rev (calls (cleanupStaleIPVSConfig_svc (logged node_nsc) [(''10.0.0.1-tcp-80'', [])] web_vs
          (start s6_node [] []))) =
     [IpvsGetDestinations web_vs,
      IpvsDeleteDestination web_vs (mkDestination node_nsc pod_local),
      IpvsDeleteDestination web_vs gone_dst]"
  by (simp add: sweep_defs fixture_defs node_eval)

lemma s6_position_run:
  "rev (calls (fold (cleanupStaleIPVSConfig_svc (logged node_nsc) s6_active) []
                 (snd (hcall (ipvsGetServices (ln (logged node_nsc))) (start s6_node [] [])))))
     @ IpvsGetDestinations web_vs
     # map (IpvsDeleteDestination web_vs)
         (filter (\<lambda>d. dstEndpointID d \<notin> set [''10.1.0.2:8080''])
            (fst (fst (ipvsGetDestinations (ln node_nsc) web_vs
               (fst (host (fold (cleanupStaleIPVSConfig_svc (logged node_nsc) s6_active) []
                             (snd (hcall (ipvsGetServices (ln (logged node_nsc)))
                                     (start s6_node [] []))))))))))
     @ after =
   [IpvsGetServices, IpvsGetDestinations web_vs, IpvsDeleteDestination web_vs gone_dst] @ after"
  by (simp add: sweep_defs fixture_defs node_eval)

theorem cleanupStaleIPVSConfig_keeps_active_services_witness:
  "fst (ipvsGetServices (ln node_nsc) (fst (host (start s6_node [] [])))) = Inr [web_vs, old_vs]
   \<and> ipvsSvcKey web_vs = Some ''10.0.0.1-tcp-80''
   \<and> map_of s6_active ''10.0.0.1-tcp-80'' = Some [''10.1.0.2:8080'']
   \<and> IpvsGetDestinations web_vs
        \<in> set (calls (snd (cleanupStaleIPVSConfig (logged node_nsc) s6_active (start s6_node [] []))))
   \<and> IpvsDelService web_vs
        \<notin> set (calls (snd (cleanupStaleIPVSConfig (logged node_nsc) s6_active (start s6_node [] []))))
   \<and> (\<exists>after.
         rev (calls (snd (cleanupStaleIPVSConfig (logged node_nsc) s6_active (start s6_node [] [])))) =
           [IpvsGetServices, IpvsGetDestinations web_vs, IpvsDeleteDestination web_vs gone_dst]
           @ after)
   \<and> rev (calls (snd (cleanupStaleIPVSConfig (logged node_nsc) s6_active (start s6_node [] [])))) =
       [IpvsGetServices, IpvsGetDestinations web_vs, IpvsDeleteDestination web_vs gone_dst,
        IpvsDelService old_vs]
   \<and> rev (calls (cleanupStaleIPVSConfig_svc (logged node_nsc) [(''10.0.0.1-tcp-80'', [])] web_vs
              (start s6_node [] []))) =
       [IpvsGetDestinations web_vs,
        IpvsDeleteDestination web_vs (mkDestination node_nsc pod_local),
        IpvsDeleteDestination web_vs gone_dst]"
proof -
  note t = cleanupStaleIPVSConfig_keeps_active_services
    [where nsc = node_nsc and s = "start s6_node [] []" and svcs = "[web_vs, old_vs]"
       and v = web_vs and key = "''10.0.0.1-tcp-80''" and a = s6_active
       and eps = "[''10.1.0.2:8080'']" and d = gone_dst and s' = "start s6_node [] []"
       and pre = "[]" and post = "[old_vs]"]
  have e: "calls (start s6_node [] []) = []" "web_vs \<in> set [web_vs, old_vs]"
    by (simp_all add: calls_def start_def)
  from t s6_listing e have c1: "IpvsGetDestinations web_vs
        \<in> set (calls (snd (cleanupStaleIPVSConfig (logged node_nsc) s6_active (start s6_node [] []))))"
    by blast
  from t s6_listing have "IpvsDelService web_vs
        \<in> set (calls (snd (cleanupStaleIPVSConfig (logged node_nsc) s6_active (start s6_node [] []))))
      \<longrightarrow> IpvsDelService web_vs \<in> set (calls (start s6_node [] []))"
    by blast
  with e have c2: "IpvsDelService web_vs
        \<notin> set (calls (snd (cleanupStaleIPVSConfig (logged node_nsc) s6_active (start s6_node [] []))))"
    by auto
  have p: "[web_vs, old_vs] = [] @ web_vs # [old_vs]" by simp
  from t s6_listing p
  have "\<exists>after.
         rev (calls (snd (cleanupStaleIPVSConfig (logged node_nsc) s6_active (start s6_node [] [])))) =
           rev (calls (fold (cleanupStaleIPVSConfig_svc (logged node_nsc) s6_active) []
                         (snd (hcall (ipvsGetServices (ln (logged node_nsc))) (start s6_node [] [])))))
           @ IpvsGetDestinations web_vs
           # map (IpvsDeleteDestination web_vs)
               (filter (\<lambda>d. dstEndpointID d \<notin> set [''10.1.0.2:8080''])
                  (fst (fst (ipvsGetDestinations (ln node_nsc) web_vs
                     (fst (host (fold (cleanupStaleIPVSConfig_svc (logged node_nsc) s6_active) []
                                   (snd (hcall (ipvsGetServices (ln (logged node_nsc)))
                                           (start s6_node [] []))))))))))
           @ after"
    by blast
  then have c3: "\<exists>after.
         rev (calls (snd (cleanupStaleIPVSConfig (logged node_nsc) s6_active (start s6_node [] [])))) =
           [IpvsGetServices, IpvsGetDestinations web_vs, IpvsDeleteDestination web_vs gone_dst]
           @ after"
    by (simp only: s6_position_run)
  from s6_listing c1 c2 c3 s6_sweep_run s6_empty_list_run show ?thesis by blast
qed

subsection \<open>The stale-VIP sweep and the sweeps together\<close>

lemma cleanupStaleVIPs_addrs_calls:
  "calls (cleanupStaleVIPs_addrs (logged nsc) act iface addrs s) =
     rev (map (\<lambda>x. IpAddrDel iface (IP_String x)) (filter (\<lambda>x. IP_String x \<notin> set act) addrs))
     @ calls s"
  by (induction addrs arbitrary: s) (simp_all add: case_prod_beta)

lemma host_hcall_lg [simp]: "fst (host (snd (hcall (lg c op) s))) = snd (op (fst (host s)))"
  by (simp add: hcall_def lg_def split: prod.splits)

lemma cleanupStaleVIPs_calls:
  assumes "fst (getKubeDummyInterface (ln nsc) (fst (host s))) = Inr iface"
    and "fst (AddrList (ext nsc) iface (snd (getKubeDummyInterface (ln nsc) (fst (host s)))))
           = Inr addrs"
  shows "rev (calls (snd (cleanupStaleVIPs (logged nsc) a s))) =
           rev (calls s) @ [GetKubeDummyInterface, NetlinkAddrList iface]
           @ map (\<lambda>x. IpAddrDel iface (IP_String x)) (filter (staleVIP a) addrs)"
  using assms
  by (simp add: cleanupStaleVIPs_def Let_def case_prod_beta cleanupStaleVIPs_addrs_calls
      staleVIP_def [abs_def] rev_map split: sum.splits)

text \<open>The scan invokes the rule cleanup as soon as a saved line matches.\<close>

lemma cleanupDSRService_rules_invokes:
  "\<exists>r \<in> set rules. mangleRuleMatches ip m r \<Longrightarrow>
     CleanupMangleTableRule ip proto (Itoa port) (Itoa (uint m)) (dsrTCPMSS nsc)
       \<in> set (calls (cleanupDSRService_rules (logged nsc) ip proto port m (FormatInt16_uint32 m)
                       rules s))"
proof (induction rules arbitrary: s)
  case Nil
  then show ?case by simp
next
  case (Cons r rules)
  let ?c = "CleanupMangleTableRule ip proto (Itoa port) (Itoa (uint m)) (dsrTCPMSS nsc)"
  let ?op = "cleanupMangleTableRule (ln nsc) ip proto (Itoa port) (Itoa (uint m)) (dsrTCPMSS nsc)"
  show ?case
  proof (cases "mangleRuleMatches ip m r")
    case False
    with Cons.prems have "\<exists>r \<in> set rules. mangleRuleMatches ip m r" by auto
    from Cons.IH [OF this, of s] False show ?thesis by (auto simp: mangleRuleMatches_def)
  next
    case True
    obtain r1 s1 where h: "hcall (lg ?c ?op) s = (r1, s1)" by (cases "hcall (lg ?c ?op) s")
    then have c1: "calls s1 = ?c # calls s" by (simp add: hcall_lg)
    show ?thesis
    proof (cases r1)
      case None
      with True h c1 show ?thesis by (auto simp: mangleRuleMatches_def)
    next
      case (Some e)
      from cleanupDSRService_rules_calls [of nsc ip proto port m "FormatInt16_uint32 m" rules s1]
      obtain new where
        "calls (cleanupDSRService_rules (logged nsc) ip proto port m (FormatInt16_uint32 m) rules s1)
           = new @ calls s1" by blast
      with True h c1 Some show ?thesis by (auto simp: mangleRuleMatches_def)
    qed
  qed
qed

lemma cleanupDSRService_invokes:
  assumes "lookupServiceByFWMark (fwMarkMap s) m = Inr (ip, proto, port)"
    and "fst (SaveInto (ext nsc) ''mangle'' (fst (host s))) = Inr dump"
    and "\<exists>l \<in> set (strings_Split dump (CHR 0x0A)). mangleRuleMatches ip m l"
  shows "CleanupMangleTableRule ip proto (Itoa port) (Itoa (uint m)) (dsrTCPMSS nsc)
           \<in> set (calls (snd (cleanupDSRService (logged nsc) m s)))"
  using assms cleanupDSRService_rules_invokes [of "strings_Split dump (CHR 0x0A)" ip m proto port nsc
      "snd (hcall (lg (SaveIntoTable ''mangle'') (SaveInto (ext nsc) ''mangle'')) s)"]
  by (simp add: cleanupDSRService_def Let_def case_prod_beta)

lemma cleanupDSRService_releases_binding_aux:
  "lookupServiceByFWMark (fwMarkMap s) fwMark = Inr t \<Longrightarrow>
     fwMarkMap (snd (cleanupDSRService nsc fwMark s)) = AList.delete fwMark (fwMarkMap s)"
  by (auto simp: cleanupDSRService_def Let_def split: prod.splits sum.splits dest: hcall_eqD)

text \<open>The iteration for a stale entry, by whether its mark is registered.\<close>

lemma cleanupStaleIPVSConfig_svc_registered:
  assumes "staleIPVS nsc a m" "FWMark m \<noteq> 0"
    and "lookupServiceByFWMark (fwMarkMap s) (FWMark m) = Inr t"
  shows "cleanupStaleIPVSConfig_svc (logged nsc) a m s =
           snd (hcall (ipvsDelService (ln (logged nsc)) m)
                  (snd (cleanupDSRService (logged nsc) (FWMark m) s)))"
  using assms
  by (auto simp: cleanupStaleIPVSConfig_svc_def staleIPVS_def Let_def split: option.splits)

lemma cleanupStaleIPVSConfig_svc_unregistered:
  assumes "staleIPVS nsc a m"
    and "lookupServiceByFWMark (fwMarkMap s) (FWMark m) = Inl e"
  shows "cleanupStaleIPVSConfig_svc (logged nsc) a m s =
           snd (hcall (ipvsDelService (ln (logged nsc)) m) s)"
  using assms
  by (auto simp: cleanupStaleIPVSConfig_svc_def staleIPVS_def Let_def split: option.splits)

text \<open>
  C3, as amended. When the host lists the entries \<open>svcs\<close>, the stale-IPVS sweep is the
  iteration over each of them in turn, and it invokes \<open>ipvsDelService\<close> on an entry if and
  only if the entry is listed, has a key, its key is not in the active set and no
  excluded CIDR contains its address; so an entry without a key is never deleted. The
  stale-VIP sweep lists the addresses of the dummy interface and invokes \<open>ipAddrDel\<close> on
  exactly those that no dash-separated key of the active set starts with, in the order
  listed. For a stale entry whose mark is registered, the iteration runs the DSR teardown
  and then deletes the entry: the mark's binding is released, and the mangle-rule cleanup
  is invoked if a saved line mentions the registered address and the mark. For a stale
  entry whose mark is not registered, the iteration records the deletion of the entry and
  nothing else. The theorem is about the calls made; what the host holds afterwards is
  the host's answer.
\<close>

theorem sweeps_invoke_deletion_of_stale_objects:
  "(fst (ipvsGetServices (ln nsc) (fst (host s))) = Inr svcs \<longrightarrow>
      snd (cleanupStaleIPVSConfig (logged nsc) a s) =
        fold (cleanupStaleIPVSConfig_svc (logged nsc) a) svcs
          (snd (hcall (ipvsGetServices (ln (logged nsc))) s))
      \<and> (IpvsDelService v \<in> set (calls (snd (cleanupStaleIPVSConfig (logged nsc) a s)))
          \<longleftrightarrow> IpvsDelService v \<in> set (calls s) \<or> (v \<in> set svcs \<and> staleIPVS nsc a v)))
   \<and> (fst (getKubeDummyInterface (ln nsc) (fst (host s))) = Inr iface
       \<and> fst (AddrList (ext nsc) iface (snd (getKubeDummyInterface (ln nsc) (fst (host s)))))
           = Inr addrs \<longrightarrow>
      rev (calls (snd (cleanupStaleVIPs (logged nsc) a s))) =
        rev (calls s) @ [GetKubeDummyInterface, NetlinkAddrList iface]
        @ map (\<lambda>x. IpAddrDel iface (IP_String x)) (filter (staleVIP a) addrs))
   \<and> (staleIPVS nsc a m \<and> FWMark m \<noteq> 0
       \<and> lookupServiceByFWMark (fwMarkMap s') (FWMark m) = Inr (ip, proto, port) \<longrightarrow>
      calls (cleanupStaleIPVSConfig_svc (logged nsc) a m s') =
        IpvsDelService m # calls (snd (cleanupDSRService (logged nsc) (FWMark m) s'))
      \<and> fwMarkMap (cleanupStaleIPVSConfig_svc (logged nsc) a m s') =
          AList.delete (FWMark m) (fwMarkMap s')
      \<and> (fst (SaveInto (ext nsc) ''mangle'' (fst (host s'))) = Inr dump
          \<and> (\<exists>l \<in> set (strings_Split dump (CHR 0x0A)). mangleRuleMatches ip (FWMark m) l) \<longrightarrow>
         CleanupMangleTableRule ip proto (Itoa port) (Itoa (uint (FWMark m))) (dsrTCPMSS nsc)
           \<in> set (calls (cleanupStaleIPVSConfig_svc (logged nsc) a m s'))))
   \<and> (staleIPVS nsc a m \<and> lookupServiceByFWMark (fwMarkMap s') (FWMark m) = Inl e \<longrightarrow>
      calls (cleanupStaleIPVSConfig_svc (logged nsc) a m s') = IpvsDelService m # calls s'
      \<and> fwMarkMap (cleanupStaleIPVSConfig_svc (logged nsc) a m s') = fwMarkMap s')"
proof (intro conjI impI)
  assume l: "fst (ipvsGetServices (ln nsc) (fst (host s))) = Inr svcs"
  show "snd (cleanupStaleIPVSConfig (logged nsc) a s) =
        fold (cleanupStaleIPVSConfig_svc (logged nsc) a) svcs
          (snd (hcall (ipvsGetServices (ln (logged nsc))) s))"
    by (rule cleanupStaleIPVSConfig_fold [OF l])
  from cleanupStaleIPVSConfig_members [OF l, of a v] obtain new where
    "calls (snd (cleanupStaleIPVSConfig (logged nsc) a s)) = new @ calls s"
    "IpvsDelService v \<in> set new \<longleftrightarrow> v \<in> set svcs \<and> staleIPVS nsc a v" by blast
  then show "IpvsDelService v \<in> set (calls (snd (cleanupStaleIPVSConfig (logged nsc) a s)))
          \<longleftrightarrow> IpvsDelService v \<in> set (calls s) \<or> (v \<in> set svcs \<and> staleIPVS nsc a v)"
    by auto
next
  assume "fst (getKubeDummyInterface (ln nsc) (fst (host s))) = Inr iface
       \<and> fst (AddrList (ext nsc) iface (snd (getKubeDummyInterface (ln nsc) (fst (host s)))))
           = Inr addrs"
  then show "rev (calls (snd (cleanupStaleVIPs (logged nsc) a s))) =
        rev (calls s) @ [GetKubeDummyInterface, NetlinkAddrList iface]
        @ map (\<lambda>x. IpAddrDel iface (IP_String x)) (filter (staleVIP a) addrs)"
    by (simp add: cleanupStaleVIPs_calls)
next
  assume h: "staleIPVS nsc a m \<and> FWMark m \<noteq> 0
       \<and> lookupServiceByFWMark (fwMarkMap s') (FWMark m) = Inr (ip, proto, port)"
  then have eq: "cleanupStaleIPVSConfig_svc (logged nsc) a m s' =
           snd (hcall (ipvsDelService (ln (logged nsc)) m)
                  (snd (cleanupDSRService (logged nsc) (FWMark m) s')))"
    by (simp add: cleanupStaleIPVSConfig_svc_registered)
  show c: "calls (cleanupStaleIPVSConfig_svc (logged nsc) a m s') =
        IpvsDelService m # calls (snd (cleanupDSRService (logged nsc) (FWMark m) s'))"
    by (simp add: eq)
  show "fwMarkMap (cleanupStaleIPVSConfig_svc (logged nsc) a m s') =
          AList.delete (FWMark m) (fwMarkMap s')"
    using h cleanupDSRService_releases_binding_aux [of s' "FWMark m" "(ip, proto, port)" "logged nsc"]
    by (simp add: eq)
  assume "fst (SaveInto (ext nsc) ''mangle'' (fst (host s'))) = Inr dump
          \<and> (\<exists>l \<in> set (strings_Split dump (CHR 0x0A)). mangleRuleMatches ip (FWMark m) l)"
  with h cleanupDSRService_invokes [of s' "FWMark m" ip proto port nsc dump]
  show "CleanupMangleTableRule ip proto (Itoa port) (Itoa (uint (FWMark m))) (dsrTCPMSS nsc)
           \<in> set (calls (cleanupStaleIPVSConfig_svc (logged nsc) a m s'))"
    by (simp add: c)
next
  assume h: "staleIPVS nsc a m \<and> lookupServiceByFWMark (fwMarkMap s') (FWMark m) = Inl e"
  then have eq: "cleanupStaleIPVSConfig_svc (logged nsc) a m s' =
           snd (hcall (ipvsDelService (ln (logged nsc)) m) s')"
    by (simp add: cleanupStaleIPVSConfig_svc_unregistered)
  show "calls (cleanupStaleIPVSConfig_svc (logged nsc) a m s') = IpvsDelService m # calls s'"
    by (simp add: eq)
  show "fwMarkMap (cleanupStaleIPVSConfig_svc (logged nsc) a m s') = fwMarkMap s'"
    by (simp add: eq)
qed

text \<open>
  Runs on the S6 node and on the node with the stale marked entry, with the mark
  registered and not.
\<close>

lemma s6_stale_service:
  "fst (ipvsGetServices (ln node_nsc) (fst (host (start s6_node [] [])))) = Inr [web_vs, old_vs]
   \<and> old_vs \<in> set [web_vs, old_vs] \<and> staleIPVS node_nsc s6_active old_vs
   \<and> \<not> staleIPVS node_nsc s6_active web_vs
   \<and> calls (start s6_node [] []) = []"
  by (simp add: sweep_defs fixture_defs node_eval)

lemma s6_stale_address:
  "fst (getKubeDummyInterface (ln node_nsc) (fst (host (start s6_node [] [])))) = Inr ''kube-dummy-if''
   \<and> fst (AddrList (ext node_nsc) ''kube-dummy-if''
         (snd (getKubeDummyInterface (ln node_nsc) (fst (host (start s6_node [] []))))))
       = Inr [Some ''10.0.0.1'', Some ''10.0.0.99'']"
  by (simp add: sweep_defs fixture_defs node_eval)

lemma s6_stale_address_trace:
  "rev (calls (start s6_node [] [])) @ [GetKubeDummyInterface, NetlinkAddrList ''kube-dummy-if'']
     @ map (\<lambda>x. IpAddrDel ''kube-dummy-if'' (IP_String x))
         (filter (staleVIP s6_active) [Some ''10.0.0.1'', Some ''10.0.0.99'']) =
   [GetKubeDummyInterface, NetlinkAddrList ''kube-dummy-if'',
    IpAddrDel ''kube-dummy-if'' ''10.0.0.99'']"
  by (simp add: sweep_defs fixture_defs node_eval)

lemma dsr_stale_mark:
  "staleIPVS node_nsc [] marked_vs \<and> FWMark marked_vs \<noteq> 0
   \<and> lookupServiceByFWMark (fwMarkMap (start dsr_node dsr_registry [])) (FWMark marked_vs)
       = Inr (''203.0.113.9'', ''tcp'', 443)
   \<and> lookupServiceByFWMark (fwMarkMap (start dsr_node [] [])) (FWMark marked_vs)
       = Inl ''could not find service matching the given FW mark''"
  by (simp add: sweep_defs dsr_node_def marked_vs_def dsr_registry_def node_eval)

lemma dsr_dump:
  "fst (SaveInto (ext node_nsc) ''mangle'' (fst (host (start dsr_node dsr_registry [])))) =
     Inr (other_rule @ [CHR 0x0A] @ dsr_rule_prerouting @ [CHR 0x0A])
   \<and> (\<exists>l \<in> set (strings_Split (other_rule @ [CHR 0x0A] @ dsr_rule_prerouting @ [CHR 0x0A]) (CHR 0x0A)).
         mangleRuleMatches ''203.0.113.9'' (FWMark marked_vs) l)"
  by (simp add: sweep_defs dsr_node_def marked_vs_def dsr_registry_def mangleRuleMatches_def
      other_rule_def dsr_rule_prerouting_def node_eval)

lemma dsr_teardown_run:
  "calls (snd (cleanupDSRService (logged node_nsc) (FWMark marked_vs) (start dsr_node dsr_registry [])))
     = [CleanupMangleTableRule ''203.0.113.9'' ''tcp'' ''443'' ''4660'' 1440, SaveIntoTable ''mangle'']
   \<and> AList.delete (FWMark marked_vs) (fwMarkMap (start dsr_node dsr_registry [])) = []
   \<and> calls (start dsr_node [] []) = [] \<and> fwMarkMap (start dsr_node [] []) = []"
  by (simp add: sweep_defs dsr_node_def marked_vs_def dsr_registry_def
      other_rule_def dsr_rule_prerouting_def node_eval)

theorem sweeps_invoke_deletion_of_stale_objects_witness:
  "staleIPVS node_nsc s6_active old_vs \<and> \<not> staleIPVS node_nsc s6_active web_vs
   \<and> IpvsDelService old_vs
       \<in> set (calls (snd (cleanupStaleIPVSConfig (logged node_nsc) s6_active (start s6_node [] []))))
   \<and> IpvsDelService web_vs
       \<notin> set (calls (snd (cleanupStaleIPVSConfig (logged node_nsc) s6_active (start s6_node [] []))))
   \<and> rev (calls (snd (cleanupStaleVIPs (logged node_nsc) s6_active (start s6_node [] [])))) =
       [GetKubeDummyInterface, NetlinkAddrList ''kube-dummy-if'',
        IpAddrDel ''kube-dummy-if'' ''10.0.0.99'']
   \<and> staleIPVS node_nsc [] marked_vs
   \<and> calls (cleanupStaleIPVSConfig_svc (logged node_nsc) [] marked_vs (start dsr_node dsr_registry []))
       = [IpvsDelService marked_vs,
          CleanupMangleTableRule ''203.0.113.9'' ''tcp'' ''443'' ''4660'' 1440,
          SaveIntoTable ''mangle'']
   \<and> fwMarkMap (cleanupStaleIPVSConfig_svc (logged node_nsc) [] marked_vs
        (start dsr_node dsr_registry [])) = []
   \<and> CleanupMangleTableRule ''203.0.113.9'' ''tcp'' (Itoa 443) (Itoa (uint (FWMark marked_vs)))
         (dsrTCPMSS node_nsc)
       \<in> set (calls (cleanupStaleIPVSConfig_svc (logged node_nsc) [] marked_vs
                       (start dsr_node dsr_registry [])))
   \<and> calls (cleanupStaleIPVSConfig_svc (logged node_nsc) [] marked_vs (start dsr_node [] []))
       = [IpvsDelService marked_vs]"
proof -
  note t1 = sweeps_invoke_deletion_of_stale_objects
    [where nsc = node_nsc and s = "start s6_node [] []" and svcs = "[web_vs, old_vs]"
       and v = old_vs and a = s6_active and iface = "''kube-dummy-if''"
       and addrs = "[Some ''10.0.0.1'', Some ''10.0.0.99'']"]
  note t1' = sweeps_invoke_deletion_of_stale_objects
    [where nsc = node_nsc and s = "start s6_node [] []" and svcs = "[web_vs, old_vs]"
       and v = web_vs and a = s6_active]
  note t2 = sweeps_invoke_deletion_of_stale_objects
    [where nsc = node_nsc and a = "[]" and m = marked_vs and s' = "start dsr_node dsr_registry []"
       and ip = "''203.0.113.9''" and proto = "''tcp''" and port = 443
       and dump = "other_rule @ [CHR 0x0A] @ dsr_rule_prerouting @ [CHR 0x0A]"]
  note t3 = sweeps_invoke_deletion_of_stale_objects
    [where nsc = node_nsc and a = "[]" and m = marked_vs and s' = "start dsr_node [] []"
       and e = "''could not find service matching the given FW mark''"]
  from t1 s6_stale_service have c1: "IpvsDelService old_vs
       \<in> set (calls (snd (cleanupStaleIPVSConfig (logged node_nsc) s6_active (start s6_node [] []))))"
    by blast
  from t1' s6_stale_service have "IpvsDelService web_vs
       \<in> set (calls (snd (cleanupStaleIPVSConfig (logged node_nsc) s6_active (start s6_node [] []))))
     \<longleftrightarrow> IpvsDelService web_vs \<in> set (calls (start s6_node [] []))
        \<or> (web_vs \<in> set [web_vs, old_vs] \<and> staleIPVS node_nsc s6_active web_vs)"
    by blast
  with s6_stale_service have c1': "IpvsDelService web_vs
       \<notin> set (calls (snd (cleanupStaleIPVSConfig (logged node_nsc) s6_active (start s6_node [] []))))"
    by simp
  from t1 s6_stale_address
  have "rev (calls (snd (cleanupStaleVIPs (logged node_nsc) s6_active (start s6_node [] [])))) =
        rev (calls (start s6_node [] [])) @ [GetKubeDummyInterface, NetlinkAddrList ''kube-dummy-if'']
        @ map (\<lambda>x. IpAddrDel ''kube-dummy-if'' (IP_String x))
            (filter (staleVIP s6_active) [Some ''10.0.0.1'', Some ''10.0.0.99''])"
    by blast
  then have c2: "rev (calls (snd (cleanupStaleVIPs (logged node_nsc) s6_active (start s6_node [] [])))) =
       [GetKubeDummyInterface, NetlinkAddrList ''kube-dummy-if'',
        IpAddrDel ''kube-dummy-if'' ''10.0.0.99'']"
    by (simp only: s6_stale_address_trace)
  from t2 dsr_stale_mark
  have "calls (cleanupStaleIPVSConfig_svc (logged node_nsc) [] marked_vs (start dsr_node dsr_registry []))
       = IpvsDelService marked_vs
         # calls (snd (cleanupDSRService (logged node_nsc) (FWMark marked_vs)
                         (start dsr_node dsr_registry [])))
     \<and> fwMarkMap (cleanupStaleIPVSConfig_svc (logged node_nsc) [] marked_vs
          (start dsr_node dsr_registry []))
        = AList.delete (FWMark marked_vs) (fwMarkMap (start dsr_node dsr_registry []))"
    by blast
  then have c3: "calls (cleanupStaleIPVSConfig_svc (logged node_nsc) [] marked_vs (start dsr_node dsr_registry []))
       = [IpvsDelService marked_vs,
          CleanupMangleTableRule ''203.0.113.9'' ''tcp'' ''443'' ''4660'' 1440,
          SaveIntoTable ''mangle'']
     \<and> fwMarkMap (cleanupStaleIPVSConfig_svc (logged node_nsc) [] marked_vs
        (start dsr_node dsr_registry [])) = []"
    by (simp only: dsr_teardown_run)
  from t2 dsr_stale_mark dsr_dump
  have c5: "CleanupMangleTableRule ''203.0.113.9'' ''tcp'' (Itoa 443) (Itoa (uint (FWMark marked_vs)))
         (dsrTCPMSS node_nsc)
       \<in> set (calls (cleanupStaleIPVSConfig_svc (logged node_nsc) [] marked_vs
                       (start dsr_node dsr_registry [])))"
    by blast
  from t3 dsr_stale_mark
  have "calls (cleanupStaleIPVSConfig_svc (logged node_nsc) [] marked_vs (start dsr_node [] []))
       = IpvsDelService marked_vs # calls (start dsr_node [] [])"
    by blast
  then have c4: "calls (cleanupStaleIPVSConfig_svc (logged node_nsc) [] marked_vs (start dsr_node [] []))
       = [IpvsDelService marked_vs]"
    by (simp only: dsr_teardown_run)
  from s6_stale_service dsr_stale_mark c1 c1' c2 c3 c4 c5 show ?thesis by blast
qed

text \<open>
  C3 as stated fails in three ways, each on a complete pass with an empty active set and
  no excluded CIDR. An installed SCTP service with no mark has no key and is skipped by
  the sweep. A marked entry whose mark is not in the registry is deleted, but its mangle
  rule is never looked at. And where the host refuses the deletion, the stale entry
  stays.
\<close>

lemma sync_defs_sctp:
  "ipvsSvcKey sctp_vs = None
   \<and> fst (syncIpvsServices node_nsc [] []
        \<lparr>host = empty_node\<lparr>node_ipvs := [sctp_vs]\<rparr>, fwMarkMap = [], metricsMap = []\<rparr>) = None
   \<and> node_ipvs (host (snd (syncIpvsServices node_nsc [] []
        \<lparr>host = empty_node\<lparr>node_ipvs := [sctp_vs]\<rparr>, fwMarkMap = [], metricsMap = []\<rparr>))) = [sctp_vs]"
  by (simp add: syncIpvsServices_def syncIpvsServices_steps_def setupClusterIPServices_def
      setupNodePortServices_def setupExternalIPServices_def cleanupStaleVIPs_def
      cleanupStaleIPVSConfig_def cleanupStaleIPVSConfig_svc_def cleanupStaleMetrics_def
      setupForDSR_def ipvsSvcKey_def isError_def sctp_vs_def node_eval)

lemma sync_orphan_rule:
  "mangleRuleMatches ''203.0.113.9'' (FWMark marked_vs) dsr_rule_prerouting
   \<and> host (snd (syncIpvsServices node_nsc [] []
        \<lparr>host = orphan_node, fwMarkMap = [], metricsMap = []\<rparr>)) =
       empty_node\<lparr>node_mangle := [dsr_rule_prerouting]\<rparr>"
  by (simp add: syncIpvsServices_def syncIpvsServices_steps_def setupClusterIPServices_def
      setupNodePortServices_def setupExternalIPServices_def cleanupStaleVIPs_def
      cleanupStaleIPVSConfig_def cleanupStaleIPVSConfig_svc_def cleanupStaleMetrics_def
      setupForDSR_def ipvsSvcKey_def isError_def marked_vs_def orphan_node_def
      mangleRuleMatches_def dsr_rule_prerouting_def node_eval)

lemma sync_stuck:
  "staleIPVS stuck_nsc [] old_vs
   \<and> node_ipvs (host (snd (syncIpvsServices stuck_nsc [] []
        \<lparr>host = empty_node\<lparr>node_ipvs := [old_vs]\<rparr>, fwMarkMap = [], metricsMap = []\<rparr>))) = [old_vs]"
  by (simp add: syncIpvsServices_def syncIpvsServices_steps_def setupClusterIPServices_def
      setupNodePortServices_def setupExternalIPServices_def cleanupStaleVIPs_def
      cleanupStaleIPVSConfig_def cleanupStaleIPVSConfig_svc_def cleanupStaleMetrics_def
      setupForDSR_def ipvsSvcKey_def isError_def old_vs_def stuck_nsc_def staleIPVS_def node_eval)

theorem stale_objects_survive_sync_counterexample:
  "ipvsSvcKey sctp_vs = None
   \<and> fst (syncIpvsServices node_nsc [] []
        \<lparr>host = empty_node\<lparr>node_ipvs := [sctp_vs]\<rparr>, fwMarkMap = [], metricsMap = []\<rparr>) = None
   \<and> node_ipvs (host (snd (syncIpvsServices node_nsc [] []
        \<lparr>host = empty_node\<lparr>node_ipvs := [sctp_vs]\<rparr>, fwMarkMap = [], metricsMap = []\<rparr>))) = [sctp_vs]
   \<and> mangleRuleMatches ''203.0.113.9'' (FWMark marked_vs) dsr_rule_prerouting
   \<and> host (snd (syncIpvsServices node_nsc [] []
        \<lparr>host = orphan_node, fwMarkMap = [], metricsMap = []\<rparr>)) =
       empty_node\<lparr>node_mangle := [dsr_rule_prerouting]\<rparr>
   \<and> staleIPVS stuck_nsc [] old_vs
   \<and> node_ipvs (host (snd (syncIpvsServices stuck_nsc [] []
        \<lparr>host = empty_node\<lparr>node_ipvs := [old_vs]\<rparr>, fwMarkMap = [], metricsMap = []\<rparr>))) = [old_vs]"
  using sync_defs_sctp sync_orphan_rule sync_stuck by blast

subsection \<open>The real servers each pass adds\<close>

lemma localPolicy_cluster:
  "localPolicy svc eps e \<longleftrightarrow> \<not> (svc_local svc \<and> hasActiveEndpoints eps \<and> \<not> isLocal e)"
  by (auto simp: localPolicy_def)

lemma localPolicy_guarded:
  "\<not> (svc_local svc \<and> \<not> hasActiveEndpoints eps) \<Longrightarrow>
     localPolicy svc eps e \<longleftrightarrow> \<not> svc_local svc \<or> isLocal e"
  by (auto simp: localPolicy_def)

lemma setupClusterIPServices_endpoints_calls:
  "calls (snd (setupClusterIPServices_endpoints (logged nsc) svc eps v k rest (a, s))) =
     rev (map (\<lambda>e. IpvsAddServer v (mkDestination nsc e)) (filter (localPolicy svc eps) rest))
     @ calls s"
proof (induction rest arbitrary: a s)
  case Nil
  then show ?case by simp
next
  case (Cons e rest)
  show ?case
  proof (cases "localPolicy svc eps e")
    case False
    then show ?thesis using Cons.IH [of a s] by (auto simp: localPolicy_cluster)
  next
    case True
    let ?h = "hcall (lg (IpvsAddServer v (mkDestination nsc e))
                       (ipvsAddServer (ln nsc) v (mkDestination nsc e))) s"
    show ?thesis
    proof (cases "fst ?h")
      case None
      with True Cons.IH [of "active_append a k (endpointID e)" "snd ?h"] show ?thesis
        by (auto simp: localPolicy_cluster case_prod_beta simp del: fst_hcall_lg)
    next
      case (Some err)
      with True Cons.IH [of a "snd ?h"] show ?thesis
        by (auto simp: localPolicy_cluster case_prod_beta simp del: fst_hcall_lg)
    qed
  qed
qed

lemma setupNodePortServices_slots_calls:
  "calls (snd (setupNodePortServices_slots (logged nsc) svc e slots (a, s))) =
     rev (if \<not> svc_local svc \<or> isLocal e
          then map (\<lambda>sl. IpvsAddServer (fst sl) (mkDestination nsc e)) slots else [])
     @ calls s"
proof (induction slots arbitrary: a s)
  case Nil
  then show ?case by simp
next
  case (Cons sl slots)
  obtain h k where sl: "sl = (h, k)" by (cases sl)
  let ?h = "hcall (lg (IpvsAddServer h (mkDestination nsc e))
                     (ipvsAddServer (ln nsc) h (mkDestination nsc e))) s"
  show ?case
  proof (cases "\<not> svc_local svc \<or> isLocal e")
    case False
    then show ?thesis using Cons.IH [of a s] sl by auto
  next
    case True
    show ?thesis
    proof (cases "fst ?h")
      case None
      with True sl Cons.IH [of "active_append a k (endpointID e)" "snd ?h"] show ?thesis
        by (auto simp: case_prod_beta simp del: fst_hcall_lg)
    next
      case (Some err)
      with True sl Cons.IH [of a "snd ?h"] show ?thesis
        by (auto simp: case_prod_beta simp del: fst_hcall_lg)
    qed
  qed
qed

lemma setupNodePortServices_endpoints_calls:
  "calls (snd (setupNodePortServices_endpoints (logged nsc) svc slots rest (a, s))) =
     rev (concat (map (\<lambda>e. map (\<lambda>sl. IpvsAddServer (fst sl) (mkDestination nsc e)) slots)
                    (filter (\<lambda>e. \<not> svc_local svc \<or> isLocal e) rest)))
     @ calls s"
proof (induction rest arbitrary: a s)
  case Nil
  then show ?case by simp
next
  case (Cons e rest)
  obtain a1 s1 where r: "setupNodePortServices_slots (logged nsc) svc e slots (a, s) = (a1, s1)"
    by (cases "setupNodePortServices_slots (logged nsc) svc e slots (a, s)")
  from setupNodePortServices_slots_calls [of nsc svc e slots a s] r
  have c1: "calls s1 = rev (if \<not> svc_local svc \<or> isLocal e
          then map (\<lambda>sl. IpvsAddServer (fst sl) (mkDestination nsc e)) slots else []) @ calls s"
    by simp
  from Cons.IH [of a1 s1] r c1 show ?case by auto
qed

lemma setupExternalIPForService_endpoints_calls:
  "fst (setupExternalIPForService_endpoints (logged nsc) svc x v rest s) = None \<Longrightarrow>
   calls (snd (setupExternalIPForService_endpoints (logged nsc) svc x v rest s)) =
     rev (map (\<lambda>e. IpvsAddServer v (mkDestination nsc e))
            (filter (\<lambda>e. \<not> svc_local svc \<or> isLocal e) rest))
     @ calls s"
proof (induction rest arbitrary: s)
  case Nil
  then show ?case by simp
next
  case (Cons e rest)
  let ?h = "hcall (lg (IpvsAddServer v (mkDestination nsc e))
                     (ipvsAddServer (ln nsc) v (mkDestination nsc e))) s"
  show ?case
  proof (cases "\<not> svc_local svc \<or> isLocal e")
    case False
    then show ?thesis using Cons.IH [of s] Cons.prems by auto
  next
    case True
    show ?thesis
    proof (cases "fst ?h")
      case None
      with True Cons.prems Cons.IH [of "snd ?h"] show ?thesis
        by (auto simp: case_prod_beta simp del: fst_hcall_lg)
    next
      case (Some err)
      with True Cons.prems show ?thesis
        by (auto simp: case_prod_beta simp del: fst_hcall_lg)
    qed
  qed
qed

lemma setupExternalIPForDSRService_endpoints_calls:
  "fst (setupExternalIPForDSRService_endpoints (logged nsc) svc x v rest s) = None \<Longrightarrow>
   calls (snd (setupExternalIPForDSRService_endpoints (logged nsc) svc x v rest s)) =
     rev (concat (map (\<lambda>e. [IpvsAddServer v ((mkDestination nsc e)\<lparr>dConnectionFlags := ConnectionFlagTunnel\<rparr>),
                             AddDSRIPInsidePodNetNamespace x (ep_ip e)])
                    (filter (\<lambda>e. \<not> svc_local svc \<or> isLocal e) rest)))
     @ calls s"
proof (induction rest arbitrary: s)
  case Nil
  then show ?case by simp
next
  case (Cons e rest)
  let ?d = "(mkDestination nsc e)\<lparr>dConnectionFlags := ConnectionFlagTunnel\<rparr>"
  let ?h = "hcall (lg (IpvsAddServer v ?d) (ipvsAddServer (ln nsc) v ?d)) s"
  let ?g = "hcall (lg (AddDSRIPInsidePodNetNamespace x (ep_ip e))
                     (addDSRIPInsidePodNetNamespace (ext nsc) x (ep_ip e))) (snd ?h)"
  show ?case
  proof (cases "\<not> svc_local svc \<or> isLocal e")
    case False
    then show ?thesis using Cons.IH [of s] Cons.prems by auto
  next
    case True
    show ?thesis
    proof (cases "fst ?h")
      case (Some err)
      with True Cons.prems show ?thesis
        by (auto simp: case_prod_beta simp del: fst_hcall_lg)
    next
      case None
      note added = this
      show ?thesis
      proof (cases "fst ?g")
        case (Some err)
        with True added Cons.prems show ?thesis
          by (auto simp: case_prod_beta simp del: fst_hcall_lg)
      next
        case None
        with True added Cons.prems Cons.IH [of "snd ?g"] show ?thesis
          by (auto simp: case_prod_beta simp del: fst_hcall_lg)
      qed
    qed
  qed
qed

subsection \<open>The passes, one service after another\<close>

text \<open>
  A pass over a map that lists further services after a prefix goes on, from the state
  the prefix left, with those services; the cluster-IP and the external-IP pass only if
  the prefix was not cut short by an error.
\<close>

lemma setupClusterIPServices_loop_append:
  "setupClusterIPServices_loop nsc em svcs (xs @ ys) p =
     (case setupClusterIPServices_loop nsc em svcs xs p of
        (None, p') \<Rightarrow> setupClusterIPServices_loop nsc em svcs ys p'
      | (Some e, p') \<Rightarrow> (Some e, p'))"
proof (induction xs arbitrary: p)
  case Nil
  then show ?case by (cases p) simp
next
  case (Cons x xs)
  obtain k svc where x: "x = (k, svc)" by (cases x)
  obtain a s where p: "p = (a, s)" by (cases p)
  show ?case
    by (simp add: x p Let_def Cons.IH split: prod.splits sum.splits option.splits)
qed

lemma setupNodePortServices_loop_append:
  "setupNodePortServices_loop nsc em svcs (xs @ ys) p =
     setupNodePortServices_loop nsc em svcs ys (setupNodePortServices_loop nsc em svcs xs p)"
proof (induction xs arbitrary: p)
  case Nil
  then show ?case by (cases p) simp
next
  case (Cons x xs)
  obtain k svc where x: "x = (k, svc)" by (cases x)
  obtain a s where p: "p = (a, s)" by (cases p)
  show ?case
    by (simp add: x p Let_def Cons.IH split: prod.splits sum.splits option.splits)
qed

lemma setupExternalIPServices_loop_append:
  "setupExternalIPServices_loop nsc em (xs @ ys) p =
     (case setupExternalIPServices_loop nsc em xs p of
        (None, p') \<Rightarrow> setupExternalIPServices_loop nsc em ys p'
      | (Some e, p') \<Rightarrow> (Some e, p'))"
proof (induction xs arbitrary: p)
  case Nil
  then show ?case by (cases p) simp
next
  case (Cons x xs)
  obtain k svc where x: "x = (k, svc)" by (cases x)
  obtain a s where p: "p = (a, s)" by (cases p)
  show ?case
    by (simp add: x p Let_def Cons.IH split: prod.splits sum.splits option.splits)
qed

lemma setupClusterIPServices_loop_Nil: "setupClusterIPServices_loop nsc em svcs [] p = (None, p)"
  by (cases p) simp

lemma setupNodePortServices_loop_Nil: "setupNodePortServices_loop nsc em svcs [] p = p"
  by (cases p) simp

lemma setupExternalIPServices_loop_Nil: "setupExternalIPServices_loop nsc em [] p = (None, p)"
  by (cases p) simp

text \<open>A pass whose listing of the IPVS services succeeds is the loop over the map.\<close>

lemma setupClusterIPServices_listed:
  "fst (ipvsGetServices (ln nsc) (fst (host s))) = Inr svcs \<Longrightarrow>
     setupClusterIPServices (logged nsc) sm em a s =
       setupClusterIPServices_loop (logged nsc) em svcs sm
         (a, snd (hcall (ipvsGetServices (ln (logged nsc))) s))"
  by (simp add: setupClusterIPServices_def case_prod_beta)

lemma setupClusterIPServices_nil_listed:
  "fst (setupClusterIPServices (logged nsc) sm em a s) = None \<Longrightarrow>
     \<exists>svcs. fst (ipvsGetServices (ln nsc) (fst (host s))) = Inr svcs"
  by (cases "fst (ipvsGetServices (ln nsc) (fst (host s)))")
     (simp_all add: setupClusterIPServices_def case_prod_beta)

lemma setupNodePortServices_listed:
  "fst (ipvsGetServices (ln nsc) (fst (host s))) = Inr svcs \<Longrightarrow>
     setupNodePortServices (logged nsc) sm em a s =
       (None, setupNodePortServices_loop (logged nsc) em svcs sm
                (a, snd (hcall (ipvsGetServices (ln (logged nsc))) s)))"
  by (simp add: setupNodePortServices_def case_prod_beta)

text \<open>One service of the cluster-IP pass whose address and virtual service the host accepts.\<close>

lemma setupClusterIPServices_step:
  assumes "getKubeDummyInterface (ln nsc) (fst (host s1)) = (Inr iface, h2)"
    and "ipAddrAdd (ln nsc) iface (IP_String (clusterIP svc)) True h2 = (None, h3)"
    and "fst (ipvsAddService (ln nsc) svcs (clusterIP svc)
                (convertSvcProtoToSysCallProto (svc_protocol svc)) (word_of_int (svc_port svc))
                (sessionAffinity svc) (sessionAffinityTimeoutSeconds svc) (scheduler svc)
                (svc_flags svc) h3) = (v, None)"
  shows "fst (setupClusterIPServices_loop (logged nsc) em svcs [(k, svc)] (a1, s1)) = None
     \<and> calls (snd (snd (setupClusterIPServices_loop (logged nsc) em svcs [(k, svc)] (a1, s1)))) =
         rev (map (\<lambda>e. IpvsAddServer v (mkDestination nsc e))
                (filter (localPolicy svc (endpointsOf em k)) (endpointsOf em k)))
         @ IpvsAddService (clusterIP svc) (convertSvcProtoToSysCallProto (svc_protocol svc))
             (word_of_int (svc_port svc))
         # IpAddrAdd iface (IP_String (clusterIP svc)) True # GetKubeDummyInterface # calls s1"
  using assms
  by (simp add: Let_def case_prod_beta setupClusterIPServices_loop_Nil
      setupClusterIPServices_endpoints_calls)

text \<open>One service of the node-port pass, bound to the node's address.\<close>

lemma setupNodePortServices_step:
  assumes "nodePort svc \<noteq> 0"
    and "\<not> (svc_local svc \<and> \<not> hasActiveEndpoints (endpointsOf em k))"
    and "\<not> nodeportBindOnAllIP nsc"
    and "fst (ipvsAddService (ln nsc) svcs (nodeIP nsc)
                (convertSvcProtoToSysCallProto (svc_protocol svc)) (word_of_int (nodePort svc))
                (sessionAffinity svc) (sessionAffinityTimeoutSeconds svc) (scheduler svc)
                (svc_flags svc) (fst (host s1))) = (v, None)"
  shows "calls (snd (setupNodePortServices_loop (logged nsc) em svcs [(k, svc)] (a1, s1))) =
         rev (map (\<lambda>e. IpvsAddServer v (mkDestination nsc e))
                (filter (localPolicy svc (endpointsOf em k)) (endpointsOf em k)))
         @ IpvsAddService (nodeIP nsc) (convertSvcProtoToSysCallProto (svc_protocol svc))
             (word_of_int (nodePort svc))
         # calls s1"
proof -
  from assms(2)
  have f: "filter (localPolicy svc (endpointsOf em k)) (endpointsOf em k) =
           filter (\<lambda>e. \<not> svc_local svc \<or> isLocal e) (endpointsOf em k)"
    by (simp add: localPolicy_guarded cong: filter_cong)
  from assms show ?thesis
    by (simp add: Let_def case_prod_beta setupNodePortServices_loop_Nil
        setupNodePortServices_endpoints_calls f)
qed

text \<open>One service of the node-port pass, bound to every local address.\<close>

lemma setupNodePortServices_addrs_calls:
  "length (fst (setupNodePortServices_addrs (logged nsc) svc svcs proto addrs (a, s))) = length addrs
   \<and> calls (snd (snd (setupNodePortServices_addrs (logged nsc) svc svcs proto addrs (a, s)))) =
       rev (map (\<lambda>ad. IpvsAddService ad proto (word_of_int (nodePort svc))) addrs) @ calls s"
proof (induction addrs arbitrary: a s)
  case Nil
  then show ?case by simp
next
  case (Cons ad addrs)
  let ?h = "hcall (lg (IpvsAddService ad proto (word_of_int (nodePort svc)))
                     (ipvsAddService (ln nsc) svcs ad proto (word_of_int (nodePort svc))
                        (sessionAffinity svc) (sessionAffinityTimeoutSeconds svc) (scheduler svc)
                        (svc_flags svc))) s"
  show ?case
  proof (cases "snd (fst ?h)")
    case None
    with Cons.IH [of "AList.update (generateIPPortID (IP_String ad) (svc_protocol svc)
                        (Itoa (nodePort svc))) [] a" "snd ?h"]
    show ?thesis by (simp add: case_prod_beta Let_def del: fst_hcall_lg)
  next
    case (Some err)
    with Cons.IH [of a "snd ?h"]
    show ?thesis by (simp add: case_prod_beta Let_def del: fst_hcall_lg)
  qed
qed

lemma setupNodePortServices_endpoints_calls_pair:
  "calls (snd (setupNodePortServices_endpoints (logged nsc) svc slots rest p)) =
     rev (concat (map (\<lambda>e. map (\<lambda>sl. IpvsAddServer (fst sl) (mkDestination nsc e)) slots)
                    (filter (\<lambda>e. \<not> svc_local svc \<or> isLocal e) rest)))
     @ calls (snd p)"
  by (cases p) (simp add: setupNodePortServices_endpoints_calls)

lemma setupNodePortServices_step_all:
  assumes "nodePort svc \<noteq> 0"
    and "\<not> (svc_local svc \<and> \<not> hasActiveEndpoints (endpointsOf em k))"
    and "nodeportBindOnAllIP nsc"
    and "getAllLocalIPs (ext nsc) (fst (host s1)) = (Inr addrs, h2)"
    and "addrs \<noteq> []"
  shows "\<exists>handles. length handles = length addrs
     \<and> calls (snd (setupNodePortServices_loop (logged nsc) em svcs [(k, svc)] (a1, s1))) =
         rev (concat (map (\<lambda>e. map (\<lambda>h. IpvsAddServer h (mkDestination nsc e)) handles)
                        (filter (localPolicy svc (endpointsOf em k)) (endpointsOf em k))))
         @ rev (map (\<lambda>ad. IpvsAddService ad (convertSvcProtoToSysCallProto (svc_protocol svc))
                             (word_of_int (nodePort svc))) addrs)
         @ GetAllLocalIPs # calls s1"
proof -
  let ?s2 = "snd (hcall (getAllLocalIPs (ext (logged nsc))) s1)"
  let ?r = "setupNodePortServices_addrs (logged nsc) svc svcs
              (convertSvcProtoToSysCallProto (svc_protocol svc)) addrs (a1, ?s2)"
  from assms(2)
  have f: "filter (localPolicy svc (endpointsOf em k)) (endpointsOf em k) =
           filter (\<lambda>e. \<not> svc_local svc \<or> isLocal e) (endpointsOf em k)"
    by (simp add: localPolicy_guarded cong: filter_cong)
  from setupNodePortServices_addrs_calls [of nsc svc svcs
      "convertSvcProtoToSysCallProto (svc_protocol svc)" addrs a1 ?s2]
  have l: "length (map fst (fst ?r)) = length addrs"
    and c: "calls (snd (snd ?r)) =
       rev (map (\<lambda>ad. IpvsAddService ad (convertSvcProtoToSysCallProto (svc_protocol svc))
                          (word_of_int (nodePort svc))) addrs) @ GetAllLocalIPs # calls s1"
    by simp_all
  from assms c
  have "calls (snd (setupNodePortServices_loop (logged nsc) em svcs [(k, svc)] (a1, s1))) =
         rev (concat (map (\<lambda>e. map (\<lambda>h. IpvsAddServer h (mkDestination nsc e)) (map fst (fst ?r)))
                        (filter (localPolicy svc (endpointsOf em k)) (endpointsOf em k))))
         @ rev (map (\<lambda>ad. IpvsAddService ad (convertSvcProtoToSysCallProto (svc_protocol svc))
                             (word_of_int (nodePort svc))) addrs)
         @ GetAllLocalIPs # calls s1"
    by (simp add: Let_def case_prod_beta setupNodePortServices_loop_Nil
        setupNodePortServices_endpoints_calls_pair f o_def)
  with l show ?thesis by blast
qed

subsection \<open>The real servers the external-IP pass adds\<close>

lemma add_server_call_simps [simp]:
  "add_server_call (IpvsAddServer v d)"
  "\<not> add_server_call GetKubeDummyInterface"
  "\<not> add_server_call IpvsGetServices"
  "\<not> add_server_call (IpAddrAdd i x b)"
  "\<not> add_server_call (IpAddrDel i x)"
  "\<not> add_server_call (IpvsAddService ip p n)"
  "\<not> add_server_call (IpvsAddFWMarkService m p n)"
  "\<not> add_server_call (SetupMangleTableRule x1 x2 x3 x4 x5)"
  "\<not> add_server_call (RouteVIPTrafficToDirector y)"
  "\<not> add_server_call (AddDSRIPInsidePodNetNamespace y1 y2)"
  by (simp_all add: add_server_call_def)

lemma teardown_not_add: "teardown_call c \<Longrightarrow> \<not> add_server_call c"
  by (cases c) (simp_all add: teardown_call_def add_server_call_def)

lemma adds_cleanupDSRService:
  "filter add_server_call (rev (calls (snd (cleanupDSRService (logged nsc) m s)))) =
     filter add_server_call (rev (calls s))"
proof -
  from cleanupDSRService_calls [of nsc m s] obtain new where
    n: "calls (snd (cleanupDSRService (logged nsc) m s)) = new @ calls s"
       "\<forall>c \<in> set new. teardown_call c" by blast
  then have "filter add_server_call (rev new) = []"
    by (auto simp: filter_empty_conv dest: teardown_not_add)
  with n show ?thesis by simp
qed

lemma adds_service_endpoints:
  "fst (setupExternalIPForService_endpoints (logged nsc) svc x v rest s) = None \<Longrightarrow>
   filter add_server_call
     (rev (calls (snd (setupExternalIPForService_endpoints (logged nsc) svc x v rest s)))) =
     filter add_server_call (rev (calls s))
     @ map (\<lambda>e. IpvsAddServer v (mkDestination nsc e))
         (filter (\<lambda>e. \<not> svc_local svc \<or> isLocal e) rest)"
  by (simp add: setupExternalIPForService_endpoints_calls filter_map o_def)

lemma adds_dsr_endpoints:
  "fst (setupExternalIPForDSRService_endpoints (logged nsc) svc x v rest s) = None \<Longrightarrow>
   filter add_server_call
     (rev (calls (snd (setupExternalIPForDSRService_endpoints (logged nsc) svc x v rest s)))) =
     filter add_server_call (rev (calls s))
     @ map (\<lambda>e. IpvsAddServer v ((mkDestination nsc e)\<lparr>dConnectionFlags := ConnectionFlagTunnel\<rparr>))
         (filter (\<lambda>e. \<not> svc_local svc \<or> isLocal e) rest)"
proof -
  have "filter add_server_call
          (concat (map (\<lambda>e. [IpvsAddServer v ((mkDestination nsc e)\<lparr>dConnectionFlags := ConnectionFlagTunnel\<rparr>),
                              AddDSRIPInsidePodNetNamespace x (ep_ip e)]) xs)) =
        map (\<lambda>e. IpvsAddServer v ((mkDestination nsc e)\<lparr>dConnectionFlags := ConnectionFlagTunnel\<rparr>)) xs"
    for xs by (induction xs) simp_all
  then show "fst (setupExternalIPForDSRService_endpoints (logged nsc) svc x v rest s) = None \<Longrightarrow>
    ?thesis"
    by (simp add: setupExternalIPForDSRService_endpoints_calls)
qed

lemma setupExternalIPForService_adds:
  assumes "fst (setupExternalIPForService (logged nsc) svc ip eps s) = None"
  shows "\<exists>v. filter add_server_call
                (rev (calls (snd (setupExternalIPForService (logged nsc) svc ip eps s)))) =
              filter add_server_call (rev (calls s))
              @ map (\<lambda>e. IpvsAddServer v (mkDestination nsc e))
                  (filter (\<lambda>e. \<not> svc_local svc \<or> isLocal e) eps)"
  using assms unfolding setupExternalIPForService_def Let_def case_prod_beta
  by (auto split: sum.splits option.splits if_splits
      simp: adds_service_endpoints adds_cleanupDSRService)

lemma setupExternalIPForDSRService_adds:
  assumes "fst (setupExternalIPForDSRService (logged nsc) svc ip eps s) = None"
  shows "\<exists>v. filter add_server_call
                (rev (calls (snd (setupExternalIPForDSRService (logged nsc) svc ip eps s)))) =
              filter add_server_call (rev (calls s))
              @ map (\<lambda>e. IpvsAddServer v ((mkDestination nsc e)\<lparr>dConnectionFlags := ConnectionFlagTunnel\<rparr>))
                  (filter (\<lambda>e. \<not> svc_local svc \<or> isLocal e) eps)"
  using assms unfolding setupExternalIPForDSRService_def Let_def case_prod_beta
  by (auto split: sum.splits option.splits if_splits
      simp: adds_dsr_endpoints)

lemma setupExternalIPServices_ips_adds:
  "fst (setupExternalIPServices_ips (logged nsc) svc eps ips (a, s)) = None \<Longrightarrow>
   \<exists>vs. length vs = length ips
     \<and> filter add_server_call
         (rev (calls (snd (snd (setupExternalIPServices_ips (logged nsc) svc eps ips (a, s)))))) =
       filter add_server_call (rev (calls s))
       @ concat (map (\<lambda>v. map (\<lambda>e. IpvsAddServer v
                                 (if directServerReturn svc
                                     \<and> directServerReturnMethod svc = tunnelInterfaceType nsc
                                  then tunnelServer nsc e else realServer nsc e))
                           (filter (\<lambda>e. \<not> svc_local svc \<or> isLocal e) eps)) vs)"
proof (induction ips arbitrary: a s)
  case Nil
  then show ?case by simp
next
  case (Cons ip ips)
  show ?case
  proof (cases "directServerReturn svc \<and> directServerReturnMethod svc = tunnelInterfaceType nsc")
    case True
    let ?r = "setupExternalIPForDSRService (logged nsc) svc ip eps s"
    from Cons.prems True have n: "fst ?r = None"
      by (auto simp: case_prod_beta split: option.splits)
    let ?k = "Sprint_uint32 (lookupFWMarkByService (fwMarkMap (snd ?r)) ip (svc_protocol svc)
                (Itoa (svc_port svc)))"
    let ?a = "setupExternalIPServices_record svc ?k eps (AList.update ?k [] a)"
    from Cons.prems True n
    have eq: "setupExternalIPServices_ips (logged nsc) svc eps (ip # ips) (a, s) =
              setupExternalIPServices_ips (logged nsc) svc eps ips (?a, snd ?r)"
      by (simp add: case_prod_beta Let_def)
    from setupExternalIPForDSRService_adds [OF n] obtain v where
      v: "filter add_server_call (rev (calls (snd ?r))) =
            filter add_server_call (rev (calls s))
            @ map (\<lambda>e. IpvsAddServer v (tunnelServer nsc e))
                (filter (\<lambda>e. \<not> svc_local svc \<or> isLocal e) eps)"
      by (auto simp: mkDestination_def)
    from Cons.prems eq have "fst (setupExternalIPServices_ips (logged nsc) svc eps ips (?a, snd ?r)) = None"
      by simp
    from Cons.IH [OF this] obtain vs where
      vs: "length vs = length ips"
          "filter add_server_call
             (rev (calls (snd (snd (setupExternalIPServices_ips (logged nsc) svc eps ips (?a, snd ?r)))))) =
           filter add_server_call (rev (calls (snd ?r)))
           @ concat (map (\<lambda>v. map (\<lambda>e. IpvsAddServer v
                                 (if directServerReturn svc
                                     \<and> directServerReturnMethod svc = tunnelInterfaceType nsc
                                  then tunnelServer nsc e else realServer nsc e))
                           (filter (\<lambda>e. \<not> svc_local svc \<or> isLocal e) eps)) vs)"
      by blast
    from vs v True eq show ?thesis
      by (intro exI [of _ "v # vs"]) simp
  next
    case False
    let ?r = "setupExternalIPForService (logged nsc) svc ip eps s"
    from Cons.prems False have n: "fst ?r = None"
      by (auto simp: case_prod_beta split: option.splits)
    let ?k = "generateIPPortID ip (svc_protocol svc) (Itoa (svc_port svc))"
    let ?a = "setupExternalIPServices_record svc ?k eps (AList.update ?k [] a)"
    from Cons.prems False n
    have eq: "setupExternalIPServices_ips (logged nsc) svc eps (ip # ips) (a, s) =
              setupExternalIPServices_ips (logged nsc) svc eps ips (?a, snd ?r)"
      by (auto simp: case_prod_beta Let_def)
    from setupExternalIPForService_adds [OF n] obtain v where
      v: "filter add_server_call (rev (calls (snd ?r))) =
            filter add_server_call (rev (calls s))
            @ map (\<lambda>e. IpvsAddServer v (realServer nsc e))
                (filter (\<lambda>e. \<not> svc_local svc \<or> isLocal e) eps)"
      by (auto simp: mkDestination_def)
    from Cons.prems eq have "fst (setupExternalIPServices_ips (logged nsc) svc eps ips (?a, snd ?r)) = None"
      by simp
    from Cons.IH [OF this] obtain vs where
      vs: "length vs = length ips"
          "filter add_server_call
             (rev (calls (snd (snd (setupExternalIPServices_ips (logged nsc) svc eps ips (?a, snd ?r)))))) =
           filter add_server_call (rev (calls (snd ?r)))
           @ concat (map (\<lambda>v. map (\<lambda>e. IpvsAddServer v
                                 (if directServerReturn svc
                                     \<and> directServerReturnMethod svc = tunnelInterfaceType nsc
                                  then tunnelServer nsc e else realServer nsc e))
                           (filter (\<lambda>e. \<not> svc_local svc \<or> isLocal e) eps)) vs)"
      by blast
    from vs v False eq show ?thesis
      by (intro exI [of _ "v # vs"]) auto
  qed
qed

text \<open>One service of the external-IP pass whose setups all return nil.\<close>

lemma setupExternalIPServices_step:
  assumes "\<not> (svc_local svc \<and> \<not> hasActiveEndpoints (endpointsOf em k))"
    and "fst (setupExternalIPServices_loop (logged nsc) em [(k, svc)] (a1, s1)) = None"
  shows "\<exists>vs. length vs = length (extIPSet_List svc)
     \<and> filter add_server_call
         (rev (calls (snd (snd (setupExternalIPServices_loop (logged nsc) em [(k, svc)] (a1, s1)))))) =
       filter add_server_call (rev (calls s1))
       @ concat (map (\<lambda>v. map (\<lambda>e. IpvsAddServer v
                                 (if directServerReturn svc
                                     \<and> directServerReturnMethod svc = tunnelInterfaceType nsc
                                  then tunnelServer nsc e else realServer nsc e))
                           (filter (localPolicy svc (endpointsOf em k)) (endpointsOf em k))) vs)"
proof (cases "extIPSet_List svc = []")
  case True
  then show ?thesis by (intro exI [of _ "[]"]) (simp add: Let_def)
next
  case False
  let ?r = "setupExternalIPServices_ips (logged nsc) svc (endpointsOf em k) (extIPSet_List svc) (a1, s1)"
  from assms(1)
  have f: "filter (localPolicy svc (endpointsOf em k)) (endpointsOf em k) =
           filter (\<lambda>e. \<not> svc_local svc \<or> isLocal e) (endpointsOf em k)"
    by (simp add: localPolicy_guarded cong: filter_cong)
  from assms False have n: "fst ?r = None"
    by (auto simp: Let_def case_prod_beta setupExternalIPServices_loop_Nil split: option.splits)
  with assms False
  have eq: "setupExternalIPServices_loop (logged nsc) em [(k, svc)] (a1, s1) = (None, snd ?r)"
    by (auto simp: Let_def case_prod_beta setupExternalIPServices_loop_Nil split: option.splits)
  from setupExternalIPServices_ips_adds [OF n] show ?thesis
    unfolding eq f by simp
qed

subsection \<open>The real servers of a service, in the pass over a whole map\<close>

lemma case_nil_result:
  "fst r = None \<Longrightarrow> (case r of (None, p') \<Rightarrow> f p' | (Some e, p') \<Rightarrow> g e p') = f (snd r)"
  by (cases r) auto

lemma setupClusterIPServices_snoc:
  assumes P: "setupClusterIPServices (logged nsc) pre em a s = (None, a1, s1)"
    and L: "fst (ipvsGetServices (ln nsc) (fst (host s))) = Inr svcs"
    and A: "getKubeDummyInterface (ln nsc) (fst (host s1)) = (Inr iface, h2)"
      "ipAddrAdd (ln nsc) iface (IP_String (clusterIP svc)) True h2 = (None, h3)"
      "fst (ipvsAddService (ln nsc) svcs (clusterIP svc)
                (convertSvcProtoToSysCallProto (svc_protocol svc)) (word_of_int (svc_port svc))
                (sessionAffinity svc) (sessionAffinityTimeoutSeconds svc) (scheduler svc)
                (svc_flags svc) h3) = (v, None)"
  shows "rev (calls (snd (snd (setupClusterIPServices (logged nsc) (pre @ [(k, svc)]) em a s)))) =
           rev (calls s1)
           @ [GetKubeDummyInterface, IpAddrAdd iface (IP_String (clusterIP svc)) True,
              IpvsAddService (clusterIP svc) (convertSvcProtoToSysCallProto (svc_protocol svc))
                (word_of_int (svc_port svc))]
           @ map (\<lambda>e. IpvsAddServer v (realServer nsc e))
               (filter (localPolicy svc (endpointsOf em k)) (endpointsOf em k))"
    and "setupClusterIPServices (logged nsc) (pre @ (k, svc) # post) em a s =
           setupClusterIPServices_loop (logged nsc) em svcs post
             (snd (setupClusterIPServices (logged nsc) (pre @ [(k, svc)]) em a s))"
proof -
  let ?s0 = "snd (hcall (ipvsGetServices (ln (logged nsc))) s)"
  note pl = setupClusterIPServices_listed [OF L]
  from P have lp: "setupClusterIPServices_loop (logged nsc) em svcs pre (a, ?s0) = (None, a1, s1)"
    by (simp only: pl)
  have m: "setupClusterIPServices (logged nsc) (pre @ [(k, svc)]) em a s =
           setupClusterIPServices_loop (logged nsc) em svcs [(k, svc)] (a1, s1)"
    by (simp only: pl setupClusterIPServices_loop_append lp) simp
  note st = setupClusterIPServices_step [OF A, of em k a1]
  from st show "rev (calls (snd (snd (setupClusterIPServices (logged nsc) (pre @ [(k, svc)]) em a s)))) =
           rev (calls s1)
           @ [GetKubeDummyInterface, IpAddrAdd iface (IP_String (clusterIP svc)) True,
              IpvsAddService (clusterIP svc) (convertSvcProtoToSysCallProto (svc_protocol svc))
                (word_of_int (svc_port svc))]
           @ map (\<lambda>e. IpvsAddServer v (realServer nsc e))
               (filter (localPolicy svc (endpointsOf em k)) (endpointsOf em k))"
    by (simp add: m mkDestination_def rev_map)
  have "setupClusterIPServices (logged nsc) (pre @ (k, svc) # post) em a s =
        setupClusterIPServices_loop (logged nsc) em svcs ((pre @ [(k, svc)]) @ post) (a, ?s0)"
    by (simp only: pl) simp
  also have "\<dots> = setupClusterIPServices_loop (logged nsc) em svcs post
             (snd (setupClusterIPServices_loop (logged nsc) em svcs (pre @ [(k, svc)]) (a, ?s0)))"
    using st m pl [of "pre @ [(k, svc)]" em a]
    by (simp only: setupClusterIPServices_loop_append [of _ _ _ "pre @ [(k, svc)]" post])
       (simp add: case_nil_result)
  finally show "setupClusterIPServices (logged nsc) (pre @ (k, svc) # post) em a s =
           setupClusterIPServices_loop (logged nsc) em svcs post
             (snd (setupClusterIPServices (logged nsc) (pre @ [(k, svc)]) em a s))"
    by (simp only: pl)
qed

lemma setupNodePortServices_snoc_tie:
  assumes L: "fst (ipvsGetServices (ln nsc) (fst (host s))) = Inr svcs"
  shows "setupNodePortServices (logged nsc) (pre @ (k, svc) # post) em a s =
           (None, setupNodePortServices_loop (logged nsc) em svcs post
                    (snd (setupNodePortServices (logged nsc) (pre @ [(k, svc)]) em a s)))"
proof -
  note pl = setupNodePortServices_listed [OF L]
  have "pre @ (k, svc) # post = (pre @ [(k, svc)]) @ post" by simp
  then show ?thesis
    by (simp only: pl setupNodePortServices_loop_append [of _ _ _ "pre @ [(k, svc)]" post] snd_conv)
qed

lemma setupNodePortServices_snoc:
  assumes P: "setupNodePortServices (logged nsc) pre em a s = (None, a1, s1)"
    and L: "fst (ipvsGetServices (ln nsc) (fst (host s))) = Inr svcs"
    and G: "nodePort svc \<noteq> 0"
      "\<not> (svc_local svc \<and> \<not> hasActiveEndpoints (endpointsOf em k))"
      "\<not> nodeportBindOnAllIP nsc"
    and A: "fst (ipvsAddService (ln nsc) svcs (nodeIP nsc)
                (convertSvcProtoToSysCallProto (svc_protocol svc)) (word_of_int (nodePort svc))
                (sessionAffinity svc) (sessionAffinityTimeoutSeconds svc) (scheduler svc)
                (svc_flags svc) (fst (host s1))) = (v, None)"
  shows "rev (calls (snd (snd (setupNodePortServices (logged nsc) (pre @ [(k, svc)]) em a s)))) =
           rev (calls s1)
           @ [IpvsAddService (nodeIP nsc) (convertSvcProtoToSysCallProto (svc_protocol svc))
                (word_of_int (nodePort svc))]
           @ map (\<lambda>e. IpvsAddServer v (realServer nsc e))
               (filter (localPolicy svc (endpointsOf em k)) (endpointsOf em k))"
proof -
  let ?s0 = "snd (hcall (ipvsGetServices (ln (logged nsc))) s)"
  note pl = setupNodePortServices_listed [OF L]
  from P have lp: "setupNodePortServices_loop (logged nsc) em svcs pre (a, ?s0) = (a1, s1)"
    by (simp only: pl) simp
  have m: "snd (setupNodePortServices (logged nsc) (pre @ [(k, svc)]) em a s) =
           setupNodePortServices_loop (logged nsc) em svcs [(k, svc)] (a1, s1)"
    by (simp only: pl setupNodePortServices_loop_append lp snd_conv)
  from setupNodePortServices_step [OF G A, of a1] show ?thesis
    by (simp add: m mkDestination_def rev_map)
qed

lemma setupNodePortServices_snoc_all:
  assumes P: "setupNodePortServices (logged nsc) pre em a s = (None, a1, s1)"
    and L: "fst (ipvsGetServices (ln nsc) (fst (host s))) = Inr svcs"
    and G: "nodePort svc \<noteq> 0"
      "\<not> (svc_local svc \<and> \<not> hasActiveEndpoints (endpointsOf em k))"
      "nodeportBindOnAllIP nsc"
    and A: "getAllLocalIPs (ext nsc) (fst (host s1)) = (Inr addrs, h2)" "addrs \<noteq> []"
  shows "\<exists>handles. length handles = length addrs
     \<and> rev (calls (snd (snd (setupNodePortServices (logged nsc) (pre @ [(k, svc)]) em a s)))) =
         rev (calls s1)
         @ GetAllLocalIPs
         # map (\<lambda>ad. IpvsAddService ad (convertSvcProtoToSysCallProto (svc_protocol svc))
                        (word_of_int (nodePort svc))) addrs
         @ concat (map (\<lambda>e. map (\<lambda>h. IpvsAddServer h (realServer nsc e)) handles)
                     (filter (localPolicy svc (endpointsOf em k)) (endpointsOf em k)))"
proof -
  let ?s0 = "snd (hcall (ipvsGetServices (ln (logged nsc))) s)"
  note pl = setupNodePortServices_listed [OF L]
  from P have lp: "setupNodePortServices_loop (logged nsc) em svcs pre (a, ?s0) = (a1, s1)"
    by (simp only: pl) simp
  have m: "snd (setupNodePortServices (logged nsc) (pre @ [(k, svc)]) em a s) =
           setupNodePortServices_loop (logged nsc) em svcs [(k, svc)] (a1, s1)"
    by (simp only: pl setupNodePortServices_loop_append lp snd_conv)
  from setupNodePortServices_step_all [OF G A, of svcs a1] obtain handles where
    h: "length handles = length addrs"
       "calls (snd (setupNodePortServices_loop (logged nsc) em svcs [(k, svc)] (a1, s1))) =
         rev (concat (map (\<lambda>e. map (\<lambda>h. IpvsAddServer h (mkDestination nsc e)) handles)
                        (filter (localPolicy svc (endpointsOf em k)) (endpointsOf em k))))
         @ rev (map (\<lambda>ad. IpvsAddService ad (convertSvcProtoToSysCallProto (svc_protocol svc))
                             (word_of_int (nodePort svc))) addrs)
         @ GetAllLocalIPs # calls s1"
    by blast
  then show ?thesis
    by (intro exI [of _ handles]) (simp add: m mkDestination_def)
qed

lemma setupExternalIPServices_snoc:
  assumes P: "setupExternalIPServices (logged nsc) pre em a s = (None, a1, s1)"
    and G: "\<not> (svc_local svc \<and> \<not> hasActiveEndpoints (endpointsOf em k))"
    and N: "fst (setupExternalIPServices (logged nsc) (pre @ [(k, svc)]) em a s) = None"
  shows "\<exists>vs. length vs = length (extIPSet_List svc)
     \<and> filter add_server_call
         (rev (calls (snd (snd (setupExternalIPServices (logged nsc) (pre @ [(k, svc)]) em a s))))) =
       filter add_server_call (rev (calls s1))
       @ concat (map (\<lambda>v. map (\<lambda>e. IpvsAddServer v
                                 (if directServerReturn svc
                                     \<and> directServerReturnMethod svc = tunnelInterfaceType nsc
                                  then tunnelServer nsc e else realServer nsc e))
                           (filter (localPolicy svc (endpointsOf em k)) (endpointsOf em k))) vs)"
    and "setupExternalIPServices (logged nsc) (pre @ (k, svc) # post) em a s =
           setupExternalIPServices_loop (logged nsc) em post
             (snd (setupExternalIPServices (logged nsc) (pre @ [(k, svc)]) em a s))"
proof -
  from P have m: "setupExternalIPServices (logged nsc) (pre @ [(k, svc)]) em a s =
                  setupExternalIPServices_loop (logged nsc) em [(k, svc)] (a1, s1)"
    by (simp add: setupExternalIPServices_def setupExternalIPServices_loop_append)
  with N have n: "fst (setupExternalIPServices_loop (logged nsc) em [(k, svc)] (a1, s1)) = None"
    by simp
  from setupExternalIPServices_step [OF G n] show "\<exists>vs. length vs = length (extIPSet_List svc)
     \<and> filter add_server_call
         (rev (calls (snd (snd (setupExternalIPServices (logged nsc) (pre @ [(k, svc)]) em a s))))) =
       filter add_server_call (rev (calls s1))
       @ concat (map (\<lambda>v. map (\<lambda>e. IpvsAddServer v
                                 (if directServerReturn svc
                                     \<and> directServerReturnMethod svc = tunnelInterfaceType nsc
                                  then tunnelServer nsc e else realServer nsc e))
                           (filter (localPolicy svc (endpointsOf em k)) (endpointsOf em k))) vs)"
    by (simp only: m)
  have "pre @ (k, svc) # post = (pre @ [(k, svc)]) @ post" by simp
  with N show "setupExternalIPServices (logged nsc) (pre @ (k, svc) # post) em a s =
           setupExternalIPServices_loop (logged nsc) em post
             (snd (setupExternalIPServices (logged nsc) (pre @ [(k, svc)]) em a s))"
    by (simp only: setupExternalIPServices_def
        setupExternalIPServices_loop_append [of _ _ "pre @ [(k, svc)]" post] case_nil_result)
qed


text \<open>
  Runs on the in-memory node. A cluster-IP pass over two services, the second local with
  one local and one remote endpoint (the specification's scenario S2); a node-port pass
  and an external-IP pass over that local service; and a node-port pass on the node that
  binds node ports on two addresses and cannot create the virtual service on the second.
  Every pass adds the local endpoint only.
\<close>

lemma c4_cluster_hyps:
  "(setupClusterIPServices (logged node_nsc) [(''default/a'', svc_a)] [(''default/a'', [pod_local]), (''default/b'', [pod_local, pod_remote])] [] (start empty_node [] [])) = (None, [(''10.0.0.1-tcp-80'', [''10.1.0.2:8080''])], \<lparr>host = (after_a_node,
              [IpvsAddServer (Some \<lparr>Address = Some ''10.0.0.1'', Protocol = 6, Port = 80, FWMark = 0\<rparr>)
                 \<lparr>dAddress = Some ''10.1.0.2'', dAddressFamily = 2, dConnectionFlags = 0, dPort = 8080, dWeight = 1\<rparr>,
               IpvsAddService (Some ''10.0.0.1'') 6 80,
               IpAddrAdd ''kube-dummy-if'' ''10.0.0.1'' True, GetKubeDummyInterface,
               IpvsGetServices]),
      fwMarkMap = [], metricsMap = []\<rparr>)
   \<and> fst (ipvsGetServices (ln node_nsc) (fst (host (start empty_node [] [])))) = Inr []
   \<and> getKubeDummyInterface (ln node_nsc) (fst (host \<lparr>host = (after_a_node,
              [IpvsAddServer (Some \<lparr>Address = Some ''10.0.0.1'', Protocol = 6, Port = 80, FWMark = 0\<rparr>)
                 \<lparr>dAddress = Some ''10.1.0.2'', dAddressFamily = 2, dConnectionFlags = 0, dPort = 8080, dWeight = 1\<rparr>,
               IpvsAddService (Some ''10.0.0.1'') 6 80,
               IpAddrAdd ''kube-dummy-if'' ''10.0.0.1'' True, GetKubeDummyInterface,
               IpvsGetServices]),
      fwMarkMap = [], metricsMap = []\<rparr>)) = (Inr ''kube-dummy-if'', after_a_node)
   \<and> ipAddrAdd (ln node_nsc) ''kube-dummy-if'' (IP_String (clusterIP local_b)) True after_a_node = (None, (after_a_node\<lparr>node_addrs := [''10.0.0.1'', ''10.0.0.2'']\<rparr>))
   \<and> fst (ipvsAddService (ln node_nsc) [] (clusterIP local_b)
            (convertSvcProtoToSysCallProto (svc_protocol local_b)) (word_of_int (svc_port local_b))
            (sessionAffinity local_b) (sessionAffinityTimeoutSeconds local_b) (scheduler local_b)
            (svc_flags local_b) (after_a_node\<lparr>node_addrs := [''10.0.0.1'', ''10.0.0.2'']\<rparr>)) = ((Some \<lparr>Address = Some ''10.0.0.2'', Protocol = 6, Port = 80, FWMark = 0\<rparr>), None)"
  by (simp add: pass_defs after_a_node_def svc_a_def svc_b_def local_b_def local_nodeport_def local_external_def web_nodeport_def web_external_def web_def pod_local_def pod_remote_def pod_third_def ext_vs_def localPolicy_def add_server_call_def node_eval)

lemma c4_cluster_run:
  "rev (calls \<lparr>host = (after_a_node,
              [IpvsAddServer (Some \<lparr>Address = Some ''10.0.0.1'', Protocol = 6, Port = 80, FWMark = 0\<rparr>)
                 \<lparr>dAddress = Some ''10.1.0.2'', dAddressFamily = 2, dConnectionFlags = 0, dPort = 8080, dWeight = 1\<rparr>,
               IpvsAddService (Some ''10.0.0.1'') 6 80,
               IpAddrAdd ''kube-dummy-if'' ''10.0.0.1'' True, GetKubeDummyInterface,
               IpvsGetServices]),
      fwMarkMap = [], metricsMap = []\<rparr>)
     @ [GetKubeDummyInterface, IpAddrAdd ''kube-dummy-if'' (IP_String (clusterIP local_b)) True,
        IpvsAddService (clusterIP local_b) (convertSvcProtoToSysCallProto (svc_protocol local_b))
          (word_of_int (svc_port local_b))]
     @ map (\<lambda>e. IpvsAddServer (Some \<lparr>Address = Some ''10.0.0.2'', Protocol = 6, Port = 80, FWMark = 0\<rparr>) \<lparr>dAddress = ParseIP (ext node_nsc) (ep_ip e), dAddressFamily = AF_INET, dConnectionFlags = 0, dPort = word_of_int (ep_port e), dWeight = 1\<rparr>)
         (filter (localPolicy local_b (endpointsOf [(''default/a'', [pod_local]), (''default/b'', [pod_local, pod_remote])] ''default/b'')) (endpointsOf [(''default/a'', [pod_local]), (''default/b'', [pod_local, pod_remote])] ''default/b'')) =
   [IpvsGetServices,
        GetKubeDummyInterface, IpAddrAdd ''kube-dummy-if'' ''10.0.0.1'' True,
        IpvsAddService (Some ''10.0.0.1'') 6 80,
        IpvsAddServer (Some \<lparr>Address = Some ''10.0.0.1'', Protocol = 6, Port = 80, FWMark = 0\<rparr>)
          \<lparr>dAddress = Some ''10.1.0.2'', dAddressFamily = 2, dConnectionFlags = 0, dPort = 8080, dWeight = 1\<rparr>,
        GetKubeDummyInterface, IpAddrAdd ''kube-dummy-if'' ''10.0.0.2'' True,
        IpvsAddService (Some ''10.0.0.2'') 6 80,
        IpvsAddServer (Some \<lparr>Address = Some ''10.0.0.2'', Protocol = 6, Port = 80, FWMark = 0\<rparr>)
          \<lparr>dAddress = Some ''10.1.0.2'', dAddressFamily = 2, dConnectionFlags = 0, dPort = 8080, dWeight = 1\<rparr>]"
  by (simp add: pass_defs after_a_node_def svc_a_def svc_b_def local_b_def local_nodeport_def local_external_def web_nodeport_def web_external_def web_def pod_local_def pod_remote_def pod_third_def ext_vs_def localPolicy_def add_server_call_def node_eval)

lemma c4_nodeport_hyps:
  "(setupNodePortServices (logged node_nsc) [] [(''default/web'', [pod_local, pod_remote])] [] (start empty_node [] [])) = (None, [], \<lparr>host = (empty_node, [IpvsGetServices]), fwMarkMap = [], metricsMap = []\<rparr>)
   \<and> fst (ipvsGetServices (ln node_nsc) (fst (host (start empty_node [] [])))) = Inr []
   \<and> nodePort local_nodeport \<noteq> 0
   \<and> \<not> (svc_local local_nodeport \<and> \<not> hasActiveEndpoints (endpointsOf [(''default/web'', [pod_local, pod_remote])] ''default/web''))
   \<and> \<not> nodeportBindOnAllIP node_nsc
   \<and> fst (ipvsAddService (ln node_nsc) [] (nodeIP node_nsc)
            (convertSvcProtoToSysCallProto (svc_protocol local_nodeport)) (word_of_int (nodePort local_nodeport))
            (sessionAffinity local_nodeport) (sessionAffinityTimeoutSeconds local_nodeport) (scheduler local_nodeport)
            (svc_flags local_nodeport) (fst (host \<lparr>host = (empty_node, [IpvsGetServices]), fwMarkMap = [], metricsMap = []\<rparr>))) = ((Some \<lparr>Address = Some ''192.168.1.10'', Protocol = 6, Port = 30080, FWMark = 0\<rparr>), None)"
  by (simp add: pass_defs after_a_node_def svc_a_def svc_b_def local_b_def local_nodeport_def local_external_def web_nodeport_def web_external_def web_def pod_local_def pod_remote_def pod_third_def ext_vs_def localPolicy_def add_server_call_def node_eval)

lemma c4_nodeport_run:
  "rev (calls \<lparr>host = (empty_node, [IpvsGetServices]), fwMarkMap = [], metricsMap = []\<rparr>)
     @ [IpvsAddService (nodeIP node_nsc) (convertSvcProtoToSysCallProto (svc_protocol local_nodeport))
          (word_of_int (nodePort local_nodeport))]
     @ map (\<lambda>e. IpvsAddServer (Some \<lparr>Address = Some ''192.168.1.10'', Protocol = 6, Port = 30080, FWMark = 0\<rparr>) \<lparr>dAddress = ParseIP (ext node_nsc) (ep_ip e), dAddressFamily = AF_INET, dConnectionFlags = 0, dPort = word_of_int (ep_port e), dWeight = 1\<rparr>)
         (filter (localPolicy local_nodeport (endpointsOf [(''default/web'', [pod_local, pod_remote])] ''default/web'')) (endpointsOf [(''default/web'', [pod_local, pod_remote])] ''default/web'')) =
   [IpvsGetServices, IpvsAddService (Some ''192.168.1.10'') 6 30080,
        IpvsAddServer (Some \<lparr>Address = Some ''192.168.1.10'', Protocol = 6, Port = 30080, FWMark = 0\<rparr>)
          \<lparr>dAddress = Some ''10.1.0.2'', dAddressFamily = 2, dConnectionFlags = 0, dPort = 8080, dWeight = 1\<rparr>]"
  by (simp add: pass_defs after_a_node_def svc_a_def svc_b_def local_b_def local_nodeport_def local_external_def web_nodeport_def web_external_def web_def pod_local_def pod_remote_def pod_third_def ext_vs_def localPolicy_def add_server_call_def node_eval)

lemma c4_bindall_hyps:
  "(setupNodePortServices (logged bindall_nsc) [] [(''default/web'', [pod_local, pod_remote])] [] (start empty_node [] [])) = (None, [], \<lparr>host = (empty_node, [IpvsGetServices]), fwMarkMap = [], metricsMap = []\<rparr>)
   \<and> fst (ipvsGetServices (ln bindall_nsc) (fst (host (start empty_node [] [])))) = Inr []
   \<and> nodePort local_nodeport \<noteq> 0
   \<and> \<not> (svc_local local_nodeport \<and> \<not> hasActiveEndpoints (endpointsOf [(''default/web'', [pod_local, pod_remote])] ''default/web''))
   \<and> nodeportBindOnAllIP bindall_nsc
   \<and> getAllLocalIPs (ext bindall_nsc) (fst (host \<lparr>host = (empty_node, [IpvsGetServices]), fwMarkMap = [], metricsMap = []\<rparr>)) = (Inr [Some ''192.168.1.10'', Some ''10.0.0.5''], empty_node)
   \<and> [Some ''192.168.1.10'', Some ''10.0.0.5''] \<noteq> []
   \<and> length [Some ''192.168.1.10'', Some ''10.0.0.5''] = 2"
  by (simp add: bindall_nsc_def pass_defs after_a_node_def svc_a_def svc_b_def local_b_def local_nodeport_def local_external_def web_nodeport_def web_external_def web_def pod_local_def pod_remote_def pod_third_def ext_vs_def localPolicy_def add_server_call_def node_eval)

lemma c4_bindall_run:
  "rev (calls \<lparr>host = (empty_node, [IpvsGetServices]), fwMarkMap = [], metricsMap = []\<rparr>)
     @ GetAllLocalIPs
     # map (\<lambda>ad. IpvsAddService ad (convertSvcProtoToSysCallProto (svc_protocol local_nodeport))
                    (word_of_int (nodePort local_nodeport))) [Some ''192.168.1.10'', Some ''10.0.0.5'']
     @ concat (map (\<lambda>e. map (\<lambda>h. IpvsAddServer h \<lparr>dAddress = ParseIP (ext bindall_nsc) (ep_ip e), dAddressFamily = AF_INET, dConnectionFlags = 0, dPort = word_of_int (ep_port e), dWeight = 1\<rparr>) handles)
                 (filter (localPolicy local_nodeport (endpointsOf [(''default/web'', [pod_local, pod_remote])] ''default/web'')) (endpointsOf [(''default/web'', [pod_local, pod_remote])] ''default/web''))) =
   [IpvsGetServices, GetAllLocalIPs, IpvsAddService (Some ''192.168.1.10'') 6 30080,
             IpvsAddService (Some ''10.0.0.5'') 6 30080]
            @ map (\<lambda>h. IpvsAddServer h
                       \<lparr>dAddress = Some ''10.1.0.2'', dAddressFamily = 2, dConnectionFlags = 0, dPort = 8080, dWeight = 1\<rparr>) handles"
  by (simp add: bindall_nsc_def pass_defs after_a_node_def svc_a_def svc_b_def local_b_def local_nodeport_def local_external_def web_nodeport_def web_external_def web_def pod_local_def pod_remote_def pod_third_def ext_vs_def localPolicy_def add_server_call_def node_eval)

lemma c4_external_hyps:
  "setupExternalIPServices (logged node_nsc) [] [(''default/web'', [pod_local, pod_remote])] [] (start empty_node [] []) = (None, [], (start empty_node [] []))
   \<and> \<not> (svc_local local_external \<and> \<not> hasActiveEndpoints (endpointsOf [(''default/web'', [pod_local, pod_remote])] ''default/web''))
   \<and> fst (setupExternalIPServices (logged node_nsc) ([] @ [(''default/web'', local_external)]) [(''default/web'', [pod_local, pod_remote])] [] (start empty_node [] [])) = None
   \<and> length (extIPSet_List local_external) = 1"
  by (simp add: pass_defs after_a_node_def svc_a_def svc_b_def local_b_def local_nodeport_def local_external_def web_nodeport_def web_external_def web_def pod_local_def pod_remote_def pod_third_def ext_vs_def localPolicy_def add_server_call_def node_eval)

lemma c4_external_run:
  "filter add_server_call (rev (calls (start empty_node [] [])))
     @ concat (map (\<lambda>v. map (\<lambda>e. IpvsAddServer v
                               (if directServerReturn local_external
                                   \<and> directServerReturnMethod local_external = tunnelInterfaceType node_nsc
                                then \<lparr>dAddress = ParseIP (ext node_nsc) (ep_ip e), dAddressFamily = AF_INET, dConnectionFlags = ConnectionFlagTunnel, dPort = word_of_int (ep_port e), dWeight = 1\<rparr>
                                else \<lparr>dAddress = ParseIP (ext node_nsc) (ep_ip e), dAddressFamily = AF_INET, dConnectionFlags = 0, dPort = word_of_int (ep_port e), dWeight = 1\<rparr>))
                         (filter (localPolicy local_external (endpointsOf [(''default/web'', [pod_local, pod_remote])] ''default/web'')) (endpointsOf [(''default/web'', [pod_local, pod_remote])] ''default/web''))) vs) =
   map (\<lambda>v. IpvsAddServer v \<lparr>dAddress = Some ''10.1.0.2'', dAddressFamily = 2, dConnectionFlags = 0, dPort = 8080, dWeight = 1\<rparr>) vs"
  by (simp add: pass_defs after_a_node_def svc_a_def svc_b_def local_b_def local_nodeport_def local_external_def web_nodeport_def web_external_def web_def pod_local_def pod_remote_def pod_third_def ext_vs_def localPolicy_def add_server_call_def node_eval)

lemma c4_external_adds:
  "filter add_server_call (rev (calls (snd (snd (setupExternalIPServices (logged node_nsc) [(''default/web'', local_external)] [(''default/web'', [pod_local, pod_remote])] [] (start empty_node [] [])))))) =
     [IpvsAddServer (Some ext_vs) \<lparr>dAddress = Some ''10.1.0.2'', dAddressFamily = 2, dConnectionFlags = 0, dPort = 8080, dWeight = 1\<rparr>]"
  by (simp add: pass_defs after_a_node_def svc_a_def svc_b_def local_b_def local_nodeport_def local_external_def web_nodeport_def web_external_def web_def pod_local_def pod_remote_def pod_third_def ext_vs_def localPolicy_def add_server_call_def node_eval)



subsection \<open>The cluster IP on the dummy interface\<close>

lemma active_append_keeps: "map_of a k \<noteq> None \<Longrightarrow> map_of (active_append a k' x) k \<noteq> None"
  by (simp add: active_append_def update_conv')

lemma setupClusterIPServices_endpoints_keeps:
  "map_of a k \<noteq> None \<Longrightarrow>
     map_of (fst (setupClusterIPServices_endpoints nsc svc eps v k' rest (a, s))) k \<noteq> None"
proof (induction rest arbitrary: a s)
  case Nil
  then show ?case by simp
next
  case (Cons e rest)
  have step: "map_of (fst (setupClusterIPServices_endpoints nsc svc eps v k' rest (a', s'))) k \<noteq> None"
    if "map_of a' k \<noteq> None" for a' s'
    using that by (rule Cons.IH)
  from Cons.prems have app: "map_of (active_append a k' x) k \<noteq> None" for x
    by (rule active_append_keeps)
  show ?case
    by (auto simp del: not_None_eq split: prod.splits option.splits
        intro!: step app Cons.prems)
qed

text \<open>
  One service of the cluster-IP pass once the dummy interface is there: by the answer to
  \<open>ipAddrAdd\<close> and to \<open>ipvsAddService\<close>.
\<close>

lemma setupClusterIPServices_step_skipped:
  assumes "getKubeDummyInterface (ln nsc) (fst (host s1)) = (Inr iface, h2)"
    and "ipAddrAdd (ln nsc) iface (IP_String (clusterIP svc)) True h2 = (Some e, h3)"
  shows "fst (setupClusterIPServices_loop (logged nsc) em svcs [(k, svc)] (a1, s1)) = None"
    and "fst (snd (setupClusterIPServices_loop (logged nsc) em svcs [(k, svc)] (a1, s1))) = a1"
    and "calls (snd (snd (setupClusterIPServices_loop (logged nsc) em svcs [(k, svc)] (a1, s1)))) =
           IpAddrAdd iface (IP_String (clusterIP svc)) True # GetKubeDummyInterface # calls s1"
  using assms
  by (simp_all add: Let_def case_prod_beta setupClusterIPServices_loop_Nil)

lemma setupClusterIPServices_step_refused:
  assumes "getKubeDummyInterface (ln nsc) (fst (host s1)) = (Inr iface, h2)"
    and "ipAddrAdd (ln nsc) iface (IP_String (clusterIP svc)) True h2 = (None, h3)"
    and "fst (ipvsAddService (ln nsc) svcs (clusterIP svc)
                (convertSvcProtoToSysCallProto (svc_protocol svc)) (word_of_int (svc_port svc))
                (sessionAffinity svc) (sessionAffinityTimeoutSeconds svc) (scheduler svc)
                (svc_flags svc) h3) = (v, Some err)"
  shows "fst (setupClusterIPServices_loop (logged nsc) em svcs [(k, svc)] (a1, s1)) = None"
    and "calls (snd (snd (setupClusterIPServices_loop (logged nsc) em svcs [(k, svc)] (a1, s1)))) =
           IpvsAddService (clusterIP svc) (convertSvcProtoToSysCallProto (svc_protocol svc))
             (word_of_int (svc_port svc))
           # IpAddrAdd iface (IP_String (clusterIP svc)) True # GetKubeDummyInterface # calls s1"
  using assms
  by (simp_all add: Let_def case_prod_beta setupClusterIPServices_loop_Nil)

lemma setupClusterIPServices_step_recorded:
  assumes "getKubeDummyInterface (ln nsc) (fst (host s1)) = (Inr iface, h2)"
    and "ipAddrAdd (ln nsc) iface (IP_String (clusterIP svc)) True h2 = (None, h3)"
    and "fst (ipvsAddService (ln nsc) svcs (clusterIP svc)
                (convertSvcProtoToSysCallProto (svc_protocol svc)) (word_of_int (svc_port svc))
                (sessionAffinity svc) (sessionAffinityTimeoutSeconds svc) (scheduler svc)
                (svc_flags svc) h3) = (v, None)"
  shows "map_of (fst (snd (setupClusterIPServices_loop (logged nsc) em svcs [(k, svc)] (a1, s1))))
           (generateIPPortID (IP_String (clusterIP svc)) (svc_protocol svc) (Itoa (svc_port svc)))
         \<noteq> None"
  using assms
  by (simp add: Let_def case_prod_beta setupClusterIPServices_loop_Nil
      setupClusterIPServices_endpoints_keeps update_conv')

lemma ipAddrAdd_adapter_answer:
  assumes "ipAddrAdd (ln nsc) = ipAddrAdd_adapter c netlinkAddrAdd"
    and "netlinkAddrAdd iface ip h2 = (r, h3)"
  shows "ipAddrAdd (ln nsc) iface ip addRoute h2 = (errorOtherThan r c, h3)"
  using assms by (simp add: ipAddrAdd_adapter_def)

lemma setupClusterIPServices_snoc_eq:
  assumes P: "setupClusterIPServices (logged nsc) pre em a s = (None, a1, s1)"
    and L: "fst (ipvsGetServices (ln nsc) (fst (host s))) = Inr svcs"
  shows "setupClusterIPServices (logged nsc) (pre @ [(k, svc)]) em a s =
           setupClusterIPServices_loop (logged nsc) em svcs [(k, svc)] (a1, s1)"
proof -
  note pl = setupClusterIPServices_listed [OF L]
  from P have lp: "setupClusterIPServices_loop (logged nsc) em svcs pre
                     (a, snd (hcall (ipvsGetServices (ln (logged nsc))) s)) = (None, a1, s1)"
    by (simp only: pl)
  show ?thesis
    by (simp only: pl setupClusterIPServices_loop_append lp) simp
qed

lemma setupClusterIPServices_tie:
  assumes L: "fst (ipvsGetServices (ln nsc) (fst (host s))) = Inr svcs"
    and N: "fst (setupClusterIPServices (logged nsc) (pre @ [(k, svc)]) em a s) = None"
  shows "setupClusterIPServices (logged nsc) (pre @ (k, svc) # post) em a s =
           setupClusterIPServices_loop (logged nsc) em svcs post
             (snd (setupClusterIPServices (logged nsc) (pre @ [(k, svc)]) em a s))"
proof -
  note pl = setupClusterIPServices_listed [OF L]
  have "pre @ (k, svc) # post = (pre @ [(k, svc)]) @ post" by simp
  with N show ?thesis
    by (simp only: pl setupClusterIPServices_loop_append [of _ _ _ "pre @ [(k, svc)]" post]
        case_nil_result)
qed


text \<open>
  Two runs. On a node whose dummy interface already carries 10.0.0.1, netlink answers
  "file exists", and the pass sets the service up and records its key. On a node where
  netlink refuses 10.0.0.1 with another error, the pass skips that service and sets up
  the next.
\<close>

lemma c6_present_hyps:
  "ipAddrAdd (ln netlink_nsc) = ipAddrAdd_adapter (IfaceHasAddr netlink_nsc) node_netlinkAddrAdd
   \<and> (setupClusterIPServices (logged netlink_nsc) [] [(''default/a'', [pod_local]), (''default/b'', [pod_remote])] [] (start present_node [] [])) = (None, [], \<lparr>host = (present_node, [IpvsGetServices]), fwMarkMap = [], metricsMap = []\<rparr>)
   \<and> fst (ipvsGetServices (ln netlink_nsc) (fst (host (start present_node [] [])))) = Inr []
   \<and> getKubeDummyInterface (ln netlink_nsc) (fst (host \<lparr>host = (present_node, [IpvsGetServices]), fwMarkMap = [], metricsMap = []\<rparr>)) = (Inr ''kube-dummy-if'', present_node)
   \<and> node_netlinkAddrAdd ''kube-dummy-if'' (IP_String (clusterIP svc_a)) present_node = (Some ''file exists'', present_node)
   \<and> fst (ipvsAddService (ln netlink_nsc) [] (clusterIP svc_a)
            (convertSvcProtoToSysCallProto (svc_protocol svc_a)) (word_of_int (svc_port svc_a))
            (sessionAffinity svc_a) (sessionAffinityTimeoutSeconds svc_a) (scheduler svc_a)
            (svc_flags svc_a) present_node) = ((Some \<lparr>Address = Some ''10.0.0.1'', Protocol = 6, Port = 80, FWMark = 0\<rparr>), None)
   \<and> Some ''file exists'' = Some (IfaceHasAddr netlink_nsc)"
  by (simp add: pass_defs present_node_def netlink_nsc_def denied_nsc_def node_netlinkAddrAdd_def denied_netlinkAddrAdd_def ipAddrAdd_adapter_def svc_a_def svc_b_def web_def pod_local_def pod_remote_def localPolicy_def node_eval)

lemma c6_present_run:
  "rev (calls \<lparr>host = (present_node, [IpvsGetServices]), fwMarkMap = [], metricsMap = []\<rparr>)
         @ [GetKubeDummyInterface, IpAddrAdd ''kube-dummy-if'' (IP_String (clusterIP svc_a)) True,
            IpvsAddService (clusterIP svc_a) (convertSvcProtoToSysCallProto (svc_protocol svc_a))
              (word_of_int (svc_port svc_a))]
         @ map (\<lambda>e. IpvsAddServer (Some \<lparr>Address = Some ''10.0.0.1'', Protocol = 6, Port = 80, FWMark = 0\<rparr>) \<lparr>dAddress = ParseIP (ext netlink_nsc) (ep_ip e), dAddressFamily = AF_INET, dConnectionFlags = 0, dPort = word_of_int (ep_port e), dWeight = 1\<rparr>)
             (filter (localPolicy svc_a (endpointsOf [(''default/a'', [pod_local]), (''default/b'', [pod_remote])] ''default/a'')) (endpointsOf [(''default/a'', [pod_local]), (''default/b'', [pod_remote])] ''default/a'')) =
   [IpvsGetServices, GetKubeDummyInterface, IpAddrAdd ''kube-dummy-if'' ''10.0.0.1'' True,
        IpvsAddService (Some ''10.0.0.1'') 6 80,
        IpvsAddServer (Some \<lparr>Address = Some ''10.0.0.1'', Protocol = 6, Port = 80, FWMark = 0\<rparr>)
          \<lparr>dAddress = Some ''10.1.0.2'', dAddressFamily = 2, dConnectionFlags = 0, dPort = 8080, dWeight = 1\<rparr>]
   \<and> (generateIPPortID (IP_String (clusterIP svc_a)) (svc_protocol svc_a) (Itoa (svc_port svc_a))) = ''10.0.0.1-tcp-80''"
  by (simp add: pass_defs present_node_def netlink_nsc_def denied_nsc_def node_netlinkAddrAdd_def denied_netlinkAddrAdd_def ipAddrAdd_adapter_def svc_a_def svc_b_def web_def pod_local_def pod_remote_def localPolicy_def node_eval)

lemma c6_denied_hyps:
  "ipAddrAdd (ln denied_nsc) = ipAddrAdd_adapter (IfaceHasAddr denied_nsc) denied_netlinkAddrAdd
   \<and> (setupClusterIPServices (logged denied_nsc) [] [(''default/a'', [pod_local]), (''default/b'', [pod_remote])] [] (start empty_node [] [])) = (None, [], \<lparr>host = (empty_node, [IpvsGetServices]), fwMarkMap = [], metricsMap = []\<rparr>)
   \<and> fst (ipvsGetServices (ln denied_nsc) (fst (host (start empty_node [] [])))) = Inr []
   \<and> getKubeDummyInterface (ln denied_nsc) (fst (host \<lparr>host = (empty_node, [IpvsGetServices]), fwMarkMap = [], metricsMap = []\<rparr>)) = (Inr ''kube-dummy-if'', empty_node)
   \<and> denied_netlinkAddrAdd ''kube-dummy-if'' (IP_String (clusterIP svc_a)) empty_node = (Some ''operation not permitted'', empty_node)
   \<and> fst (ipvsAddService (ln denied_nsc) [] (clusterIP svc_a)
            (convertSvcProtoToSysCallProto (svc_protocol svc_a)) (word_of_int (svc_port svc_a))
            (sessionAffinity svc_a) (sessionAffinityTimeoutSeconds svc_a) (scheduler svc_a)
            (svc_flags svc_a) empty_node) = ((Some \<lparr>Address = Some ''10.0.0.1'', Protocol = 6, Port = 80, FWMark = 0\<rparr>), None)
   \<and> Some ''operation not permitted'' \<noteq> (None :: error option)
   \<and> Some ''operation not permitted'' \<noteq> Some (IfaceHasAddr denied_nsc)"
  by (simp add: pass_defs present_node_def netlink_nsc_def denied_nsc_def node_netlinkAddrAdd_def denied_netlinkAddrAdd_def ipAddrAdd_adapter_def svc_a_def svc_b_def web_def pod_local_def pod_remote_def localPolicy_def node_eval)

lemma c6_denied_run:
  "rev (calls \<lparr>host = (empty_node, [IpvsGetServices]), fwMarkMap = [], metricsMap = []\<rparr>)
       @ [GetKubeDummyInterface, IpAddrAdd ''kube-dummy-if'' (IP_String (clusterIP svc_a)) True] =
     [IpvsGetServices, GetKubeDummyInterface, IpAddrAdd ''kube-dummy-if'' ''10.0.0.1'' True]"
  by (simp add: pass_defs present_node_def netlink_nsc_def denied_nsc_def node_netlinkAddrAdd_def denied_netlinkAddrAdd_def ipAddrAdd_adapter_def svc_a_def svc_b_def web_def pod_local_def pod_remote_def localPolicy_def node_eval)

lemma c6_denied_next:
  "rev (calls (snd (snd (setupClusterIPServices (logged denied_nsc) [(''default/a'', svc_a), (''default/b'', svc_b)] [(''default/a'', [pod_local]), (''default/b'', [pod_remote])] [] (start empty_node [] []))))) =
     [IpvsGetServices, GetKubeDummyInterface, IpAddrAdd ''kube-dummy-if'' ''10.0.0.1'' True,
        GetKubeDummyInterface, IpAddrAdd ''kube-dummy-if'' ''10.0.0.2'' True,
        IpvsAddService (Some ''10.0.0.2'') 6 80,
        IpvsAddServer (Some \<lparr>Address = Some ''10.0.0.2'', Protocol = 6, Port = 80, FWMark = 0\<rparr>)
          \<lparr>dAddress = Some ''10.1.0.3'', dAddressFamily = 2, dConnectionFlags = 0, dPort = 8080, dWeight = 1\<rparr>]"
  by (simp add: pass_defs present_node_def netlink_nsc_def denied_nsc_def node_netlinkAddrAdd_def denied_netlinkAddrAdd_def ipAddrAdd_adapter_def svc_a_def svc_b_def web_def pod_local_def pod_remote_def localPolicy_def node_eval)


end
